theory Spec2Isabelle
  imports Complex_Main
begin

section \<open>GalvaSim: the potential-calculation engine of \<^verbatim>\<open>script.js\<close>\<close>

text \<open>
  The development embeds the classes \<^verbatim>\<open>EnvironmentSettings\<close>,
  \<^verbatim>\<open>SimulationParameters\<close> and \<^verbatim>\<open>AdvancedElectrochemicalCell\<close> and the table
  \<^verbatim>\<open>STANDARD_REDUCTION_POTENTIALS\<close>.

  Numbers. A JavaScript number is an IEEE 754 double: \<^verbatim>\<open>NaN\<close>, one of the two
  infinities, or a finite value, which is modelled by the real number it denotes. An
  arithmetic operation on finite numbers returns the exact result rounded to the nearest
  double, a tie going to the even significand and a result beyond the largest double to
  an infinity; a decimal literal of the source denotes the double nearest to it. The sign
  of a zero is not modelled: \<^verbatim>\<open>toFixed\<close> and \<^verbatim>\<open>Math.log\<close> treat both zeros alike, and
  the program divides only by literals and by \<^verbatim>\<open>concCathode\<close> after the test that it is
  not zero. The fields of the two parameter classes hold finite numbers.
\<close>

subsection \<open>Doubles\<close>

datatype jsnum = NaN | PInf | NInf | Fin real

text \<open>\<open>pow2 k\<close> is \<open>2\<^sup>k\<close> for an integer \<open>k\<close>.\<close>

definition pow2 :: "int \<Rightarrow> real" where
  "pow2 k = (if 0 \<le> k then 2 ^ nat k else 1 / 2 ^ nat (- k))"

text \<open>The integer nearest to \<open>y\<close>, the even one of two.\<close>

definition round_half_even :: "real \<Rightarrow> int" where
  "round_half_even y =
     (if y - of_int \<lfloor>y\<rfloor> < 1 / 2 then \<lfloor>y\<rfloor>
      else if 1 / 2 < y - of_int \<lfloor>y\<rfloor> then \<lfloor>y\<rfloor> + 1
      else if even \<lfloor>y\<rfloor> then \<lfloor>y\<rfloor> else \<lfloor>y\<rfloor> + 1)"

text \<open>The exponent of the binade of \<open>x\<close>: the \<open>e\<close> with \<open>2\<^sup>e \<le> |x| < 2\<^sup>e\<^sup>+\<^sup>1\<close>, and \<open>-1022\<close>
  for the subnormal numbers below.\<close>

definition binade :: "real \<Rightarrow> int" where
  "binade x = max (- 1022) \<lfloor>log 2 \<bar>x\<bar>\<rfloor>"

text \<open>
  Rounding a real to a double (binary64, round to nearest, ties to even): the doubles of
  the binade of \<open>x\<close> are the multiples of \<open>2\<^sup>e\<^sup>-\<^sup>5\<^sup>2\<close>; \<open>x\<close> goes to the nearest of them, and to
  an infinity when that is \<open>2\<^sup>1\<^sup>0\<^sup>2\<^sup>4\<close> in magnitude.
\<close>

definition double_of :: "real \<Rightarrow> jsnum" where
  "double_of x =
     (if x = 0 then Fin 0
      else
        (let u = pow2 (binade x - 52);
             y = of_int (round_half_even (x / u)) * u
         in if 2 ^ 1024 \<le> \<bar>y\<bar> then (if 0 < x then PInf else NInf) else Fin y))"

fun js_neg :: "jsnum \<Rightarrow> jsnum" where
  "js_neg NaN = NaN"
| "js_neg PInf = NInf"
| "js_neg NInf = PInf"
| "js_neg (Fin x) = Fin (- x)"

text \<open>A decimal literal of the source; a negative one is the unary minus of a literal.\<close>

definition literal :: "real \<Rightarrow> jsnum" where
  "literal x = (if x < 0 then js_neg (double_of (- x)) else double_of x)"

fun js_add :: "jsnum \<Rightarrow> jsnum \<Rightarrow> jsnum" where
  "js_add NaN _ = NaN"
| "js_add _ NaN = NaN"
| "js_add PInf NInf = NaN"
| "js_add NInf PInf = NaN"
| "js_add PInf _ = PInf"
| "js_add _ PInf = PInf"
| "js_add NInf _ = NInf"
| "js_add _ NInf = NInf"
| "js_add (Fin x) (Fin y) = double_of (x + y)"

definition js_sub :: "jsnum \<Rightarrow> jsnum \<Rightarrow> jsnum" where
  "js_sub a b = js_add a (js_neg b)"

fun js_mul :: "jsnum \<Rightarrow> jsnum \<Rightarrow> jsnum" where
  "js_mul NaN _ = NaN"
| "js_mul _ NaN = NaN"
| "js_mul (Fin x) (Fin y) = double_of (x * y)"
| "js_mul (Fin x) PInf = (if x = 0 then NaN else if 0 < x then PInf else NInf)"
| "js_mul (Fin x) NInf = (if x = 0 then NaN else if 0 < x then NInf else PInf)"
| "js_mul PInf (Fin y) = (if y = 0 then NaN else if 0 < y then PInf else NInf)"
| "js_mul NInf (Fin y) = (if y = 0 then NaN else if 0 < y then NInf else PInf)"
| "js_mul PInf PInf = PInf"
| "js_mul NInf NInf = PInf"
| "js_mul PInf NInf = NInf"
| "js_mul NInf PInf = NInf"

text \<open>Division; a zero divisor is taken as \<open>+0\<close>.\<close>

fun js_div :: "jsnum \<Rightarrow> jsnum \<Rightarrow> jsnum" where
  "js_div NaN _ = NaN"
| "js_div _ NaN = NaN"
| "js_div (Fin x) (Fin y) =
     (if y = 0 then (if x = 0 then NaN else if 0 < x then PInf else NInf)
      else double_of (x / y))"
| "js_div (Fin x) PInf = Fin 0"
| "js_div (Fin x) NInf = Fin 0"
| "js_div PInf (Fin y) = (if 0 \<le> y then PInf else NInf)"
| "js_div NInf (Fin y) = (if 0 \<le> y then NInf else PInf)"
| "js_div PInf PInf = NaN"
| "js_div NInf NInf = NaN"
| "js_div PInf NInf = NaN"
| "js_div NInf PInf = NaN"

text \<open>
  \<^verbatim>\<open>Math.log\<close>. ECMAScript fixes its value at \<^verbatim>\<open>NaN\<close>, below zero, at zero, at 1 and at
  \<^verbatim>\<open>+Infinity\<close>; at any other number it is an approximation of the natural logarithm
  that the implementation chooses. That choice is the parameter \<open>lg\<close> of the model, and
  nothing is assumed about it.
\<close>

type_synonym logarithm = "real \<Rightarrow> jsnum"

fun Math_log :: "logarithm \<Rightarrow> jsnum \<Rightarrow> jsnum" where
  "Math_log lg NaN = NaN"
| "Math_log lg PInf = PInf"
| "Math_log lg NInf = NaN"
| "Math_log lg (Fin x) =
     (if x < 0 then NaN else if x = 0 then NInf else if x = 1 then Fin 0 else lg x)"

subsection \<open>Strings of numbers: \<^verbatim>\<open>toFixed\<close> and \<^verbatim>\<open>parseFloat\<close>\<close>

text \<open>
  A string value is either a spelled-out text or the text \<^verbatim>\<open>Number::toString(x)\<close> of a
  finite number of magnitude at least \<open>10\<^sup>2\<^sup>1\<close>, which \<^verbatim>\<open>toFixed\<close> falls back to. That
  text is in exponent notation with the shortest digits that identify the double; the
  model does not spell it out and keeps the number, which is what reading it back gives.
\<close>

datatype jsstring = Str string | NumberToString real

definition digit_char :: "nat \<Rightarrow> char" where
  "digit_char d = ''0123456789'' ! d"

fun decimal_digits :: "nat \<Rightarrow> string" where
  "decimal_digits n =
     (if n < 10 then [digit_char n] else decimal_digits (n div 10) @ [digit_char (n mod 10)])"

declare decimal_digits.simps [simp del]

text \<open>
  \<^verbatim>\<open>Number.prototype.toFixed(f)\<close>, following the steps of ECMAScript: a number that is
  not finite gives its name; otherwise the sign is split off, \<open>n\<close> is the integer with
  \<open>n / 10\<^sup>f\<close> closest to the magnitude (the larger one of two), its digits are padded with
  zeros to \<open>f + 1\<close> places and the point is set before the last \<open>f\<close> of them.
\<close>

definition toFixed :: "nat \<Rightarrow> jsnum \<Rightarrow> jsstring" where
  "toFixed f v =
     (case v of
        NaN \<Rightarrow> Str ''NaN''
      | PInf \<Rightarrow> Str ''Infinity''
      | NInf \<Rightarrow> Str ''-Infinity''
      | Fin x0 \<Rightarrow>
          (let s = (if x0 < 0 then ''-'' else '''');
               x = (if x0 < 0 then - x0 else x0)
           in if 10 ^ 21 \<le> x then NumberToString x0
              else
                (let n = nat \<lfloor>x * 10 ^ f + 1 / 2\<rfloor>;
                     m = (if n = 0 then ''0'' else decimal_digits n);
                     k = length m;
                     m = (if f \<noteq> 0 \<and> k \<le> f then replicate (f + 1 - k) (CHR ''0'') @ m else m);
                     k = length m
                 in if f \<noteq> 0 then Str (s @ take (k - f) m @ ''.'' @ drop (k - f) m)
                    else Str (s @ m))))"

definition is_digit :: "char \<Rightarrow> bool" where
  "is_digit c = (c \<in> set ''0123456789'')"

definition digit_value :: "char \<Rightarrow> nat" where
  "digit_value c = of_char c - 48"

definition digits_value :: "string \<Rightarrow> nat" where
  "digits_value ds = foldl (\<lambda>acc c. 10 * acc + digit_value c) 0 ds"

definition is_space :: "char \<Rightarrow> bool" where
  "is_space c = (c \<in> set [CHR '' '', CHR 0x09, CHR 0x0A, CHR 0x0B, CHR 0x0C, CHR 0x0D])"

text \<open>
  \<^verbatim>\<open>parseFloat\<close> on a spelled-out text: leading white space (of the ASCII range) is
  skipped, then the longest prefix that is a decimal literal is read: a sign, then
  \<^verbatim>\<open>Infinity\<close> or digits with an optional fraction and an optional exponent part. A
  text with no such prefix gives \<^verbatim>\<open>NaN\<close>. The literal read has a decimal value,
  \<open>decimal_value\<close>, and \<^verbatim>\<open>parseFloat\<close> returns the double nearest to it.
\<close>

text \<open>The factor of an exponent part at the head of a text; 1 when there is none.\<close>

definition parse_exponent :: "string \<Rightarrow> real" where
  "parse_exponent t =
     (case t of
        [] \<Rightarrow> 1
      | c # r \<Rightarrow>
          if c = CHR ''e'' \<or> c = CHR ''E'' then
            (case r of
               [] \<Rightarrow> 1
             | d # r' \<Rightarrow>
                 if d = CHR ''-'' then
                   (if takeWhile is_digit r' = [] then 1
                    else 1 / 10 ^ digits_value (takeWhile is_digit r'))
                 else if d = CHR ''+'' then
                   (if takeWhile is_digit r' = [] then 1
                    else 10 ^ digits_value (takeWhile is_digit r'))
                 else
                   (if takeWhile is_digit r = [] then 1
                    else 10 ^ digits_value (takeWhile is_digit r)))
          else 1)"

definition parse_unsigned :: "string \<Rightarrow> jsnum" where
  "parse_unsigned t =
     (if take 8 t = ''Infinity'' then PInf
      else
        (let ip = takeWhile is_digit t;
             r = dropWhile is_digit t;
             fp = (case r of
                     c # r' \<Rightarrow> if c = CHR ''.'' then takeWhile is_digit r' else []
                   | [] \<Rightarrow> []);
             r2 = (case r of
                     c # r' \<Rightarrow> if c = CHR ''.'' then dropWhile is_digit r' else r
                   | [] \<Rightarrow> [])
         in if ip = [] \<and> fp = [] then NaN
            else Fin ((real (digits_value ip) + real (digits_value fp) / 10 ^ length fp)
                        * parse_exponent r2)))"

fun decimal_value :: "jsstring \<Rightarrow> jsnum" where
  "decimal_value (NumberToString x) = Fin x"
| "decimal_value (Str t) =
     (case dropWhile is_space t of
        [] \<Rightarrow> NaN
      | c # r \<Rightarrow>
          if c = CHR ''-'' then js_neg (parse_unsigned r)
          else if c = CHR ''+'' then parse_unsigned r
          else parse_unsigned (c # r))"

declare decimal_value.simps [simp del]

definition parseFloat :: "jsstring \<Rightarrow> jsnum" where
  "parseFloat s = (case decimal_value s of Fin x \<Rightarrow> double_of x | v \<Rightarrow> v)"

subsection \<open>Property lookup on object literals\<close>

text \<open>
  Both tables of the program are object literals, so \<^verbatim>\<open>table[key]\<close> finds the
  literal's own properties and, failing that, the members every object inherits from
  \<^verbatim>\<open>Object.prototype\<close>: functions, and the prototype object itself under
  \<^verbatim>\<open>__proto__\<close>. An inherited member is truthy, has no property \<^verbatim>\<open>potential\<close>
  and converts to the number \<^verbatim>\<open>NaN\<close>.
\<close>

definition Object_prototype_names :: "string list" where
  "Object_prototype_names =
     [''constructor'', ''hasOwnProperty'', ''isPrototypeOf'', ''propertyIsEnumerable'',
      ''toLocaleString'', ''toString'', ''valueOf'', ''__proto__'',
      ''__defineGetter__'', ''__defineSetter__'', ''__lookupGetter__'', ''__lookupSetter__'']"

datatype 'a property = Own 'a | Inherited | Undefined

definition get_property :: "(string \<times> 'a) list \<Rightarrow> string \<Rightarrow> 'a property" where
  "get_property obj key =
     (case map_of obj key of
        Some v \<Rightarrow> Own v
      | None \<Rightarrow> if key \<in> set Object_prototype_names then Inherited else Undefined)"

subsection \<open>The classes\<close>

record EnvironmentSettings =
  temperature :: real
  pressure :: real
  solvent :: string
  catalyst :: "string option"
  ph :: real

record SimulationParameters =
  anode :: string
  cathode :: string
  concAnode :: real
  concCathode :: real
  molesReactant :: real
  environment :: EnvironmentSettings

record AdvancedElectrochemicalCell =
  cell_environment :: EnvironmentSettings

datatype error = Error string

definition solventFactors :: "(string \<times> real) list" where
  "solventFactors =
     [(''Water'', 1.0), (''Methanol'', 0.95), (''Ethanol'', 0.90), (''DMSO'', 1.1),
      (''Acetonitrile'', 1.05)]"

text \<open>\<^verbatim>\<open>solventFactors[this.solvent] || 1.0\<close>, as the number the product uses: an
  inherited member is truthy and converts to \<^verbatim>\<open>NaN\<close>.\<close>

definition solventFactor :: "string \<Rightarrow> jsnum" where
  "solventFactor name =
     (case get_property solventFactors name of
        Own v \<Rightarrow> if v \<noteq> 0 then literal v else literal 1.0
      | Inherited \<Rightarrow> NaN
      | Undefined \<Rightarrow> literal 1.0)"

text \<open>\<^verbatim>\<open>this.catalyst ? 0.05 : 0.0\<close>: \<^verbatim>\<open>null\<close> and the empty string are falsy.\<close>

definition catalystBoost :: "string option \<Rightarrow> jsnum" where
  "catalystBoost c =
     (case c of None \<Rightarrow> literal 0.0 | Some name \<Rightarrow> if name \<noteq> [] then literal 0.05 else literal 0.0)"

text \<open>The sum that \<^verbatim>\<open>modifyPotential\<close> rounds, with the constants of the method in the
  order it declares them and the sum in the order it adds.\<close>

definition rawPotential :: "logarithm \<Rightarrow> EnvironmentSettings \<Rightarrow> jsnum \<Rightarrow> jsnum" where
  "rawPotential lg this basePotential =
     (let temperatureK = js_add (Fin (temperature this)) (literal 273.15);
          tempFactor = js_div temperatureK (literal 298.15);
          pressureFactor = Math_log lg (Fin (pressure this));
          phFactor = js_mul (js_neg (literal 0.059)) (js_sub (Fin (ph this)) (literal 7))
      in js_add
           (js_add
              (js_add (js_mul (js_mul basePotential tempFactor) (solventFactor (solvent this)))
                 (js_mul pressureFactor (literal 0.01)))
              phFactor)
           (catalystBoost (catalyst this)))"

definition modifyPotential :: "logarithm \<Rightarrow> EnvironmentSettings \<Rightarrow> jsnum \<Rightarrow> jsstring" where
  "modifyPotential lg this basePotential = toFixed 3 (rawPotential lg this basePotential)"

definition STANDARD_REDUCTION_POTENTIALS :: "(string \<times> real) list" where
  "STANDARD_REDUCTION_POTENTIALS =
     [(''Li'', - 3.04), (''K'', - 2.93), (''Ca'', - 2.87), (''Na'', - 2.71), (''Mg'', - 2.37),
      (''Al'', - 1.66), (''Zn'', - 0.76), (''Fe'', - 0.44), (''Ni'', - 0.25), (''Sn'', - 0.14),
      (''Pb'', - 0.13), (''H2'', 0.00), (''Cu'', 0.34), (''Ag'', 0.80), (''Hg'', 0.85),
      (''Pt'', 1.20), (''Au'', 1.50)]"

text \<open>An entry of the table is an object \<^verbatim>\<open>{ "potential": p }\<close> with a decimal literal
  \<open>p\<close>; \<open>Own p\<close> stands for it. Every object is truthy, whatever its potential; only
  \<^verbatim>\<open>undefined\<close> is not.\<close>

definition truthy :: "'a property \<Rightarrow> bool" where
  "truthy v = (case v of Undefined \<Rightarrow> False | _ \<Rightarrow> True)"

text \<open>\<^verbatim>\<open>entry.potential\<close>, as the number the multiplication in \<^verbatim>\<open>modifyPotential\<close>
  uses: \<^verbatim>\<open>undefined\<close> converts to \<^verbatim>\<open>NaN\<close>.\<close>

definition potential :: "real property \<Rightarrow> jsnum" where
  "potential v = (case v of Own p \<Rightarrow> literal p | _ \<Rightarrow> NaN)"

text \<open>
  The body of \<^verbatim>\<open>calculateCellPotential\<close> up to the constant \<^verbatim>\<open>result\<close>: \<open>Inl\<close> is the
  error thrown, \<open>Inr\<close> the number that the last statement rounds.
\<close>

definition rawCellPotential ::
    "logarithm \<Rightarrow> AdvancedElectrochemicalCell \<Rightarrow> SimulationParameters \<Rightarrow> error + jsnum" where
  "rawCellPotential lg this params =
     (if \<not> truthy (get_property STANDARD_REDUCTION_POTENTIALS (anode params))
         \<or> \<not> truthy (get_property STANDARD_REDUCTION_POTENTIALS (cathode params))
      then Inl (Error ''Invalid electrode materials'')
      else
        (let E0_anode = parseFloat (modifyPotential lg (cell_environment this)
                 (potential (get_property STANDARD_REDUCTION_POTENTIALS (anode params))));
             E0_cathode = parseFloat (modifyPotential lg (cell_environment this)
                 (potential (get_property STANDARD_REDUCTION_POTENTIALS (cathode params))));
             E0_cell = js_sub E0_cathode E0_anode;
             temperatureK = js_add (Fin (temperature (cell_environment this))) (literal 273.15);
             F = literal 96485.3321233100184;
             R = literal 8.31446261815324;
             RT_nF = js_div (js_mul temperatureK R) (js_mul (literal 2) F)
         in if concCathode params = 0
            then Inl (Error ''Cathode concentration cannot be zero'')
            else
              (let Q = js_div (Fin (concAnode params)) (Fin (concCathode params));
                   result = js_sub E0_cell (js_mul RT_nF (Math_log lg Q))
               in Inr result)))"

text \<open>
  \<^verbatim>\<open>calculateCellPotential\<close>: \<open>Inl\<close> is the error thrown, \<open>Inr\<close> the text returned,
  \<^verbatim>\<open>Number(result).toFixed(4)\<close>. The \<^verbatim>\<open>catch\<close> block rethrows the error it caught, so
  the outcome of the method is the outcome of its body.
\<close>

definition calculateCellPotential ::
    "logarithm \<Rightarrow> AdvancedElectrochemicalCell \<Rightarrow> SimulationParameters \<Rightarrow> error + jsstring" where
  "calculateCellPotential lg this params =
     (case rawCellPotential lg this params of
        Inl e \<Rightarrow> Inl e
      | Inr result \<Rightarrow> Inr (toFixed 4 result))"

subsection \<open>The two methods, statement by statement\<close>

text \<open>
  To show what the methods do to the objects they reach, their bodies are also embedded
  as lists of statements and run on a store that holds the engine with its environment,
  the argument object and the console. An expression reads the store and the constants
  declared so far. A statement declares a constant, declares a constant from a call of
  \<^verbatim>\<open>this.environment.modifyPotential\<close>, throws a new error under a condition, returns,
  assigns to a field of an object of the store, guards a block by \<^verbatim>\<open>try\<close> and
  \<^verbatim>\<open>catch\<close>, writes to the console, or throws the value of a constant.
\<close>

record store =
  engine :: AdvancedElectrochemicalCell
  argument :: SimulationParameters
  console :: "(string \<times> error) list"

datatype val = Num jsnum | Text jsstring | Object "(string \<times> real) list" | Err error | Undef

type_synonym frame = "string \<Rightarrow> val"

type_synonym expr = "store \<Rightarrow> frame \<Rightarrow> val"

datatype stmt =
    Const string expr
  | ConstCall string "val \<Rightarrow> val" expr
  | IfThrow "store \<Rightarrow> frame \<Rightarrow> bool" string
  | Return expr
  | Assign "val \<Rightarrow> store \<Rightarrow> store" expr
  | Try "stmt list" string "stmt list"
  | ConsoleError string string
  | Throw string

datatype outcome = Completes | Returns val | Throws val

text \<open>The number a value converts to, and the number \<^verbatim>\<open>parseFloat\<close> reads from it.\<close>

definition num :: "val \<Rightarrow> jsnum" where
  "num v = (case v of Num n \<Rightarrow> n | _ \<Rightarrow> NaN)"

definition parseFloat_of :: "val \<Rightarrow> jsnum" where
  "parseFloat_of v = (case v of Text t \<Rightarrow> parseFloat t | Num n \<Rightarrow> n | _ \<Rightarrow> NaN)"

definition error_of :: "val \<Rightarrow> error" where
  "error_of v = (case v of Err e \<Rightarrow> e | _ \<Rightarrow> Error [])"

text \<open>Running a list of statements; \<open>call\<close> is what calling \<^verbatim>\<open>modifyPotential\<close> with an
  argument does to the store and gives back.\<close>

fun exec :: "(val \<Rightarrow> store \<Rightarrow> outcome \<times> store) \<Rightarrow> stmt list \<Rightarrow> store \<Rightarrow> frame
               \<Rightarrow> outcome \<times> store" where
  "exec call [] s l = (Completes, s)"
| "exec call (Const x e # r) s l = exec call r s (l(x := e s l))"
| "exec call (ConstCall x k e # r) s l =
     (case call (e s l) s of
        (Throws v, s') \<Rightarrow> (Throws v, s')
      | (Returns v, s') \<Rightarrow> exec call r s' (l(x := k v))
      | (Completes, s') \<Rightarrow> exec call r s' (l(x := k Undef)))"
| "exec call (IfThrow b msg # r) s l =
     (if b s l then (Throws (Err (Error msg)), s) else exec call r s l)"
| "exec call (Return e # r) s l = (Returns (e s l), s)"
| "exec call (Assign upd e # r) s l = exec call r (upd (e s l) s) l"
| "exec call (Try body x handler # r) s l =
     (case exec call body s l of
        (Throws v, s') \<Rightarrow>
          (case exec call handler s' (l(x := v)) of
             (Completes, s'') \<Rightarrow> exec call r s'' l
           | other \<Rightarrow> other)
      | (Completes, s') \<Rightarrow> exec call r s' l
      | (Returns v, s') \<Rightarrow> (Returns v, s'))"
| "exec call (ConsoleError msg x # r) s l =
     exec call r (s\<lparr>console := console s @ [(msg, error_of (l x))]\<rparr>) l"
| "exec call (Throw x # r) s l = (Throws (l x), s)"

text \<open>The statements that assign to a field, also inside a guarded block.\<close>

fun assigns :: "stmt \<Rightarrow> bool" where
  "assigns (Assign upd e) = True"
| "assigns (Try body x handler) = (list_ex assigns body \<or> list_ex assigns handler)"
| "assigns _ = False"

text \<open>The body of \<^verbatim>\<open>modifyPotential\<close>; \<^verbatim>\<open>this\<close> is the environment of the engine.\<close>

definition modifyPotential_body :: "logarithm \<Rightarrow> stmt list" where
  "modifyPotential_body lg =
     [Const ''temperatureK''
        (\<lambda>s l. Num (js_add (Fin (temperature (cell_environment (engine s)))) (literal 273.15))),
      Const ''tempFactor'' (\<lambda>s l. Num (js_div (num (l ''temperatureK'')) (literal 298.15))),
      Const ''pressureFactor''
        (\<lambda>s l. Num (Math_log lg (Fin (pressure (cell_environment (engine s)))))),
      Const ''phFactor''
        (\<lambda>s l. Num (js_mul (js_neg (literal 0.059))
                   (js_sub (Fin (ph (cell_environment (engine s)))) (literal 7)))),
      Const ''solventFactors'' (\<lambda>s l. Object solventFactors),
      Const ''solventFactor'' (\<lambda>s l. Num (solventFactor (solvent (cell_environment (engine s))))),
      Const ''catalystBoost''
        (\<lambda>s l. Num (catalystBoost (catalyst (cell_environment (engine s))))),
      Return
        (\<lambda>s l. Text (toFixed 3
           (js_add
              (js_add
                 (js_add
                    (js_mul (js_mul (num (l ''basePotential'')) (num (l ''tempFactor'')))
                       (num (l ''solventFactor'')))
                    (js_mul (num (l ''pressureFactor'')) (literal 0.01)))
                 (num (l ''phFactor'')))
              (num (l ''catalystBoost'')))))]"

definition call_modifyPotential :: "logarithm \<Rightarrow> val \<Rightarrow> store \<Rightarrow> outcome \<times> store" where
  "call_modifyPotential lg basePotential s =
     exec (\<lambda>v s. (Completes, s)) (modifyPotential_body lg) s
       ((\<lambda>x. Undef)(''basePotential'' := basePotential))"

text \<open>The body of \<^verbatim>\<open>calculateCellPotential\<close>; \<^verbatim>\<open>this\<close> is the engine and
  \<^verbatim>\<open>params\<close> the argument.\<close>

definition calculateCellPotential_body :: "logarithm \<Rightarrow> stmt list" where
  "calculateCellPotential_body lg =
     [Try
        [IfThrow
           (\<lambda>s l. \<not> truthy (get_property STANDARD_REDUCTION_POTENTIALS (anode (argument s)))
                 \<or> \<not> truthy (get_property STANDARD_REDUCTION_POTENTIALS (cathode (argument s))))
           ''Invalid electrode materials'',
         ConstCall ''E0_anode'' (\<lambda>v. Num (parseFloat_of v))
           (\<lambda>s l. Num (potential (get_property STANDARD_REDUCTION_POTENTIALS (anode (argument s))))),
         ConstCall ''E0_cathode'' (\<lambda>v. Num (parseFloat_of v))
           (\<lambda>s l. Num (potential (get_property STANDARD_REDUCTION_POTENTIALS (cathode (argument s))))),
         Const ''E0_cell'' (\<lambda>s l. Num (js_sub (num (l ''E0_cathode'')) (num (l ''E0_anode'')))),
         Const ''temperatureK''
           (\<lambda>s l. Num (js_add (Fin (temperature (cell_environment (engine s)))) (literal 273.15))),
         Const ''F'' (\<lambda>s l. Num (literal 96485.3321233100184)),
         Const ''R'' (\<lambda>s l. Num (literal 8.31446261815324)),
         Const ''RT_nF''
           (\<lambda>s l. Num (js_div (js_mul (num (l ''temperatureK'')) (num (l ''R'')))
                      (js_mul (literal 2) (num (l ''F''))))),
         IfThrow (\<lambda>s l. concCathode (argument s) = 0) ''Cathode concentration cannot be zero'',
         Const ''Q''
           (\<lambda>s l. Num (js_div (Fin (concAnode (argument s))) (Fin (concCathode (argument s))))),
         Const ''result''
           (\<lambda>s l. Num (js_sub (num (l ''E0_cell''))
                      (js_mul (num (l ''RT_nF'')) (Math_log lg (num (l ''Q'')))))),
         Return (\<lambda>s l. Text (toFixed 4 (num (l ''result''))))]
        ''error''
        [ConsoleError ''Cell potential calculation error:'' ''error'',
         Throw ''error'']]"

definition call_calculateCellPotential :: "logarithm \<Rightarrow> store \<Rightarrow> outcome \<times> store" where
  "call_calculateCellPotential lg s =
     exec (call_modifyPotential lg) (calculateCellPotential_body lg) s (\<lambda>x. Undef)"

subsection \<open>The presets of the form\<close>

text \<open>The entry \<^verbatim>\<open>zinc_copper\<close> of \<^verbatim>\<open>PRESETS\<close>, as the submit handler builds its
  objects from it: an empty catalyst field becomes \<^verbatim>\<open>null\<close>.\<close>

definition preset_environment :: EnvironmentSettings where
  "preset_environment =
     \<lparr>temperature = 25, pressure = 1.0, solvent = ''Water'', catalyst = None, ph = 7\<rparr>"

definition zinc_copper :: SimulationParameters where
  "zinc_copper =
     \<lparr>anode = ''Zn'', cathode = ''Cu'', concAnode = 1.0, concCathode = 1.0,
      molesReactant = 1.0, environment = preset_environment\<rparr>"

definition preset_cell :: AdvancedElectrochemicalCell where
  "preset_cell = \<lparr>cell_environment = preset_environment\<rparr>"

text \<open>An example of an implementation of the logarithm: the double nearest to the
  natural logarithm, with the one at 2 written out (\<^verbatim>\<open>0.6931471805599453\<close>).\<close>

definition sample_log :: logarithm where
  "sample_log x =
     (if x = 2 then Fin (6243314768165359 / 9007199254740992) else double_of (ln x))"

text \<open>A warm and acid methanol bath under pressure, with a catalyst, and a cell in it
  whose concentrations differ.\<close>

definition bath :: EnvironmentSettings where
  "bath = \<lparr>temperature = 50, pressure = 2, solvent = ''Methanol'', catalyst = Some ''Pt'',
            ph = 6\<rparr>"

definition uneven_zinc_copper :: SimulationParameters where
  "uneven_zinc_copper =
     \<lparr>anode = ''Zn'', cathode = ''Cu'', concAnode = 2, concCathode = 1,
      molesReactant = 1.0, environment = bath\<rparr>"

text \<open>Methanol at pH 1 under the standard temperature and pressure.\<close>

definition acid_methanol :: EnvironmentSettings where
  "acid_methanol =
     \<lparr>temperature = 25, pressure = 1.0, solvent = ''Methanol'', catalyst = None, ph = 1\<rparr>"

subsection \<open>The formulas of the specification\<close>

text \<open>Rounding to \<open>f\<close> decimals, a tie going away from zero: the number that
  \<^verbatim>\<open>toFixed(f)\<close> spells.\<close>

definition round_half_away :: "nat \<Rightarrow> real \<Rightarrow> real" where
  "round_half_away f x =
     (if x < 0 then - (real_of_int \<lfloor>- x * 10 ^ f + 1 / 2\<rfloor> / 10 ^ f)
      else real_of_int \<lfloor>x * 10 ^ f + 1 / 2\<rfloor> / 10 ^ f)"

text \<open>The solvent multiplier of the specification: the fixed table, and 1.0 for any
  other name.\<close>

definition solventFactor_spec :: "string \<Rightarrow> real" where
  "solventFactor_spec name =
     (if name = ''Water'' then 1.0
      else if name = ''Methanol'' then 0.95
      else if name = ''Ethanol'' then 0.90
      else if name = ''DMSO'' then 1.1
      else if name = ''Acetonitrile'' then 1.05
      else 1.0)"

text \<open>
  The correction of the specification, step by step, in the arithmetic of the program:
  \<open>T_K = temperature + 273.15\<close>, \<open>tempFactor = T_K / 298.15\<close>,
  \<open>pressureFactor = ln(pressure)\<close>, \<open>phFactor = -0.059 \<times> (ph - 7)\<close>, the solvent multiplier,
  the catalyst boost, the sum
  \<open>basePotential \<times> tempFactor \<times> solventFactor + pressureFactor \<times> 0.01 + phFactor + catalystBoost\<close>,
  and its rounding to 3 decimals.
\<close>

definition correct_spec :: "logarithm \<Rightarrow> EnvironmentSettings \<Rightarrow> jsnum \<Rightarrow> jsstring" where
  "correct_spec lg env basePotential =
     (let T_K = js_add (Fin (temperature env)) (literal 273.15);
          tempFactor = js_div T_K (literal 298.15);
          pressureFactor = Math_log lg (Fin (pressure env));
          phFactor = js_mul (literal (- 0.059)) (js_sub (Fin (ph env)) (literal 7));
          solventFactor = literal (solventFactor_spec (solvent env));
          catalystBoost =
            (if catalyst env \<noteq> None \<and> catalyst env \<noteq> Some [] then literal 0.05 else literal 0.0);
          result =
            js_add
              (js_add
                 (js_add (js_mul (js_mul basePotential tempFactor) solventFactor)
                    (js_mul pressureFactor (literal 0.01)))
                 phFactor)
              catalystBoost
      in toFixed 3 result)"

text \<open>
  The cell potential of the specification, step by step, in the arithmetic of the
  program: the two standard potentials are corrected and re-parsed,
  \<open>E_cell0 = E_cathode - E_anode\<close>, \<open>RT_nF = (T_K \<times> R) / (n \<times> F)\<close> with \<open>n = 2\<close>,
  \<open>Q = concAnode / concCathode\<close>, \<open>E_cell = E_cell0 - RT_nF \<times> ln(Q)\<close>, rounded to 4
  decimals.
\<close>

definition cell_potential_spec ::
    "logarithm \<Rightarrow> EnvironmentSettings \<Rightarrow> real \<Rightarrow> real \<Rightarrow> real \<Rightarrow> real \<Rightarrow> jsstring" where
  "cell_potential_spec lg env standard_anode standard_cathode cA cC =
     (let E_anode = parseFloat (correct_spec lg env (literal standard_anode));
          E_cathode = parseFloat (correct_spec lg env (literal standard_cathode));
          E_cell0 = js_sub E_cathode E_anode;
          T_K = js_add (Fin (temperature env)) (literal 273.15);
          R = literal 8.31446261815324;
          F = literal 96485.3321233100184;
          n = literal 2;
          RT_nF = js_div (js_mul T_K R) (js_mul n F);
          Q = js_div (Fin cA) (Fin cC);
          E_cell = js_sub E_cell0 (js_mul RT_nF (Math_log lg Q))
      in toFixed 4 E_cell)"

text \<open>The number of decimal places of a text in decimal notation: an optional minus
  sign, at least one digit, a point and digits only; \<open>None\<close> for any other text.\<close>

definition decimal_places :: "jsstring \<Rightarrow> nat option" where
  "decimal_places v =
     (case v of
        NumberToString _ \<Rightarrow> None
      | Str t \<Rightarrow>
          (let u = (case t of c # r \<Rightarrow> if c = CHR ''-'' then r else t | [] \<Rightarrow> [])
           in case dropWhile is_digit u of
                [] \<Rightarrow> None
              | c # fp \<Rightarrow>
                  if takeWhile is_digit u \<noteq> [] \<and> c = CHR ''.'' \<and> list_all is_digit fp
                  then Some (length fp) else None))"

text \<open>The digits \<^verbatim>\<open>toFixed\<close> sets the point into: those of \<open>n\<close>, padded with zeros
  to \<open>f + 1\<close> places.\<close>

definition fixed_digits :: "nat \<Rightarrow> nat \<Rightarrow> string" where
  "fixed_digits f n =
     (let m = (if n = 0 then ''0'' else decimal_digits n); k = length m
      in if f \<noteq> 0 \<and> k \<le> f then replicate (f + 1 - k) (CHR ''0'') @ m else m)"

text \<open>The number a nonzero real is rounded to, before the test for overflow.\<close>

definition nearest :: "real \<Rightarrow> real" where
  "nearest x = of_int (round_half_even (x / pow2 (binade x - 52))) * pow2 (binade x - 52)"

section \<open>Rounding to doubles\<close>

lemma pow2_powr: "pow2 k = 2 powr (of_int k)"
proof (cases "0 \<le> k")
  case True
  then show ?thesis
    by (simp add: pow2_def powr_realpow [symmetric])
next
  case False
  then have "(2::real) powr (of_int k) = 1 / 2 powr (of_int (- k))"
    by (simp add: powr_minus_divide)
  also have "\<dots> = 1 / 2 ^ nat (- k)"
    using False by (simp add: powr_realpow [symmetric])
  finally show ?thesis using False by (simp add: pow2_def)
qed

lemma pow2_pos: "0 < pow2 k"
  by (simp add: pow2_powr)

lemma pow2_add: "pow2 (a + b) = pow2 a * pow2 b"
  by (simp add: pow2_powr powr_add)

lemma pow2_mono: "a \<le> b \<Longrightarrow> pow2 a \<le> pow2 b"
  by (simp add: pow2_powr)

lemma binade_eq:
  assumes "pow2 k \<le> \<bar>x\<bar>" and "\<bar>x\<bar> < pow2 (k + 1)" and "- 1022 \<le> k"
  shows "binade x = k"
proof -
  have pos: "0 < \<bar>x\<bar>"
    using assms(1) pow2_pos [of k] by linarith
  have "of_int k \<le> log 2 \<bar>x\<bar>"
    using assms(1) pos by (simp add: pow2_powr le_log_iff)
  moreover have "log 2 \<bar>x\<bar> < of_int k + 1"
    using assms(2) pos by (simp add: pow2_powr log_less_iff)
  ultimately have "\<lfloor>log 2 \<bar>x\<bar>\<rfloor> = k"
    by (simp add: floor_eq_iff)
  with assms(3) show ?thesis
    by (simp add: binade_def)
qed

lemma round_half_even_close: "\<bar>of_int (round_half_even z) - z\<bar> \<le> 1 / 2"
  unfolding round_half_even_def by (auto simp: abs_if) linarith+

text \<open>The bounds of a binade.\<close>

lemma binade_normal:
  assumes "- 1022 < binade x" and nz: "x \<noteq> 0"
  shows "pow2 (binade x) \<le> \<bar>x\<bar>"
proof -
  have e: "binade x = \<lfloor>log 2 \<bar>x\<bar>\<rfloor>"
    using assms by (simp add: binade_def max_def split: if_splits)
  have "of_int (binade x) \<le> log 2 \<bar>x\<bar>"
    unfolding e by simp
  then show ?thesis
    using nz by (simp add: pow2_powr le_log_iff)
qed

lemma binade_le:
  assumes "\<bar>x\<bar> \<le> pow2 k" and "- 1022 \<le> k" and "x \<noteq> 0"
  shows "binade x \<le> k"
proof (cases "- 1022 < binade x")
  case True
  have "pow2 (binade x) \<le> pow2 k"
    using binade_normal [OF True assms(3)] assms(1) by linarith
  then show ?thesis
    by (simp add: pow2_powr)
next
  case False
  with assms(2) show ?thesis by linarith
qed

lemma double_of_nearest:
  "x \<noteq> 0 \<Longrightarrow> double_of x =
     (if 2 ^ 1024 \<le> \<bar>nearest x\<bar> then (if 0 < x then PInf else NInf) else Fin (nearest x))"
  by (simp add: double_of_def nearest_def Let_def)

lemma nearest_close: "\<bar>nearest x - x\<bar> \<le> pow2 (binade x - 52) / 2"
proof -
  define u where "u = pow2 (binade x - 52)"
  have u: "0 < u"
    by (simp add: u_def pow2_pos)
  have "\<bar>of_int (round_half_even (x / u)) - x / u\<bar> * u \<le> 1 / 2 * u"
    using round_half_even_close [of "x / u"] u by (intro mult_right_mono) simp_all
  moreover have "\<bar>of_int (round_half_even (x / u)) - x / u\<bar> * u = \<bar>nearest x - x\<bar>"
  proof -
    have "\<bar>of_int (round_half_even (x / u)) - x / u\<bar> * u
            = \<bar>(of_int (round_half_even (x / u)) - x / u) * u\<bar>"
      using u by (simp add: abs_mult)
    also have "(of_int (round_half_even (x / u)) - x / u) * u = nearest x - x"
      using u by (simp add: nearest_def u_def [symmetric] algebra_simps)
    finally show ?thesis .
  qed
  ultimately show ?thesis
    by (simp add: u_def)
qed

lemma pow2_half: "pow2 (k - 52) / 2 = pow2 (k - 53)"
proof -
  have "pow2 (k - 52) = pow2 (k - 53 + 1)"
    by simp
  also have "\<dots> = pow2 (k - 53) * 2"
    unfolding pow2_add by (simp add: pow2_def)
  finally show ?thesis by simp
qed

text \<open>A real of magnitude at most \<open>2\<^sup>2\<^sup>0\<close> is rounded to a finite number at
  distance at most \<open>2\<^sup>-\<^sup>3\<^sup>3\<close>.\<close>

lemma double_of_close:
  assumes "\<bar>x\<bar> \<le> 2 ^ 20"
  shows "\<exists>y. double_of x = Fin y \<and> \<bar>y - x\<bar> \<le> 1 / 2 ^ 33"
proof (cases "x = 0")
  case True
  then show ?thesis by (simp add: double_of_def)
next
  case False
  have "\<bar>x\<bar> \<le> pow2 20"
    using assms by (simp add: pow2_def)
  then have "binade x \<le> 20"
    using False by (intro binade_le) simp_all
  then have "pow2 (binade x - 53) \<le> pow2 (- 33)"
    by (intro pow2_mono) simp
  then have c: "\<bar>nearest x - x\<bar> \<le> 1 / 2 ^ 33"
    using nearest_close [of x] unfolding pow2_half by (simp add: pow2_def)
  have "\<bar>nearest x\<bar> \<le> \<bar>x\<bar> + \<bar>nearest x - x\<bar>"
    by linarith
  also have "\<dots> \<le> 2 ^ 20 + 1 / 2 ^ 33"
    using assms c by linarith
  also have "\<dots> < (2::real) ^ 1024"
    by simp
  finally have "\<not> 2 ^ 1024 \<le> \<bar>nearest x\<bar>"
    by simp
  with c False show ?thesis
    by (simp add: double_of_nearest)
qed

text \<open>A finite result of magnitude at most \<open>2\<^sup>2\<^sup>0\<close> is at distance at most
  \<open>2\<^sup>-\<^sup>3\<^sup>2\<close> from the real it rounds.\<close>

lemma double_of_close_result:
  assumes "double_of x = Fin y" and "\<bar>y\<bar> \<le> 2 ^ 20"
  shows "\<bar>y - x\<bar> \<le> 1 / 2 ^ 32"
proof (cases "x = 0")
  case True
  with assms(1) show ?thesis by (simp add: double_of_def)
next
  case False
  have y: "y = nearest x"
    using assms(1) False by (simp add: double_of_nearest split: if_splits)
  show ?thesis
  proof (cases "binade x \<le> 21")
    case True
    then have "pow2 (binade x - 53) \<le> pow2 (- 32)"
      by (intro pow2_mono) simp
    then show ?thesis
      using nearest_close [of x] unfolding pow2_half y by (simp add: pow2_def)
  next
    case big: False
    then have n: "- 1022 < binade x"
      by simp
    define e where "e = binade x"
    have lo: "pow2 e \<le> \<bar>x\<bar>"
      unfolding e_def by (rule binade_normal [OF n False])
    have "pow2 (e - 53) = pow2 e * pow2 (- 53)"
      using pow2_add [of e "- 53"] by simp
    also have "\<dots> \<le> pow2 e / 2"
      using pow2_pos [of e] by (simp add: pow2_def)
    finally have h: "pow2 (e - 53) \<le> pow2 e / 2" .
    have "\<bar>y - x\<bar> \<le> pow2 (e - 53)"
      using nearest_close [of x] unfolding pow2_half y e_def .
    then have "pow2 e / 2 \<le> \<bar>y\<bar>"
      using lo h by linarith
    moreover have "pow2 22 \<le> pow2 e"
      using big by (intro pow2_mono) (simp add: e_def)
    ultimately have "pow2 22 / 2 \<le> \<bar>y\<bar>"
      by linarith
    with assms(2) show ?thesis
      by (simp add: pow2_def)
  qed
qed

text \<open>In a binade that is given, the rounding is a computation.\<close>

lemma round_half_even_bound:
  assumes "\<bar>z\<bar> \<le> of_int n"
  shows "\<bar>round_half_even z\<bar> \<le> n"
proof -
  have up: "\<lfloor>z\<rfloor> \<le> n"
    using assms by (simp add: floor_le_iff abs_le_iff)
  have lo: "- n \<le> \<lfloor>z\<rfloor>"
    using assms by (simp add: le_floor_iff abs_le_iff)
  show ?thesis
  proof (cases "\<lfloor>z\<rfloor> = n")
    case True
    have "z \<le> of_int n"
      using assms by (simp add: abs_le_iff)
    moreover have "of_int \<lfloor>z\<rfloor> \<le> z"
      by simp
    ultimately have "z - of_int \<lfloor>z\<rfloor> = 0"
      unfolding True by simp
    then have "round_half_even z = \<lfloor>z\<rfloor>"
      by (simp add: round_half_even_def)
    with up lo show ?thesis
      by simp
  next
    case False
    with up have "\<lfloor>z\<rfloor> + 1 \<le> n"
      by simp
    with up lo show ?thesis
      unfolding round_half_even_def by (simp add: abs_le_iff)
  qed
qed

lemma double_of_at:
  assumes "pow2 k \<le> \<bar>x\<bar>" and "\<bar>x\<bar> < pow2 (k + 1)" and "- 1022 \<le> k" and "k < 1023"
  shows "double_of x = Fin (of_int (round_half_even (x / pow2 (k - 52))) * pow2 (k - 52))"
proof -
  have nz: "x \<noteq> 0"
    using assms(1) pow2_pos [of k] by auto
  have b: "binade x = k"
    by (rule binade_eq [OF assms(1-3)])
  define u where "u = pow2 (k - 52)"
  have u: "0 < u"
    by (simp add: u_def pow2_pos)
  have k1: "pow2 (k + 1) = u * 2 ^ 53"
  proof -
    have "k + 1 = k - 52 + 53"
      by simp
    then have "pow2 (k + 1) = pow2 (k - 52) * pow2 53"
      by (simp only: pow2_add)
    then show ?thesis
      by (simp add: u_def pow2_def)
  qed
  then have "\<bar>x\<bar> < u * 2 ^ 53"
    using assms(2) by simp
  then have "\<bar>x / u\<bar> \<le> of_int (2 ^ 53)"
    using u by (simp add: field_simps)
  then have m: "\<bar>round_half_even (x / u)\<bar> \<le> 2 ^ 53"
    by (rule round_half_even_bound)
  have "\<bar>nearest x\<bar> = \<bar>of_int (round_half_even (x / u))\<bar> * u"
    using u by (simp add: nearest_def b u_def [symmetric] abs_mult)
  also have "\<dots> \<le> 2 ^ 53 * u"
  proof (intro mult_right_mono)
    have "\<bar>real_of_int (round_half_even (x / u))\<bar> = real_of_int \<bar>round_half_even (x / u)\<bar>"
      by simp
    also have "\<dots> \<le> real_of_int (2 ^ 53)"
      using m by (simp only: of_int_le_iff)
    finally show "\<bar>real_of_int (round_half_even (x / u))\<bar> \<le> 2 ^ 53"
      by simp
    show "0 \<le> u" using u by simp
  qed
  also have "2 ^ 53 * u = pow2 (k + 1)"
    using k1 by simp
  also have "\<dots> \<le> pow2 1023"
    using assms(4) by (intro pow2_mono) simp
  also have "\<dots> < 2 ^ 1024"
    by (simp add: pow2_def)
  finally have "\<not> 2 ^ 1024 \<le> \<bar>nearest x\<bar>"
    by simp
  then show ?thesis
    using nz by (simp add: double_of_nearest) (simp add: nearest_def b)
qed

subsection \<open>Operands that are not numbers, and finite results\<close>

lemma js_add_NaN: "js_add X NaN = NaN"
  by (cases X) simp_all

lemma js_mul_NaN: "js_mul X NaN = NaN"
  by (cases X) simp_all

lemma js_add_finite:
  assumes "js_add A B = Fin x"
  shows "\<exists>a b. A = Fin a \<and> B = Fin b \<and> double_of (a + b) = Fin x"
  using assms by (cases A; cases B) simp_all

section \<open>Texts of numbers\<close>

subsection \<open>Digits\<close>

lemma digit_cases:
  "d < 10 \<Longrightarrow> d = 0 \<or> d = 1 \<or> d = 2 \<or> d = 3 \<or> d = 4 \<or> d = 5 \<or> d = 6 \<or> d = 7 \<or> d = 8 \<or> d = (9::nat)"
  by arith

lemma is_digit_digit_char: "d < 10 \<Longrightarrow> is_digit (digit_char d)"
  using digit_cases [of d] by (auto simp: is_digit_def digit_char_def)

lemma digit_value_digit_char: "d < 10 \<Longrightarrow> digit_value (digit_char d) = d"
  using digit_cases [of d] by (auto simp: digit_value_def digit_char_def)

lemma not_digit_dot: "\<not> is_digit (CHR ''.'')"
  by (simp add: is_digit_def)

lemma digit_not_space: "is_digit c \<Longrightarrow> \<not> is_space c"
  by (auto simp: is_digit_def is_space_def)

lemma digit_not_sign: "is_digit c \<Longrightarrow> c \<noteq> CHR ''-'' \<and> c \<noteq> CHR ''+'' \<and> c \<noteq> CHR ''I''"
  by (auto simp: is_digit_def)

lemma decimal_digits_nonempty: "decimal_digits n \<noteq> []"
  by (subst decimal_digits.simps) simp

lemma decimal_digits_0: "decimal_digits 0 = ''0''"
  by (simp add: decimal_digits.simps digit_char_def)

lemma decimal_digits_are_digits: "list_all is_digit (decimal_digits n)"
proof (induction n rule: decimal_digits.induct)
  case (1 n)
  show ?case
  proof (cases "n < 10")
    case True
    then show ?thesis
      by (subst decimal_digits.simps) (simp add: is_digit_digit_char)
  next
    case False
    with 1 show ?thesis
      by (subst decimal_digits.simps) (simp add: is_digit_digit_char)
  qed
qed

lemma digits_value_snoc: "digits_value (ds @ [c]) = 10 * digits_value ds + digit_value c"
  by (simp add: digits_value_def)

text \<open>Reading the digits of \<open>n\<close> gives \<open>n\<close> back.\<close>

lemma digits_value_decimal_digits: "digits_value (decimal_digits n) = n"
proof (induction n rule: decimal_digits.induct)
  case (1 n)
  show ?case
  proof (cases "n < 10")
    case True
    then show ?thesis
      by (subst decimal_digits.simps) (simp add: digits_value_def digit_value_digit_char)
  next
    case False
    with 1 show ?thesis
      by (subst decimal_digits.simps) (simp add: digits_value_snoc digit_value_digit_char)
  qed
qed

lemma digits_value_append:
  "digits_value (a @ b) = digits_value a * 10 ^ length b + digits_value b"
proof (induction b rule: rev_induct)
  case Nil
  show ?case by (simp add: digits_value_def)
next
  case (snoc c b)
  have "digits_value (a @ b @ [c]) = 10 * digits_value (a @ b) + digit_value c"
    using digits_value_snoc [of "a @ b" c] by simp
  with snoc show ?case by (simp add: digits_value_snoc algebra_simps)
qed

lemma digits_value_zeros: "digits_value (replicate k (CHR ''0'')) = 0"
  by (induction k) (simp_all add: digits_value_def digit_value_def)

lemma digits_value_pad: "digits_value (replicate k (CHR ''0'') @ ds) = digits_value ds"
  by (simp add: digits_value_append digits_value_zeros)

lemma fixed_digits_value: "digits_value (fixed_digits f n) = n"
  by (simp add: fixed_digits_def Let_def digits_value_pad digits_value_decimal_digits
      decimal_digits_0 [symmetric])

lemma fixed_digits_are_digits: "list_all is_digit (fixed_digits f n)"
  using decimal_digits_are_digits [of n]
  by (simp add: fixed_digits_def Let_def list_all_iff is_digit_def)

lemma fixed_digits_length: "f < length (fixed_digits f n) \<or> f = 0"
  using decimal_digits_nonempty [of n]
  by (auto simp: fixed_digits_def Let_def)

subsection \<open>The text \<^verbatim>\<open>toFixed\<close> writes and the number \<^verbatim>\<open>parseFloat\<close> reads\<close>

lemma toFixed_Fin:
  assumes "\<bar>x\<bar> < 10 ^ 21" and "f \<noteq> 0"
  shows "toFixed f (Fin x) =
     Str ((if x < 0 then ''-'' else '''') @
          take (length (fixed_digits f (nat \<lfloor>\<bar>x\<bar> * 10 ^ f + 1 / 2\<rfloor>)) - f)
            (fixed_digits f (nat \<lfloor>\<bar>x\<bar> * 10 ^ f + 1 / 2\<rfloor>)) @
          CHR ''.'' #
          drop (length (fixed_digits f (nat \<lfloor>\<bar>x\<bar> * 10 ^ f + 1 / 2\<rfloor>)) - f)
            (fixed_digits f (nat \<lfloor>\<bar>x\<bar> * 10 ^ f + 1 / 2\<rfloor>)))"
  using assms by (simp add: toFixed_def fixed_digits_def Let_def abs_if)

lemma parse_unsigned_decimal:
  assumes "a \<noteq> []" and "list_all is_digit a" and "list_all is_digit b"
  shows "parse_unsigned (a @ CHR ''.'' # b) =
     Fin (real (digits_value a) + real (digits_value b) / 10 ^ length b)"
proof -
  obtain c a' where a: "a = c # a'"
    using assms(1) by (cases a) auto
  with assms(2) have c: "is_digit c"
    by simp
  then have inf: "take 8 (a @ CHR ''.'' # b) \<noteq> ''Infinity''"
    using digit_not_sign [of c] by (auto simp: a)
  have tw: "takeWhile is_digit (a @ CHR ''.'' # b) = a"
    using assms(2) by (simp add: list_all_iff not_digit_dot)
  have dw: "dropWhile is_digit (a @ CHR ''.'' # b) = CHR ''.'' # b"
    using assms(2) by (simp add: list_all_iff not_digit_dot)
  have twb: "takeWhile is_digit b = b"
    using assms(3) by (simp add: list_all_iff)
  have dwb: "dropWhile is_digit b = []"
    using assms(3) by (simp add: list_all_iff)
  show ?thesis
    unfolding parse_unsigned_def Let_def tw dw
    using inf assms(1) by (simp add: twb dwb parse_exponent_def)
qed

lemma decimal_value_decimal:
  assumes "a \<noteq> []" and "list_all is_digit a" and "list_all is_digit b"
  shows "decimal_value (Str ((if neg then ''-'' else '''') @ a @ CHR ''.'' # b)) =
     Fin ((if neg then - 1 else 1) *
          (real (digits_value a) + real (digits_value b) / 10 ^ length b))"
proof -
  obtain c a' where a: "a = c # a'"
    using assms(1) by (cases a) auto
  with assms(2) have c: "is_digit c"
    by simp
  show ?thesis
  proof (cases neg)
    case True
    have "decimal_value (Str (''-'' @ a @ CHR ''.'' # b)) = js_neg (parse_unsigned (a @ CHR ''.'' # b))"
      by (simp add: decimal_value.simps is_space_def)
    with True show ?thesis
      by (simp add: parse_unsigned_decimal [OF assms])
  next
    case False
    have "decimal_value (Str (a @ CHR ''.'' # b)) = parse_unsigned (a @ CHR ''.'' # b)"
      using c digit_not_space [OF c] digit_not_sign [OF c] by (simp add: decimal_value.simps a)
    with False show ?thesis
      by (simp add: parse_unsigned_decimal [OF assms])
  qed
qed

text \<open>Below \<open>10\<^sup>2\<^sup>1\<close>, the text \<^verbatim>\<open>toFixed(f)\<close> writes denotes the number rounded to \<open>f\<close>
  decimals, a tie going away from zero, and \<^verbatim>\<open>parseFloat\<close> reads the double nearest to
  that.\<close>

lemma decimal_value_toFixed:
  assumes "\<bar>x\<bar> < 10 ^ 21" and "f \<noteq> 0"
  shows "decimal_value (toFixed f (Fin x)) = Fin (round_half_away f x)"
proof -
  define n where "n = nat \<lfloor>\<bar>x\<bar> * 10 ^ f + 1 / 2\<rfloor>"
  define m where "m = fixed_digits f n"
  define a where "a = take (length m - f) m"
  define b where "b = drop (length m - f) m"
  have len: "f < length m"
    using fixed_digits_length [of f n] assms(2) by (simp add: m_def)
  have m: "m = a @ b"
    by (simp add: a_def b_def)
  have lb: "length b = f"
    using len by (simp add: b_def)
  have a_ne: "a \<noteq> []"
    using len by (auto simp: a_def)
  have dm: "list_all is_digit m"
    by (simp add: m_def fixed_digits_are_digits)
  have da: "list_all is_digit a" and db: "list_all is_digit b"
    using dm by (simp_all add: m)
  have "digits_value m = n"
    by (simp add: m_def fixed_digits_value)
  then have val: "digits_value a * 10 ^ f + digits_value b = n"
    by (simp add: m digits_value_append lb)
  have "real (digits_value a) + real (digits_value b) / 10 ^ f = real n / 10 ^ f"
    by (simp add: val [symmetric] field_simps)
  moreover have "toFixed f (Fin x) = Str ((if x < 0 then ''-'' else '''') @ a @ CHR ''.'' # b)"
    using toFixed_Fin [OF assms] by (simp add: a_def b_def m_def n_def)
  moreover have "0 \<le> \<lfloor>\<bar>x\<bar> * 10 ^ f + 1 / 2\<rfloor>"
    by simp
  then have "real n = real_of_int \<lfloor>\<bar>x\<bar> * 10 ^ f + 1 / 2\<rfloor>"
    by (simp add: n_def)
  ultimately show ?thesis
    using decimal_value_decimal [OF a_ne da db, of "x < 0"]
    by (simp add: round_half_away_def lb abs_if)
qed

lemma parseFloat_toFixed:
  assumes "\<bar>x\<bar> < 10 ^ 21" and "f \<noteq> 0"
  shows "parseFloat (toFixed f (Fin x)) = double_of (round_half_away f x)"
  by (simp add: parseFloat_def decimal_value_toFixed [OF assms])

text \<open>Below \<open>10\<^sup>2\<^sup>1\<close>, the text \<^verbatim>\<open>toFixed(f)\<close> writes has exactly \<open>f\<close> decimals.\<close>

lemma decimal_places_toFixed:
  assumes "\<bar>x\<bar> < 10 ^ 21" and "f \<noteq> 0"
  shows "decimal_places (toFixed f (Fin x)) = Some f"
proof -
  define n where "n = nat \<lfloor>\<bar>x\<bar> * 10 ^ f + 1 / 2\<rfloor>"
  define m where "m = fixed_digits f n"
  define a where "a = take (length m - f) m"
  define b where "b = drop (length m - f) m"
  have len: "f < length m"
    using fixed_digits_length [of f n] assms(2) by (simp add: m_def)
  have lb: "length b = f"
    using len by (simp add: b_def)
  have dm: "list_all is_digit m"
    by (simp add: m_def fixed_digits_are_digits)
  have m: "m = a @ b"
    by (simp add: a_def b_def)
  have da: "list_all is_digit a" and db: "list_all is_digit b"
    using dm by (simp_all add: m)
  obtain c a' where a: "a = c # a'"
    using len by (cases a) (auto simp: a_def)
  with da have c: "is_digit c"
    by simp
  have tf: "toFixed f (Fin x) = Str ((if x < 0 then ''-'' else '''') @ a @ CHR ''.'' # b)"
    using toFixed_Fin [OF assms] by (simp add: a_def b_def m_def n_def)
  have tw: "takeWhile is_digit (a @ CHR ''.'' # b) = a"
    using da by (simp add: list_all_iff not_digit_dot)
  have dw: "dropWhile is_digit (a @ CHR ''.'' # b) = CHR ''.'' # b"
    using da by (simp add: list_all_iff not_digit_dot)
  have strip: "(case (if x < 0 then ''-'' else '''') @ a @ CHR ''.'' # b of
                  [] \<Rightarrow> []
                | c # r \<Rightarrow> if c = CHR ''-'' then r
                           else (if x < 0 then ''-'' else '''') @ a @ CHR ''.'' # b) =
               a @ CHR ''.'' # b"
    using digit_not_sign [OF c] by (simp add: a)
  show ?thesis
    unfolding tf decimal_places_def jsstring.case Let_def strip tw dw
    using db by (simp add: a lb)
qed

section \<open>The lookups\<close>

lemmas table_defs =
  STANDARD_REDUCTION_POTENTIALS_def solventFactors_def Object_prototype_names_def
  get_property_def truthy_def potential_def solventFactor_def catalystBoost_def

lemma get_property_own: "map_of obj key = Some v \<Longrightarrow> get_property obj key = Own v"
  by (simp add: get_property_def)

lemma get_property_key:
  "key \<in> set (map fst obj) \<Longrightarrow> \<exists>v. map_of obj key = Some v \<and> get_property obj key = Own v"
  by (cases "map_of obj key") (auto simp: get_property_def map_of_eq_None_iff)

lemma truthy_key: "key \<in> set (map fst obj) \<Longrightarrow> truthy (get_property obj key)"
  using get_property_key [of key obj] by (auto simp: truthy_def)

lemma table_Zn: "map_of STANDARD_REDUCTION_POTENTIALS ''Zn'' = Some (- 0.76)"
  by (simp add: STANDARD_REDUCTION_POTENTIALS_def)

lemma table_Cu: "map_of STANDARD_REDUCTION_POTENTIALS ''Cu'' = Some 0.34"
  by (simp add: STANDARD_REDUCTION_POTENTIALS_def)

text \<open>Outside the inherited names the lookup of the solvent agrees with the table of the
  specification, and the catalyst test with its wording.\<close>

lemma solventFactor_eq_spec:
  "name \<notin> set Object_prototype_names \<Longrightarrow> solventFactor name = literal (solventFactor_spec name)"
  by (simp add: solventFactor_def get_property_def solventFactors_def solventFactor_spec_def)

lemma catalystBoost_eq_spec:
  "catalystBoost c = (if c \<noteq> None \<and> c \<noteq> Some [] then literal 0.05 else literal 0.0)"
  by (cases c) (simp_all add: catalystBoost_def)

lemma literal_m0059: "literal (- 0.059) = js_neg (literal 0.059)"
  by (simp add: literal_def)

text \<open>So, outside the inherited names, the correction is the one of the specification.\<close>

lemma modifyPotential_eq_spec:
  assumes "solvent env \<notin> set Object_prototype_names"
  shows "modifyPotential lg env b = correct_spec lg env b"
  unfolding modifyPotential_def rawPotential_def correct_spec_def Let_def
    solventFactor_eq_spec [OF assms] catalystBoost_eq_spec literal_m0059 ..

text \<open>An identifier that is neither a key of the table nor an inherited name is refused.\<close>

lemma unknown_electrode_refused:
  assumes "get_property STANDARD_REDUCTION_POTENTIALS (anode params) = Undefined
         \<or> get_property STANDARD_REDUCTION_POTENTIALS (cathode params) = Undefined"
  shows "calculateCellPotential lg this params = Inl (Error ''Invalid electrode materials'')"
  using assms by (auto simp: calculateCellPotential_def rawCellPotential_def truthy_def)

section \<open>The cell potential on keys of the table\<close>

lemma rawCellPotential_keys:
  assumes "map_of STANDARD_REDUCTION_POTENTIALS (anode params) = Some pa"
      and "map_of STANDARD_REDUCTION_POTENTIALS (cathode params) = Some pc"
      and "concCathode params \<noteq> 0"
  shows "rawCellPotential lg this params =
     Inr (js_sub
          (js_sub (parseFloat (modifyPotential lg (cell_environment this) (literal pc)))
                  (parseFloat (modifyPotential lg (cell_environment this) (literal pa))))
          (js_mul
             (js_div
                (js_mul (js_add (Fin (temperature (cell_environment this))) (literal 273.15))
                   (literal 8.31446261815324))
                (js_mul (literal 2) (literal 96485.3321233100184)))
             (Math_log lg (js_div (Fin (concAnode params)) (Fin (concCathode params))))))"
proof -
  have a: "get_property STANDARD_REDUCTION_POTENTIALS (anode params) = Own pa"
    by (rule get_property_own [OF assms(1)])
  have c: "get_property STANDARD_REDUCTION_POTENTIALS (cathode params) = Own pc"
    by (rule get_property_own [OF assms(2)])
  show ?thesis
    unfolding rawCellPotential_def Let_def a c
    by (simp only: truthy_def potential_def property.simps assms(3) if_False simp_thms)
qed

lemma calculateCellPotential_raw:
  "rawCellPotential lg this params = Inr r \<Longrightarrow>
     calculateCellPotential lg this params = Inr (toFixed 4 r)"
  by (simp add: calculateCellPotential_def)

lemma cell_potential_spec_unfold:
  "cell_potential_spec lg env pa pc cA cC =
     toFixed 4
       (js_sub
          (js_sub (parseFloat (correct_spec lg env (literal pc)))
                  (parseFloat (correct_spec lg env (literal pa))))
          (js_mul
             (js_div
                (js_mul (js_add (Fin (temperature env)) (literal 273.15))
                   (literal 8.31446261815324))
                (js_mul (literal 2) (literal 96485.3321233100184)))
             (Math_log lg (js_div (Fin cA) (Fin cC)))))"
  unfolding cell_potential_spec_def Let_def ..

section \<open>Texts that are not decimal\<close>

lemma toFixed_NaN: "toFixed f NaN = Str ''NaN''"
  by (simp add: toFixed_def)

lemma toFixed_PInf: "toFixed f PInf = Str ''Infinity''"
  by (simp add: toFixed_def)

lemma toFixed_NInf: "toFixed f NInf = Str ''-Infinity''"
  by (simp add: toFixed_def)

lemma toFixed_large: "10 ^ 21 \<le> \<bar>x\<bar> \<Longrightarrow> toFixed f (Fin x) = NumberToString x"
  by (simp add: toFixed_def Let_def abs_if)

lemma places_NaN: "decimal_places (Str ''NaN'') = None"
  by (simp add: decimal_places_def is_digit_def)

lemma places_Infinity: "decimal_places (Str ''Infinity'') = None"
  by (simp add: decimal_places_def is_digit_def)

lemma places_minus_Infinity: "decimal_places (Str ''-Infinity'') = None"
  by (simp add: decimal_places_def is_digit_def)

text \<open>The text \<^verbatim>\<open>toFixed(f)\<close> writes has exactly \<open>f\<close> decimals if and only if the number
  is finite and below \<open>10\<^sup>2\<^sup>1\<close>.\<close>

lemma decimal_places_toFixed_iff:
  assumes "f \<noteq> 0"
  shows "decimal_places (toFixed f v) = Some f \<longleftrightarrow> (\<exists>x. v = Fin x \<and> \<bar>x\<bar> < 10 ^ 21)"
proof (cases v)
  case NaN
  then show ?thesis by (simp add: toFixed_NaN places_NaN)
next
  case PInf
  then show ?thesis by (simp add: toFixed_PInf places_Infinity)
next
  case NInf
  then show ?thesis by (simp add: toFixed_NInf places_minus_Infinity)
next
  case (Fin x)
  show ?thesis
  proof (cases "\<bar>x\<bar> < 10 ^ 21")
    case True
    with Fin decimal_places_toFixed [OF True assms] show ?thesis by simp
  next
    case False
    then have "toFixed f (Fin x) = NumberToString x"
      by (intro toFixed_large) simp
    with Fin False show ?thesis by (simp add: decimal_places_def)
  qed
qed

section \<open>Running the statements of the methods\<close>

text \<open>Statements that do not assign leave the engine and the argument as they are, if
  the method they call does.\<close>

lemma exec_keeps_objects:
  assumes "\<And>v s. engine (snd (call v s)) = engine s \<and> argument (snd (call v s)) = argument s"
      and "\<not> list_ex assigns body"
  shows "engine (snd (exec call body s l)) = engine s
       \<and> argument (snd (exec call body s l)) = argument s"
  using assms
proof (induction call body s l rule: exec.induct)
  case (3 call x k e r s l)
  note keeps = "3.prems"(1)
  obtain out s' where c: "call (e s l) s = (out, s')"
    by (cases "call (e s l) s")
  have k: "engine s' = engine s \<and> argument s' = argument s"
    using keeps [of "e s l" s] unfolding c by simp
  have nr: "\<not> list_ex assigns r"
    using "3.prems"(2) by simp
  show ?case
  proof (cases out)
    case Completes
    with "3.IH"(1) [OF c [unfolded Completes, symmetric] refl keeps nr] c k show ?thesis by (simp add: fun_upd_def)
  next
    case (Returns v)
    with "3.IH"(2) [OF c [unfolded Returns, symmetric] refl keeps nr] c k show ?thesis by (simp add: fun_upd_def)
  next
    case (Throws v)
    with c k show ?thesis by (simp add: fun_upd_def)
  qed
next
  case (7 call body x handler r s l)
  note keeps = "7.prems"(1)
  obtain out s' where b: "exec call body s l = (out, s')"
    by (cases "exec call body s l")
  from "7.prems"(2) have nb: "\<not> list_ex assigns body" and nh: "\<not> list_ex assigns handler"
    and nr: "\<not> list_ex assigns r"
    by simp_all
  have kb: "engine s' = engine s \<and> argument s' = argument s"
    using "7.IH"(1) [OF keeps nb] unfolding b by simp
  show ?case
  proof (cases out)
    case Completes
    with "7.IH"(2) [OF b [unfolded Completes, symmetric] refl keeps nr] b kb show ?thesis by (simp add: fun_upd_def)
  next
    case (Returns v)
    with b kb show ?thesis by (simp add: fun_upd_def)
  next
    case (Throws v)
    note bt = b [unfolded Throws]
    note bs = bt [symmetric]
    obtain out2 s2 where h: "exec call handler s' (l(x := v)) = (out2, s2)"
      by (cases "exec call handler s' (l(x := v))")
    have kh: "engine s2 = engine s' \<and> argument s2 = argument s'"
      using "7.IH"(3) [OF bs refl keeps nh] unfolding h by simp
    show ?thesis
    proof (cases out2)
      case Completes
      with "7.IH"(4) [OF bs refl h [unfolded Completes, symmetric] refl keeps nr] bt h kb kh
      show ?thesis by (simp add: fun_upd_def)
    next
      case (Returns w)
      with bt h kb kh show ?thesis by (simp add: fun_upd_def)
    next
      case (Throws w)
      with bt h kb kh show ?thesis by (simp add: fun_upd_def)
    qed
  qed
qed simp_all

text \<open>The statements of \<^verbatim>\<open>modifyPotential\<close> return the text of the function
  \<open>modifyPotential\<close> and leave the store as it is.\<close>

lemma call_modifyPotential_eq:
  "call_modifyPotential lg b s =
     (Returns (Text (modifyPotential lg (cell_environment (engine s)) (num b))), s)"
  by (simp add: call_modifyPotential_def modifyPotential_body_def modifyPotential_def
      rawPotential_def num_def Let_def)

text \<open>The statements of \<^verbatim>\<open>calculateCellPotential\<close> return the text of the function
  \<open>calculateCellPotential\<close>, or log and throw its error.\<close>

lemma call_calculateCellPotential_eq:
  "call_calculateCellPotential lg s =
     (case calculateCellPotential lg (engine s) (argument s) of
        Inl e \<Rightarrow>
          (Throws (Err e),
           s\<lparr>console := console s @ [(''Cell potential calculation error:'', e)]\<rparr>)
      | Inr t \<Rightarrow> (Returns (Text t), s))"
  by (simp add: call_calculateCellPotential_def calculateCellPotential_body_def
      call_modifyPotential_eq calculateCellPotential_def rawCellPotential_def num_def
      parseFloat_of_def error_of_def Let_def)

section \<open>The doubles of the examples\<close>

subsection \<open>The literals of the source\<close>

lemma literal_273_15:
  "literal 273.15 = Fin (2402652809016115 / 8796093022208)"
  by (simp add: literal_def double_of_at [where k = "8"] pow2_def round_half_even_def)

lemma literal_298_15:
  "literal 298.15 = Fin (2622555134571315 / 8796093022208)"
  by (simp add: literal_def double_of_at [where k = "8"] pow2_def round_half_even_def)

lemma literal_0_059:
  "literal 0.059 = Fin (1062849512059437 / 18014398509481984)"
  by (simp add: literal_def double_of_at [where k = "-5"] pow2_def round_half_even_def)

lemma literal_0_01:
  "literal 0.01 = Fin (5764607523034235 / 576460752303423488)"
  by (simp add: literal_def double_of_at [where k = "-7"] pow2_def round_half_even_def)

lemma literal_0_05:
  "literal 0.05 = Fin (3602879701896397 / 72057594037927936)"
  by (simp add: literal_def double_of_at [where k = "-5"] pow2_def round_half_even_def)

lemma literal_0_95:
  "literal 0.95 = Fin (4278419646001971 / 4503599627370496)"
  by (simp add: literal_def double_of_at [where k = "-1"] pow2_def round_half_even_def)

lemma literal_1:
  "literal 1 = Fin 1"
  by (simp add: literal_def double_of_at [where k = "0"] pow2_def round_half_even_def)

lemma literal_2:
  "literal 2 = Fin 2"
  by (simp add: literal_def double_of_at [where k = "1"] pow2_def round_half_even_def)

lemma literal_7:
  "literal 7 = Fin 7"
  by (simp add: literal_def double_of_at [where k = "2"] pow2_def round_half_even_def)

lemma literal_R:
  "literal 8.31446261815324 = Fin (2340313171806303 / 281474976710656)"
  by (simp add: literal_def double_of_at [where k = "3"] pow2_def round_half_even_def)

lemma literal_F:
  "literal 96485.3321233100184 = Fin (1657605384053259 / 17179869184)"
  by (simp add: literal_def double_of_at [where k = "16"] pow2_def round_half_even_def)

lemma literal_Zn:
  "literal (- 0.76) = Fin (- (3422735716801577 / 4503599627370496))"
  by (simp add: literal_def double_of_at [where k = "-1"] pow2_def round_half_even_def)

lemma literal_Cu:
  "literal 0.34 = Fin (6124895493223875 / 18014398509481984)"
  by (simp add: literal_def double_of_at [where k = "-2"] pow2_def round_half_even_def)

lemma literal_m0_0005:
  "literal (- 0.0005) = Fin (- (1152921504606847 / 2305843009213693952))"
  by (simp add: literal_def double_of_at [where k = "-11"] pow2_def round_half_even_def)

lemma literal_0_0275:
  "literal 0.0275 = Fin (7926335344172073 / 288230376151711744)"
  by (simp add: literal_def double_of_at [where k = "-6"] pow2_def round_half_even_def)

subsection \<open>Doubles are rounded to themselves\<close>

lemma double_Zn:
  "double_of (- (3422735716801577 / 4503599627370496)) = Fin (- (3422735716801577 / 4503599627370496))"
  by (simp add: double_of_at [where k = "-1"] pow2_def round_half_even_def)

lemma double_Cu:
  "double_of (6124895493223875 / 18014398509481984) = Fin (6124895493223875 / 18014398509481984)"
  by (simp add: double_of_at [where k = "-2"] pow2_def round_half_even_def)

lemma double_m0_0005:
  "double_of (- (1152921504606847 / 2305843009213693952)) = Fin (- (1152921504606847 / 2305843009213693952))"
  by (simp add: double_of_at [where k = "-11"] pow2_def round_half_even_def)

lemma double_0_0275:
  "double_of (7926335344172073 / 288230376151711744) = Fin (7926335344172073 / 288230376151711744)"
  by (simp add: double_of_at [where k = "-6"] pow2_def round_half_even_def)

lemma double_m0_76:
  "double_of (- 0.76) = Fin (- (3422735716801577 / 4503599627370496))"
  by (simp add: double_of_at [where k = "-1"] pow2_def round_half_even_def)

lemma double_0_34:
  "double_of 0.34 = Fin (6124895493223875 / 18014398509481984)"
  by (simp add: double_of_at [where k = "-2"] pow2_def round_half_even_def)

subsection \<open>At 25 degrees Celsius\<close>

lemma kelvin_25:
  "js_add (Fin 25) (Fin (2402652809016115 / 8796093022208)) = Fin (2622555134571315 / 8796093022208)"
  by (simp add: js_sub_def double_of_at [where k = "8"] pow2_def round_half_even_def)

lemma tempFactor_25:
  "js_div (Fin (2622555134571315 / 8796093022208)) (Fin (2622555134571315 / 8796093022208)) = Fin 1"
  by (simp add: js_sub_def double_of_at [where k = "0"] pow2_def round_half_even_def)

subsection \<open>The reference cell\<close>

lemma E0_cell_zinc_copper:
  "js_sub (Fin (6124895493223875 / 18014398509481984)) (Fin (- (3422735716801577 / 4503599627370496))) = Fin (2476979795053773 / 2251799813685248)"
  by (simp add: js_sub_def double_of_at [where k = "0"] pow2_def round_half_even_def)

lemma kelvin_25_R:
  "js_mul (Fin (2622555134571315 / 8796093022208)) (Fin (2340313171806303 / 281474976710656)) = Fin (5451284157609759 / 2199023255552)"
  by (simp add: js_sub_def double_of_at [where k = "11"] pow2_def round_half_even_def)

lemma twice_F:
  "js_mul (Fin 2) (Fin (1657605384053259 / 17179869184)) = Fin (1657605384053259 / 8589934592)"
  by (simp add: js_sub_def double_of_at [where k = "17"] pow2_def round_half_even_def)

lemma RT_nF_25:
  "js_div (Fin (5451284157609759 / 2199023255552)) (Fin (1657605384053259 / 8589934592)) = Fin (1851345436094547 / 144115188075855872)"
  by (simp add: js_sub_def double_of_at [where k = "-7"] pow2_def round_half_even_def)

lemma double_E0_cell_zinc_copper:
  "double_of (2476979795053773 / 2251799813685248) = Fin (2476979795053773 / 2251799813685248)"
  by (simp add: double_of_at [where k = "0"] pow2_def round_half_even_def)

subsection \<open>The sums of the counterexamples\<close>

lemma sum_m0_0005_catalyst:
  "js_add (Fin (- (1152921504606847 / 2305843009213693952))) (Fin (3602879701896397 / 72057594037927936)) = Fin (3566850904877433 / 72057594037927936)"
  by (simp add: js_sub_def double_of_at [where k = "-5"] pow2_def round_half_even_def)

lemma ph_8_minus_7:
  "js_sub (Fin 8) (Fin 7) = Fin 1"
  by (simp add: js_sub_def double_of_at [where k = "0"] pow2_def round_half_even_def)

lemma phFactor_8:
  "js_mul (Fin (- (1062849512059437 / 18014398509481984))) (Fin 1) = Fin (- (1062849512059437 / 18014398509481984))"
  by (simp add: js_sub_def double_of_at [where k = "-5"] pow2_def round_half_even_def)

lemma sum_0_0275_ph_8:
  "js_add (Fin (7926335344172073 / 288230376151711744)) (Fin (- (1062849512059437 / 18014398509481984))) = Fin (- (1134907106097365 / 36028797018963968))"
  by (simp add: js_sub_def double_of_at [where k = "-5"] pow2_def round_half_even_def)

lemma double_sum_0_0275_ph_8:
  "double_of (- (1134907106097365 / 36028797018963968)) = Fin (- (1134907106097365 / 36028797018963968))"
  by (simp add: double_of_at [where k = "-5"] pow2_def round_half_even_def)

lemma sum_Cu_catalyst:
  "js_add (Fin (6124895493223875 / 18014398509481984)) (Fin (3602879701896397 / 72057594037927936)) = Fin (3512807709348987 / 9007199254740992)"
  by (simp add: js_sub_def double_of_at [where k = "-2"] pow2_def round_half_even_def)

lemma sum_Cu_ph_8:
  "js_add (Fin (6124895493223875 / 18014398509481984)) (Fin (- (1062849512059437 / 18014398509481984))) = Fin (2531022990582219 / 9007199254740992)"
  by (simp add: js_sub_def double_of_at [where k = "-2"] pow2_def round_half_even_def)

lemma double_sum_Cu_ph_8:
  "double_of (2531022990582219 / 9007199254740992) = Fin (2531022990582219 / 9007199254740992)"
  by (simp add: double_of_at [where k = "-2"] pow2_def round_half_even_def)

subsection \<open>The bath\<close>

lemma kelvin_50:
  "js_add (Fin 50) (Fin (2402652809016115 / 8796093022208)) = Fin (2842457460126515 / 8796093022208)"
  by (simp add: js_sub_def double_of_at [where k = "8"] pow2_def round_half_even_def)

lemma tempFactor_50:
  "js_div (Fin (2842457460126515 / 8796093022208)) (Fin (2622555134571315 / 8796093022208)) = Fin (610153538313255 / 562949953421312)"
  by (simp add: js_sub_def double_of_at [where k = "0"] pow2_def round_half_even_def)

lemma pressure_term_2:
  "js_mul (Fin (6243314768165359 / 9007199254740992)) (Fin (5764607523034235 / 576460752303423488)) = Fin (1997860725812915 / 288230376151711744)"
  by (simp add: js_sub_def double_of_at [where k = "-8"] pow2_def round_half_even_def)

lemma ph_6_minus_7:
  "js_sub (Fin 6) (Fin 7) = Fin (- 1)"
  by (simp add: js_sub_def double_of_at [where k = "0"] pow2_def round_half_even_def)

lemma phFactor_6:
  "js_mul (Fin (- (1062849512059437 / 18014398509481984))) (Fin (- 1)) = Fin (1062849512059437 / 18014398509481984)"
  by (simp add: js_sub_def double_of_at [where k = "-5"] pow2_def round_half_even_def)

lemma bath_Zn_1:
  "js_mul (Fin (- (3422735716801577 / 4503599627370496))) (Fin (610153538313255 / 562949953421312)) = Fin (- (7419467025889181 / 9007199254740992))"
  by (simp add: js_sub_def double_of_at [where k = "-1"] pow2_def round_half_even_def)

lemma bath_Zn_2:
  "js_mul (Fin (- (7419467025889181 / 9007199254740992))) (Fin (4278419646001971 / 4503599627370496)) = Fin (- (3524246837297361 / 4503599627370496))"
  by (simp add: js_sub_def double_of_at [where k = "-1"] pow2_def round_half_even_def)

lemma bath_Zn_3:
  "js_add (Fin (- (3524246837297361 / 4503599627370496))) (Fin (1997860725812915 / 288230376151711744)) = Fin (- (1746515131728267 / 2251799813685248))"
  by (simp add: js_sub_def double_of_at [where k = "-1"] pow2_def round_half_even_def)

lemma bath_Zn_4:
  "js_add (Fin (- (1746515131728267 / 2251799813685248))) (Fin (1062849512059437 / 18014398509481984)) = Fin (- (3227317885441675 / 4503599627370496))"
  by (simp add: js_sub_def double_of_at [where k = "-1"] pow2_def round_half_even_def)

lemma bath_Zn_5:
  "js_add (Fin (- (3227317885441675 / 4503599627370496))) (Fin (3602879701896397 / 72057594037927936)) = Fin (- (1501068952036575 / 2251799813685248))"
  by (simp add: js_sub_def double_of_at [where k = "-1"] pow2_def round_half_even_def)

lemma bath_Cu_1:
  "js_mul (Fin (6124895493223875 / 18014398509481984)) (Fin (610153538313255 / 562949953421312)) = Fin (6638470496848215 / 18014398509481984)"
  by (simp add: js_sub_def double_of_at [where k = "-2"] pow2_def round_half_even_def)

lemma bath_Cu_2:
  "js_mul (Fin (6638470496848215 / 18014398509481984)) (Fin (4278419646001971 / 4503599627370496)) = Fin (1576636743001451 / 4503599627370496)"
  by (simp add: js_sub_def double_of_at [where k = "-2"] pow2_def round_half_even_def)

lemma bath_Cu_3:
  "js_add (Fin (1576636743001451 / 4503599627370496)) (Fin (1997860725812915 / 288230376151711744)) = Fin (6431413267369111 / 18014398509481984)"
  by (simp add: js_sub_def double_of_at [where k = "-2"] pow2_def round_half_even_def)

lemma bath_Cu_4:
  "js_add (Fin (6431413267369111 / 18014398509481984)) (Fin (1062849512059437 / 18014398509481984)) = Fin (1873565694857137 / 4503599627370496)"
  by (simp add: js_sub_def double_of_at [where k = "-2"] pow2_def round_half_even_def)

lemma bath_Cu_5:
  "js_add (Fin (1873565694857137 / 4503599627370496)) (Fin (3602879701896397 / 72057594037927936)) = Fin (8394982704902647 / 18014398509481984)"
  by (simp add: js_sub_def double_of_at [where k = "-2"] pow2_def round_half_even_def)

lemma read_bath_Zn:
  "double_of (- (667 / 1000)) = Fin (- (3003900951456121 / 4503599627370496))"
  by (simp add: double_of_at [where k = "-1"] pow2_def round_half_even_def)

lemma read_bath_Cu:
  "double_of (233 / 500) = Fin (8394709705418605 / 18014398509481984)"
  by (simp add: double_of_at [where k = "-2"] pow2_def round_half_even_def)

lemma E0_cell_bath:
  "js_sub (Fin (8394709705418605 / 18014398509481984)) (Fin (- (3003900951456121 / 4503599627370496))) = Fin (1275644594452693 / 1125899906842624)"
  by (simp add: js_sub_def double_of_at [where k = "0"] pow2_def round_half_even_def)

lemma kelvin_50_R:
  "js_mul (Fin (2842457460126515 / 8796093022208)) (Fin (2340313171806303 / 281474976710656)) = Fin (2954188286989089 / 1099511627776)"
  by (simp add: js_sub_def double_of_at [where k = "11"] pow2_def round_half_even_def)

lemma RT_nF_50:
  "js_div (Fin (2954188286989089 / 1099511627776)) (Fin (1657605384053259 / 8589934592)) = Fin (8026326046271379 / 576460752303423488)"
  by (simp add: js_sub_def double_of_at [where k = "-7"] pow2_def round_half_even_def)

lemma Q_2_1:
  "js_div (Fin 2) (Fin 1) = Fin 2"
  by (simp add: js_sub_def double_of_at [where k = "1"] pow2_def round_half_even_def)

lemma bath_thermal:
  "js_mul (Fin (8026326046271379 / 576460752303423488)) (Fin (6243314768165359 / 9007199254740992)) = Fin (5563425269227859 / 576460752303423488)"
  by (simp add: js_sub_def double_of_at [where k = "-7"] pow2_def round_half_even_def)

lemma bath_result:
  "js_sub (Fin (1275644594452693 / 1125899906842624)) (Fin (5563425269227859 / 576460752303423488)) = Fin (5059114117894929 / 4503599627370496)"
  by (simp add: js_sub_def double_of_at [where k = "0"] pow2_def round_half_even_def)

subsection \<open>Methanol at 25 degrees Celsius and pressure 1\<close>

lemma literal_K:
  "literal (- 2.93) = Fin (- (6597773454097777 / 2251799813685248))"
  by (simp add: literal_def double_of_at [where k = "1"] pow2_def round_half_even_def)

lemma literal_Hg:
  "literal 0.85 = Fin (7656119366529843 / 9007199254740992)"
  by (simp add: literal_def double_of_at [where k = "-1"] pow2_def round_half_even_def)

lemma literal_Ni:
  "literal (- 0.25) = Fin (- (1 / 4))"
  by (simp add: literal_def double_of_at [where k = "-2"] pow2_def round_half_even_def)

lemma double_K:
  "double_of (- (6597773454097777 / 2251799813685248)) = Fin (- (6597773454097777 / 2251799813685248))"
  by (simp add: double_of_at [where k = "1"] pow2_def round_half_even_def)

lemma double_Hg:
  "double_of (7656119366529843 / 9007199254740992) = Fin (7656119366529843 / 9007199254740992)"
  by (simp add: double_of_at [where k = "-1"] pow2_def round_half_even_def)

lemma double_Ni:
  "double_of (- (1 / 4)) = Fin (- (1 / 4))"
  by (simp add: double_of_at [where k = "-2"] pow2_def round_half_even_def)

lemma methanol_K:
  "js_mul (Fin (- (6597773454097777 / 2251799813685248))) (Fin (4278419646001971 / 4503599627370496)) = Fin (- (783485597674111 / 281474976710656))"
  by (simp add: js_sub_def double_of_at [where k = "1"] pow2_def round_half_even_def)

lemma methanol_Hg:
  "js_mul (Fin (7656119366529843 / 9007199254740992)) (Fin (4278419646001971 / 4503599627370496)) = Fin (7273313398203351 / 9007199254740992)"
  by (simp add: js_sub_def double_of_at [where k = "-1"] pow2_def round_half_even_def)

lemma methanol_Ni:
  "js_mul (Fin (- (1 / 4))) (Fin (4278419646001971 / 4503599627370496)) = Fin (- (4278419646001971 / 18014398509481984))"
  by (simp add: js_sub_def double_of_at [where k = "-3"] pow2_def round_half_even_def)

lemma methanol_Zn:
  "js_mul (Fin (- (3422735716801577 / 4503599627370496))) (Fin (4278419646001971 / 4503599627370496)) = Fin (- (1625799465480749 / 2251799813685248))"
  by (simp add: js_sub_def double_of_at [where k = "-1"] pow2_def round_half_even_def)

lemma double_methanol_K:
  "double_of (- (783485597674111 / 281474976710656)) = Fin (- (783485597674111 / 281474976710656))"
  by (simp add: double_of_at [where k = "1"] pow2_def round_half_even_def)

lemma double_methanol_Hg:
  "double_of (7273313398203351 / 9007199254740992) = Fin (7273313398203351 / 9007199254740992)"
  by (simp add: double_of_at [where k = "-1"] pow2_def round_half_even_def)

lemma double_methanol_Ni:
  "double_of (- (4278419646001971 / 18014398509481984)) = Fin (- (4278419646001971 / 18014398509481984))"
  by (simp add: double_of_at [where k = "-3"] pow2_def round_half_even_def)

lemma double_methanol_Zn:
  "double_of (- (1625799465480749 / 2251799813685248)) = Fin (- (1625799465480749 / 2251799813685248))"
  by (simp add: double_of_at [where k = "-1"] pow2_def round_half_even_def)

lemma ph_1_minus_7:
  "js_sub (Fin 1) (Fin 7) = Fin (- 6)"
  by (simp add: js_sub_def double_of_at [where k = "2"] pow2_def round_half_even_def)

lemma phFactor_1:
  "js_mul (Fin (- (1062849512059437 / 18014398509481984))) (Fin (- 6)) = Fin (3188548536178311 / 9007199254740992)"
  by (simp add: js_sub_def double_of_at [where k = "-2"] pow2_def round_half_even_def)

lemma ph_2_minus_7:
  "js_sub (Fin 2) (Fin 7) = Fin (- 5)"
  by (simp add: js_sub_def double_of_at [where k = "2"] pow2_def round_half_even_def)

lemma phFactor_2:
  "js_mul (Fin (- (1062849512059437 / 18014398509481984))) (Fin (- 5)) = Fin (5314247560297185 / 18014398509481984)"
  by (simp add: js_sub_def double_of_at [where k = "-2"] pow2_def round_half_even_def)

lemma acid_methanol_K:
  "js_add (Fin (- (783485597674111 / 281474976710656))) (Fin (3188548536178311 / 9007199254740992)) = Fin (- (2735373823674155 / 1125899906842624))"
  by (simp add: js_sub_def double_of_at [where k = "1"] pow2_def round_half_even_def)

lemma double_acid_methanol_K:
  "double_of (- (2735373823674155 / 1125899906842624)) = Fin (- (2735373823674155 / 1125899906842624))"
  by (simp add: double_of_at [where k = "1"] pow2_def round_half_even_def)

lemma acid_methanol_K_catalyst:
  "js_add (Fin (- (2735373823674155 / 1125899906842624))) (Fin (3602879701896397 / 72057594037927936)) = Fin (- (334884853541503 / 140737488355328))"
  by (simp add: js_sub_def double_of_at [where k = "1"] pow2_def round_half_even_def)

lemma acid_methanol_Hg:
  "js_add (Fin (7273313398203351 / 9007199254740992)) (Fin (3188548536178311 / 9007199254740992)) = Fin (5230930967190831 / 4503599627370496)"
  by (simp add: js_sub_def double_of_at [where k = "0"] pow2_def round_half_even_def)

lemma double_acid_methanol_Hg:
  "double_of (5230930967190831 / 4503599627370496) = Fin (5230930967190831 / 4503599627370496)"
  by (simp add: double_of_at [where k = "0"] pow2_def round_half_even_def)

lemma acid_methanol_Hg_catalyst:
  "js_add (Fin (5230930967190831 / 4503599627370496)) (Fin (3602879701896397 / 72057594037927936)) = Fin (1364027737139839 / 1125899906842624)"
  by (simp add: js_sub_def double_of_at [where k = "0"] pow2_def round_half_even_def)

lemma acid_methanol_Hg_ph_2:
  "js_add (Fin (7273313398203351 / 9007199254740992)) (Fin (5314247560297185 / 18014398509481984)) = Fin (1241304647293993 / 1125899906842624)"
  by (simp add: js_sub_def double_of_at [where k = "0"] pow2_def round_half_even_def)

lemma double_acid_methanol_Hg_ph_2:
  "double_of (1241304647293993 / 1125899906842624) = Fin (1241304647293993 / 1125899906842624)"
  by (simp add: double_of_at [where k = "0"] pow2_def round_half_even_def)

lemma read_methanol_Ni:
  "double_of (- (237 / 1000)) = Fin (- (2134706223373615 / 9007199254740992))"
  by (simp add: double_of_at [where k = "-3"] pow2_def round_half_even_def)

lemma read_methanol_Zn:
  "double_of (- (361 / 500)) = Fin (- (1625799465480749 / 2251799813685248))"
  by (simp add: double_of_at [where k = "-1"] pow2_def round_half_even_def)

lemma E0_cell_zinc_nickel_methanol:
  "js_sub (Fin (- (2134706223373615 / 9007199254740992))) (Fin (- (1625799465480749 / 2251799813685248))) = Fin (4368491638549381 / 9007199254740992)"
  by (simp add: js_sub_def double_of_at [where k = "-2"] pow2_def round_half_even_def)

lemma double_E0_cell_zinc_nickel_methanol:
  "double_of (4368491638549381 / 9007199254740992) = Fin (4368491638549381 / 9007199254740992)"
  by (simp add: double_of_at [where k = "-2"] pow2_def round_half_even_def)

section \<open>The examples\<close>

subsection \<open>The standard conditions\<close>

lemma double_of_0: "double_of 0 = Fin 0"
  by (simp add: double_of_def)

text \<open>At 25 degrees Celsius, pressure 1 and in water only the pH and the catalyst move a
  potential; under the conditions of the presets nothing does.\<close>

lemma rawPotential_standard:
  assumes "temperature env = 25" and "pressure env = 1" and "solvent env = ''Water''"
      and "double_of b = Fin b"
  shows "rawPotential lg env (Fin b) =
           js_add
             (js_add (Fin b)
                (js_mul (js_neg (literal 0.059)) (js_sub (Fin (ph env)) (literal 7))))
             (catalystBoost (catalyst env))"
proof -
  have tf: "js_div (js_add (Fin (temperature env)) (literal 273.15)) (literal 298.15) = Fin 1"
    unfolding assms(1) literal_273_15 literal_298_15 kelvin_25 by (rule tempFactor_25)
  have pf: "js_mul (Math_log lg (Fin (pressure env))) (literal 0.01) = Fin 0"
    unfolding assms(2) literal_0_01 by (simp add: double_of_0)
  have sf: "solventFactor (solvent env) = Fin 1"
    using literal_1 by (simp add: assms(3) table_defs)
  have "js_add (js_mul (js_mul (Fin b) (Fin 1)) (Fin 1)) (Fin 0) = Fin b"
    by (simp add: assms(4))
  then show ?thesis
    unfolding rawPotential_def Let_def tf pf sf by (simp only:)
qed

lemma preset_conditions:
  "temperature preset_environment = 25" "pressure preset_environment = 1"
  "solvent preset_environment = ''Water''" "ph preset_environment = 7"
  "catalyst preset_environment = None"
  by (simp_all add: preset_environment_def)

lemma phFactor_7: "js_mul (js_neg (literal 0.059)) (js_sub (Fin 7) (literal 7)) = Fin 0"
  unfolding literal_0_059 literal_7 by (simp add: js_sub_def double_of_0)

lemma catalystBoost_None: "catalystBoost None = Fin 0"
  by (simp add: catalystBoost_def literal_def double_of_0)

lemma catalystBoost_Some: "name \<noteq> [] \<Longrightarrow> catalystBoost (Some name) = Fin (3602879701896397 / 72057594037927936)"
  using literal_0_05 by (simp add: catalystBoost_def)

lemma rawPotential_preset:
  assumes "double_of b = Fin b"
  shows "rawPotential lg preset_environment (Fin b) = Fin b"
proof -
  have "js_add (js_add (Fin b) (Fin 0)) (Fin 0) = Fin b"
    by (simp add: assms)
  then show ?thesis
    unfolding rawPotential_standard [OF preset_conditions(1-3) assms] preset_conditions
      phFactor_7 catalystBoost_None .
qed

subsection \<open>Texts and their numbers\<close>

lemma zeros_numeral:
  "replicate (numeral k) (CHR ''0'') = CHR ''0'' # replicate (pred_numeral k) (CHR ''0'')"
  by (simp only: numeral_eq_Suc replicate_Suc)

lemmas toFixed_eval =
  toFixed_Fin fixed_digits_def Let_def decimal_digits.simps digit_char_def zeros_numeral

lemmas decimal_value_eval =
  decimal_value.simps parse_unsigned_def parse_exponent_def Let_def is_space_def is_digit_def
  digits_value_def digit_value_def

lemma text_Zn: "toFixed 3 (Fin (- (3422735716801577 / 4503599627370496))) = Str ''-0.760''"
  by (simp add: toFixed_eval)

lemma text_Cu: "toFixed 3 (Fin (6124895493223875 / 18014398509481984)) = Str ''0.340''"
  by (simp add: toFixed_eval)

lemma text_zinc_copper: "toFixed 4 (Fin (2476979795053773 / 2251799813685248)) = Str ''1.1000''"
  by (simp add: toFixed_eval)

lemma value_Zn: "decimal_value (Str ''-0.760'') = Fin (- 0.76)"
  by (simp add: decimal_value_eval)

lemma value_Cu: "decimal_value (Str ''0.340'') = Fin 0.34"
  by (simp add: decimal_value_eval)

lemma value_zinc_copper: "decimal_value (Str ''1.1000'') = Fin 1.1"
  by (simp add: decimal_value_eval)

lemma read_Zn: "parseFloat (Str ''-0.760'') = Fin (- (3422735716801577 / 4503599627370496))"
  using double_m0_76 by (simp add: parseFloat_def value_Zn)

lemma read_Cu: "parseFloat (Str ''0.340'') = Fin (6124895493223875 / 18014398509481984)"
  using double_0_34 by (simp add: parseFloat_def value_Cu)

subsection \<open>The preset of zinc and copper\<close>

lemma correction_Zn: "modifyPotential lg preset_environment (literal (- 0.76)) = Str ''-0.760''"
  unfolding modifyPotential_def literal_Zn rawPotential_preset [OF double_Zn] by (rule text_Zn)

lemma correction_Cu: "modifyPotential lg preset_environment (literal 0.34) = Str ''0.340''"
  unfolding modifyPotential_def literal_Cu rawPotential_preset [OF double_Cu] by (rule text_Cu)

lemma zinc_copper_fields:
  "anode zinc_copper = ''Zn''" "cathode zinc_copper = ''Cu''" "concAnode zinc_copper = 1"
  "concCathode zinc_copper = 1"
  by (simp_all add: zinc_copper_def)

lemma RT_nF_preset:
  "js_div (js_mul (js_add (Fin 25) (literal 273.15)) (literal 8.31446261815324))
          (js_mul (literal 2) (literal 96485.3321233100184)) = Fin (1851345436094547 / 144115188075855872)"
  unfolding literal_273_15 literal_R literal_2 literal_F kelvin_25 kelvin_25_R twice_F
  by (rule RT_nF_25)

lemma rawCellPotential_zinc_copper:
  "rawCellPotential lg preset_cell zinc_copper = Inr (Fin (2476979795053773 / 2251799813685248))"
proof -
  have env: "cell_environment preset_cell = preset_environment"
    by (simp add: preset_cell_def)
  have a: "map_of STANDARD_REDUCTION_POTENTIALS (anode zinc_copper) = Some (- 0.76)"
    unfolding zinc_copper_fields by (rule table_Zn)
  have c: "map_of STANDARD_REDUCTION_POTENTIALS (cathode zinc_copper) = Some 0.34"
    unfolding zinc_copper_fields by (rule table_Cu)
  have z: "concCathode zinc_copper \<noteq> 0"
    by (simp add: zinc_copper_fields)
  have q: "Math_log lg (js_div (Fin 1) (Fin 1)) = Fin 0"
    using tempFactor_25 by simp
  have t: "js_sub (Fin (2476979795053773 / 2251799813685248)) (js_mul (Fin (1851345436094547 / 144115188075855872)) (Fin 0)) = Fin (2476979795053773 / 2251799813685248)"
    using double_E0_cell_zinc_copper by (simp add: js_sub_def double_of_0)
  show ?thesis
    unfolding rawCellPotential_keys [OF a c z] env correction_Zn correction_Cu read_Zn read_Cu
      preset_conditions zinc_copper_fields RT_nF_preset E0_cell_zinc_copper q t ..
qed

lemma potential_zinc_copper:
  "calculateCellPotential lg preset_cell zinc_copper = Inr (Str ''1.1000'')"
  unfolding calculateCellPotential_raw [OF rawCellPotential_zinc_copper] text_zinc_copper ..

section \<open>Rounding to three decimals after a shift of the sum\<close>

lemma round_half_away_close: "\<bar>round_half_away 3 x - x\<bar> \<le> 1 / 2000"
proof (cases "x < 0")
  case True
  define n where "n = \<lfloor>- x * 1000 + 1 / 2\<rfloor>"
  have b: "of_int n \<le> - x * 1000 + 1 / 2" "- x * 1000 + 1 / 2 < of_int n + 1"
    unfolding n_def by linarith+
  have r: "round_half_away 3 x = - (of_int n / 1000)"
    using True by (simp add: round_half_away_def n_def)
  show ?thesis
    unfolding r using b by linarith
next
  case False
  define n where "n = \<lfloor>x * 1000 + 1 / 2\<rfloor>"
  have b: "of_int n \<le> x * 1000 + 1 / 2" "x * 1000 + 1 / 2 < of_int n + 1"
    unfolding n_def by linarith+
  have r: "round_half_away 3 x = of_int n / 1000"
    using False by (simp add: round_half_away_def n_def)
  show ?thesis
    unfolding r using b by linarith
qed

lemma round_half_away_thousandths: "\<exists>n::int. round_half_away 3 x = of_int n / 1000"
proof (cases "x < 0")
  case True
  then have "round_half_away 3 x = of_int (- \<lfloor>- x * 10 ^ 3 + 1 / 2\<rfloor>) / 1000"
    by (simp add: round_half_away_def)
  then show ?thesis ..
next
  case False
  then have "round_half_away 3 x = of_int \<lfloor>x * 10 ^ 3 + 1 / 2\<rfloor> / 1000"
    by (simp add: round_half_away_def)
  then show ?thesis ..
qed

text \<open>When the sum moves by \<open>k\<close> thousandths up to a millionth, its rounding to three
  decimals moves by \<open>k - 1\<close>, \<open>k\<close> or \<open>k + 1\<close> thousandths.\<close>

lemma rounded_shift:
  assumes "\<bar>x1 - (x0 + of_int k / 1000)\<bar> \<le> 1 / 10 ^ 6"
  shows "round_half_away 3 x1 - round_half_away 3 x0 = (of_int k - 1) / 1000
       \<or> round_half_away 3 x1 - round_half_away 3 x0 = of_int k / 1000
       \<or> round_half_away 3 x1 - round_half_away 3 x0 = (of_int k + 1) / 1000"
proof -
  obtain n0 :: int where n0: "round_half_away 3 x0 = of_int n0 / 1000"
    using round_half_away_thousandths [of x0] by blast
  obtain n1 :: int where n1: "round_half_away 3 x1 = of_int n1 / 1000"
    using round_half_away_thousandths [of x1] by blast
  have c0: "\<bar>of_int n0 / 1000 - x0\<bar> \<le> 1 / 2000"
    using round_half_away_close [of x0] by (simp only: n0)
  have c1: "\<bar>of_int n1 / 1000 - x1\<bar> \<le> 1 / 2000"
    using round_half_away_close [of x1] by (simp only: n1)
  have e: "real_of_int (n1 - n0 - k) = of_int n1 - of_int n0 - of_int k"
    by simp
  have a: "\<bar>x1 - (x0 + of_int k / 1000)\<bar> \<le> 1 / 1000000"
    using assms by simp
  have "\<bar>real_of_int (n1 - n0 - k)\<bar> < 2"
    unfolding e using c0 c1 a by linarith
  then have "\<bar>n1 - n0 - k\<bar> < 2"
    by linarith
  then have "n1 - n0 = k - 1 \<or> n1 - n0 = k \<or> n1 - n0 = k + 1"
    by linarith
  then have "real_of_int n1 - of_int n0 = of_int k - 1 \<or> real_of_int n1 - of_int n0 = of_int k
           \<or> real_of_int n1 - of_int n0 = of_int k + 1"
    by (metis of_int_1 of_int_add of_int_diff)
  then show ?thesis
    unfolding n0 n1 by argo
qed

text \<open>The same for the texts that \<^verbatim>\<open>toFixed(3)\<close> writes of the two sums.\<close>

lemma written_shift:
  assumes "\<bar>x0\<bar> \<le> 10 ^ 5" and "\<bar>x1 - (x0 + of_int k / 1000)\<bar> \<le> 1 / 10 ^ 6"
      and "\<bar>k\<bar> \<le> 1000"
  shows "\<exists>d0 d1. decimal_value (toFixed 3 (Fin x0)) = Fin d0
           \<and> decimal_value (toFixed 3 (Fin x1)) = Fin d1
           \<and> (d1 - d0 = (of_int k - 1) / 1000 \<or> d1 - d0 = of_int k / 1000
              \<or> d1 - d0 = (of_int k + 1) / 1000)"
proof -
  have k: "\<bar>real_of_int k / 1000\<bar> \<le> 1"
    using assms(3) by (simp add: abs_le_iff)
  have m0: "\<bar>x0\<bar> < 10 ^ 21"
    using assms(1) by simp
  have a: "\<bar>x1 - (x0 + of_int k / 1000)\<bar> \<le> 1 / 1000000" and b: "\<bar>x0\<bar> \<le> 100000"
    using assms(1,2) by simp_all
  have "\<bar>x1\<bar> \<le> 100002"
    using a b k by linarith
  then have m1: "\<bar>x1\<bar> < 10 ^ 21"
    by simp
  have "decimal_value (toFixed 3 (Fin x0)) = Fin (round_half_away 3 x0)"
    by (rule decimal_value_toFixed [OF m0]) simp
  moreover have "decimal_value (toFixed 3 (Fin x1)) = Fin (round_half_away 3 x1)"
    by (rule decimal_value_toFixed [OF m1]) simp
  ultimately show ?thesis
    using rounded_shift [OF assms(2)] by blast
qed

section \<open>The catalyst and the pH move the sum before it is rounded\<close>

lemma double_of_near:
  assumes "\<bar>x\<bar> \<le> 1000000"
  shows "\<exists>y. double_of x = Fin y \<and> \<bar>y - x\<bar> \<le> 1 / 8589934592"
proof -
  have "\<bar>x\<bar> \<le> 2 ^ 20"
    using assms by simp
  from double_of_close [OF this] show ?thesis
    by simp
qed

lemma double_of_near_result:
  assumes "double_of x = Fin y" and "\<bar>y\<bar> \<le> 1000000"
  shows "\<bar>y - x\<bar> \<le> 1 / 4294967296"
proof -
  have "\<bar>y\<bar> \<le> 2 ^ 20"
    using assms(2) by simp
  from double_of_close_result [OF assms(1) this] show ?thesis
    by simp
qed

lemma catalystBoost_none: "none = None \<or> none = Some [] \<Longrightarrow> catalystBoost none = Fin 0"
  by (auto simp: catalystBoost_def literal_def double_of_0)

lemma catalystBoost_cases:
  "catalystBoost c = Fin 0 \<or> catalystBoost c = Fin (3602879701896397 / 72057594037927936)"
proof (cases "c = None \<or> c = Some []")
  case True
  then show ?thesis
    by (simp add: catalystBoost_none)
next
  case False
  then obtain name where "c = Some name" and "name \<noteq> []"
    by (cases c) auto
  then show ?thesis
    by (simp add: catalystBoost_Some)
qed

lemma regroup_product:
  fixes a f p t :: real
  shows "f + a * (p - 7) = (f - (- a * t)) - a * (t - (p + - 7))"
  by (simp add: algebra_simps)

lemma regroup_step:
  fixes a p q :: real
  shows "a * (q - 7) = a * (p - 7) + a + a * (q - (p + 1))"
  by (simp add: algebra_simps)

lemma abs_two_sided:
  fixes a b :: real
  shows "\<bar>a\<bar> \<le> b \<Longrightarrow> a \<le> b \<and> - a \<le> b"
  by (simp add: abs_le_iff)

lemma abs_scaled:
  fixes a d e :: real
  assumes "0 \<le> a" and "a \<le> 1" and "\<bar>d\<bar> \<le> e"
  shows "\<bar>a * d\<bar> \<le> e"
proof -
  have "\<bar>a * d\<bar> = a * \<bar>d\<bar>"
    using assms(1) by (simp add: abs_mult)
  also have "\<dots> \<le> 1 * \<bar>d\<bar>"
    using assms(2) by (intro mult_right_mono) simp_all
  finally show ?thesis
    using assms(3) by simp
qed

lemma rawPotential_catalyst:
  "\<exists>P. \<forall>c. rawPotential lg (env\<lparr>catalyst := c\<rparr>) b = js_add P (catalystBoost c)"
proof -
  have "\<forall>c. rawPotential lg (env\<lparr>catalyst := c\<rparr>) b =
          js_add (js_add
              (js_add (js_mul (js_mul b
                   (js_div (js_add (Fin (temperature env)) (literal 273.15)) (literal 298.15)))
                   (solventFactor (solvent env)))
                 (js_mul (Math_log lg (Fin (pressure env))) (literal 0.01)))
              (js_mul (js_neg (literal 0.059)) (js_sub (Fin (ph env)) (literal 7))))
            (catalystBoost c)"
    by (simp add: rawPotential_def)
  then show ?thesis
    by blast
qed

text \<open>A catalyst raises a sum of magnitude at most \<open>10\<^sup>5\<close> by 0.05, up to the rounding of
  the doubles.\<close>

lemma catalyst_raises_sum:
  assumes "name \<noteq> []" and "none = None \<or> none = Some []"
      and "rawPotential lg (env\<lparr>catalyst := none\<rparr>) b = Fin x" and "\<bar>x\<bar> \<le> 10 ^ 5"
  shows "\<exists>x1. rawPotential lg (env\<lparr>catalyst := Some name\<rparr>) b = Fin x1
              \<and> \<bar>x1 - (x + 0.05)\<bar> \<le> 1 / 10 ^ 9"
proof -
  obtain P where P: "\<And>c. rawPotential lg (env\<lparr>catalyst := c\<rparr>) b = js_add P (catalystBoost c)"
    using rawPotential_catalyst [of lg env b] by blast
  have "js_add P (Fin 0) = Fin x"
    using assms(3) unfolding P catalystBoost_none [OF assms(2)] .
  then obtain p where p: "P = Fin p" and px: "double_of p = Fin x"
    using js_add_finite [of P "Fin 0" x] by auto
  have bx: "\<bar>x\<bar> \<le> 100000"
    using assms(4) by simp
  then have "\<bar>x\<bar> \<le> 1000000"
    by simp
  from double_of_near_result [OF px this] have e0: "\<bar>x - p\<bar> \<le> 1 / 4294967296" .
  have "\<bar>p + (3602879701896397 / 72057594037927936)\<bar> \<le> 1000000"
    using e0 bx by linarith
  from double_of_near [OF this] obtain x1
    where x1: "double_of (p + (3602879701896397 / 72057594037927936)) = Fin x1"
      and e1: "\<bar>x1 - (p + (3602879701896397 / 72057594037927936))\<bar> \<le> 1 / 8589934592"
    by blast
  have "rawPotential lg (env\<lparr>catalyst := Some name\<rparr>) b = Fin x1"
    unfolding P p catalystBoost_Some [OF assms(1)] using x1 by simp
  moreover have "\<bar>x1 - (x + 5 / 100)\<bar> \<le> 1 / 1000000000"
    using e0 e1 by linarith
  ultimately show ?thesis
    by simp
qed

lemma rawPotential_ph:
  "\<exists>X. \<forall>p. rawPotential lg (env\<lparr>ph := p\<rparr>) b =
       js_add (js_add X (js_mul (js_neg (literal 0.059)) (js_sub (Fin p) (literal 7))))
         (catalystBoost (catalyst env))"
proof -
  have "\<forall>p. rawPotential lg (env\<lparr>ph := p\<rparr>) b =
          js_add (js_add
              (js_add (js_mul (js_mul b
                   (js_div (js_add (Fin (temperature env)) (literal 273.15)) (literal 298.15)))
                   (solventFactor (solvent env)))
                 (js_mul (Math_log lg (Fin (pressure env))) (literal 0.01)))
              (js_mul (js_neg (literal 0.059)) (js_sub (Fin p) (literal 7))))
            (catalystBoost (catalyst env))"
    by (simp add: rawPotential_def)
  then show ?thesis
    by blast
qed

text \<open>The pH term of a pH of magnitude at most \<open>10\<^sup>5 + 2\<close>.\<close>

lemma phFactor_near:
  assumes "\<bar>p\<bar> \<le> 100002"
  shows "\<exists>f. js_mul (js_neg (literal 0.059)) (js_sub (Fin p) (literal 7)) = Fin f
             \<and> \<bar>f + (1062849512059437 / 18014398509481984) * (p - 7)\<bar> \<le> 1 / 4294967296"
proof -
  have "\<bar>p + - 7\<bar> \<le> 1000000"
    using assms by linarith
  from double_of_near [OF this] obtain t
    where t: "double_of (p + - 7) = Fin t" and et: "\<bar>t - (p + - 7)\<bar> \<le> 1 / 8589934592"
    by blast
  have "\<bar>(1062849512059437 / 18014398509481984) * t\<bar> \<le> 1000000"
  proof (rule abs_scaled)
    show "\<bar>t\<bar> \<le> 1000000"
      using assms et by linarith
  qed simp_all
  then have "\<bar>- (1062849512059437 / 18014398509481984) * t\<bar> \<le> 1000000"
    by simp
  from double_of_near [OF this] obtain f
    where f: "double_of (- (1062849512059437 / 18014398509481984) * t) = Fin f"
      and ef: "\<bar>f - (- (1062849512059437 / 18014398509481984) * t)\<bar> \<le> 1 / 8589934592"
    by blast
  have "js_mul (js_neg (literal 0.059)) (js_sub (Fin p) (literal 7)) = Fin f"
    unfolding literal_0_059 literal_7 js_sub_def using t f by simp
  moreover have "\<bar>f + (1062849512059437 / 18014398509481984) * (p - 7)\<bar> \<le> 1 / 4294967296"
  proof -
    have w: "\<bar>(1062849512059437 / 18014398509481984) * (t - (p + - 7))\<bar> \<le> 1 / 8589934592"
      by (rule abs_scaled [OF _ _ et]) simp_all
    show ?thesis
      unfolding regroup_product [of f _ p t] using ef w by linarith
  qed
  ultimately show ?thesis
    by blast
qed

text \<open>Raising the pH by 1 lowers a sum of magnitude at most \<open>10\<^sup>5\<close> by 0.059, up to the
  rounding of the doubles.\<close>

lemma ph_lowers_sum:
  assumes "rawPotential lg env b = Fin x" and "\<bar>x\<bar> \<le> 10 ^ 5" and "\<bar>ph env\<bar> \<le> 10 ^ 5"
      and "\<bar>ph' - (ph env + 1)\<bar> \<le> 1 / 10 ^ 9"
  shows "\<exists>x1. rawPotential lg (env\<lparr>ph := ph'\<rparr>) b = Fin x1
              \<and> \<bar>x1 - (x - 0.059)\<bar> \<le> 1 / 10 ^ 8"
proof -
  obtain X where X: "\<And>p. rawPotential lg (env\<lparr>ph := p\<rparr>) b =
       js_add (js_add X (js_mul (js_neg (literal 0.059)) (js_sub (Fin p) (literal 7))))
         (catalystBoost (catalyst env))"
    using rawPotential_ph [of lg env b] by blast
  have bx: "\<bar>x\<bar> \<le> 100000" and bp: "\<bar>ph env\<bar> \<le> 100000"
    and dp: "\<bar>ph' - (ph env + 1)\<bar> \<le> 1 / 1000000000"
    using assms(2-4) by simp_all
  have p0: "\<bar>ph env\<bar> \<le> 100002" and p1: "\<bar>ph'\<bar> \<le> 100002"
    using bp dp by linarith+
  have "\<exists>c. catalystBoost (catalyst env) = Fin c \<and> 0 \<le> c \<and> c \<le> 1"
  proof (rule disjE [OF catalystBoost_cases [of "catalyst env"]])
    assume "catalystBoost (catalyst env) = Fin 0"
    then show ?thesis by simp
  next
    assume "catalystBoost (catalyst env) = Fin (3602879701896397 / 72057594037927936)"
    then show ?thesis
      by (intro exI [of _ "(3602879701896397 / 72057594037927936)"]) simp
  qed
  then obtain c where c: "catalystBoost (catalyst env) = Fin c" and bc: "0 \<le> c" "c \<le> 1"
    by blast
  define u0 where "u0 = (1062849512059437 / 18014398509481984) * (ph env - 7)"
  define u1 where "u1 = (1062849512059437 / 18014398509481984) * (ph' - 7)"
  define w where "w = (1062849512059437 / 18014398509481984) * (ph' - (ph env + 1))"
  have bw: "\<bar>w\<bar> \<le> 1 / 1000000000"
    unfolding w_def by (rule abs_scaled [OF _ _ dp]) simp_all
  have bu0: "\<bar>u0\<bar> \<le> 100009"
    unfolding u0_def
  proof (rule abs_scaled)
    show "\<bar>ph env - 7\<bar> \<le> 100009"
      using p0 by linarith
  qed simp_all
  have uw: "u1 = u0 + (1062849512059437 / 18014398509481984) + w"
    unfolding u0_def u1_def w_def by (rule regroup_step)
  obtain f0 where f0: "js_mul (js_neg (literal 0.059)) (js_sub (Fin (ph env)) (literal 7)) = Fin f0"
      and ef0: "\<bar>f0 + (1062849512059437 / 18014398509481984) * (ph env - 7)\<bar> \<le> 1 / 4294967296"
    using phFactor_near [OF p0] by blast
  note ef0 = ef0 [folded u0_def]
  obtain f1 where f1: "js_mul (js_neg (literal 0.059)) (js_sub (Fin ph') (literal 7)) = Fin f1"
      and ef1: "\<bar>f1 + (1062849512059437 / 18014398509481984) * (ph' - 7)\<bar> \<le> 1 / 4294967296"
    using phFactor_near [OF p1] by blast
  note ef1 = ef1 [folded u1_def]
  have "env\<lparr>ph := ph env\<rparr> = env"
    by simp
  then have "js_add (js_add X (Fin f0)) (Fin c) = Fin x"
    using assms(1) X [of "ph env"] unfolding f0 c by simp
  then obtain s0 where s0: "js_add X (Fin f0) = Fin s0" and sx: "double_of (s0 + c) = Fin x"
    using js_add_finite [of "js_add X (Fin f0)" "Fin c" x] by auto
  obtain X0 where X0: "X = Fin X0" and xs: "double_of (X0 + f0) = Fin s0"
    using js_add_finite [OF s0] by auto
  have "\<bar>x\<bar> \<le> 1000000"
    using bx by simp
  from double_of_near_result [OF sx this] have e1: "\<bar>x - (s0 + c)\<bar> \<le> 1 / 4294967296" .
  have "\<bar>s0\<bar> \<le> 1000000"
    using e1 bx bc by linarith
  from double_of_near_result [OF xs this] have e2: "\<bar>s0 - (X0 + f0)\<bar> \<le> 1 / 4294967296" .
  note two = abs_two_sided [OF e1] abs_two_sided [OF e2] abs_two_sided [OF ef0]
    abs_two_sided [OF ef1] abs_two_sided [OF bx] abs_two_sided [OF bu0] abs_two_sided [OF bw]
  have "X0 + f1 \<le> 1000000 \<and> - (X0 + f1) \<le> 1000000"
    using two bc uw by (intro conjI) linarith+
  then have "\<bar>X0 + f1\<bar> \<le> 1000000"
    by (simp add: abs_le_iff)
  from double_of_near [OF this] obtain s1
    where s1: "double_of (X0 + f1) = Fin s1" and e3: "\<bar>s1 - (X0 + f1)\<bar> \<le> 1 / 8589934592"
    by blast
  note two3 = abs_two_sided [OF e3]
  have "s1 + c \<le> 1000000 \<and> - (s1 + c) \<le> 1000000"
    using two two3 bc uw by (intro conjI) linarith+
  then have "\<bar>s1 + c\<bar> \<le> 1000000"
    by (simp add: abs_le_iff)
  from double_of_near [OF this] obtain x1
    where x1: "double_of (s1 + c) = Fin x1" and e4: "\<bar>x1 - (s1 + c)\<bar> \<le> 1 / 8589934592"
    by blast
  have "rawPotential lg (env\<lparr>ph := ph'\<rparr>) b = Fin x1"
    unfolding X f1 c X0 using s1 x1 by simp
  moreover have "\<bar>x1 - (x - 59 / 1000)\<bar> \<le> 1 / 100000000"
  proof -
    note two4 = abs_two_sided [OF e4]
    have "x1 - (x - 59 / 1000) \<le> 1 / 100000000 \<and> - (x1 - (x - 59 / 1000)) \<le> 1 / 100000000"
      using two two3 two4 uw by (intro conjI) linarith+
    then show ?thesis
      by (simp only: abs_le_iff)
  qed
  ultimately show ?thesis
    by simp
qed

subsection \<open>The sums of the counterexamples\<close>

lemma rawPotential_standard_Fin:
  assumes "temperature env = 25" and "pressure env = 1" and "solvent env = ''Water''"
      and "double_of b = Fin b"
      and "js_mul (js_neg (literal 0.059)) (js_sub (Fin (ph env)) (literal 7)) = Fin f"
      and "catalystBoost (catalyst env) = Fin c"
      and "js_add (Fin b) (Fin f) = Fin s" and "js_add (Fin s) (Fin c) = Fin x"
  shows "rawPotential lg env (Fin b) = Fin x"
  unfolding rawPotential_standard [OF assms(1-4)] assms(5-8) ..

lemma js_add_0: "double_of b = Fin b \<Longrightarrow> js_add (Fin b) (Fin 0) = Fin b"
  by simp

lemma text_m0_0005: "toFixed 3 (Fin (- (1152921504606847 / 2305843009213693952))) = Str ''-0.001''"
  by (simp add: toFixed_eval)

lemma text_0_0495: "toFixed 3 (Fin (3566850904877433 / 72057594037927936)) = Str ''0.050''"
  by (simp add: toFixed_eval)

lemma text_0_0275: "toFixed 3 (Fin (7926335344172073 / 288230376151711744)) = Str ''0.028''"
  by (simp add: toFixed_eval)

lemma text_m0_0315: "toFixed 3 (Fin (- (1134907106097365 / 36028797018963968))) = Str ''-0.032''"
  by (simp add: toFixed_eval)

lemma text_0_39: "toFixed 3 (Fin (3512807709348987 / 9007199254740992)) = Str ''0.390''"
  by (simp add: toFixed_eval)

lemma text_0_281: "toFixed 3 (Fin (2531022990582219 / 9007199254740992)) = Str ''0.281''"
  by (simp add: toFixed_eval)

lemma value_m0_001: "decimal_value (Str ''-0.001'') = Fin (- 0.001)"
  by (simp add: decimal_value_eval)

lemma value_0_050: "decimal_value (Str ''0.050'') = Fin 0.05"
  by (simp add: decimal_value_eval)

lemma value_0_028: "decimal_value (Str ''0.028'') = Fin 0.028"
  by (simp add: decimal_value_eval)

lemma value_m0_032: "decimal_value (Str ''-0.032'') = Fin (- 0.032)"
  by (simp add: decimal_value_eval)

lemma preset_catalyst_conditions:
  "temperature (preset_environment\<lparr>catalyst := c\<rparr>) = 25"
  "pressure (preset_environment\<lparr>catalyst := c\<rparr>) = 1"
  "solvent (preset_environment\<lparr>catalyst := c\<rparr>) = ''Water''"
  "ph (preset_environment\<lparr>catalyst := c\<rparr>) = 7"
  "catalyst (preset_environment\<lparr>catalyst := c\<rparr>) = c"
  by (simp_all add: preset_environment_def)

lemma preset_ph_conditions:
  "temperature (preset_environment\<lparr>ph := p\<rparr>) = 25"
  "pressure (preset_environment\<lparr>ph := p\<rparr>) = 1"
  "solvent (preset_environment\<lparr>ph := p\<rparr>) = ''Water''"
  "ph (preset_environment\<lparr>ph := p\<rparr>) = p"
  "catalyst (preset_environment\<lparr>ph := p\<rparr>) = None"
  by (simp_all add: preset_environment_def)

text \<open>Under the conditions of the presets, with or without a catalyst.\<close>

lemma rawPotential_preset_catalyst:
  assumes "double_of b = Fin b" and "catalystBoost c = Fin k" and "js_add (Fin b) (Fin k) = Fin x"
  shows "rawPotential lg (preset_environment\<lparr>catalyst := c\<rparr>) (Fin b) = Fin x"
proof (rule rawPotential_standard_Fin [OF preset_catalyst_conditions(1-3) assms(1)])
  show "js_mul (js_neg (literal 0.059))
          (js_sub (Fin (ph (preset_environment\<lparr>catalyst := c\<rparr>))) (literal 7)) = Fin 0"
    unfolding preset_catalyst_conditions by (rule phFactor_7)
  show "catalystBoost (catalyst (preset_environment\<lparr>catalyst := c\<rparr>)) = Fin k"
    unfolding preset_catalyst_conditions by (rule assms(2))
  show "js_add (Fin b) (Fin 0) = Fin b"
    by (rule js_add_0 [OF assms(1)])
  show "js_add (Fin b) (Fin k) = Fin x"
    by (rule assms(3))
qed

text \<open>Under the conditions of the presets at pH 8.\<close>

lemma phFactor_at_8:
  "js_mul (js_neg (literal 0.059)) (js_sub (Fin 8) (literal 7)) = Fin (- (1062849512059437 / 18014398509481984))"
  unfolding literal_0_059 literal_7 js_neg.simps ph_8_minus_7 by (rule phFactor_8)

lemma rawPotential_preset_ph_8:
  assumes "double_of b = Fin b" and "js_add (Fin b) (Fin (- (1062849512059437 / 18014398509481984))) = Fin x"
      and "double_of x = Fin x"
  shows "rawPotential lg (preset_environment\<lparr>ph := 8\<rparr>) (Fin b) = Fin x"
proof (rule rawPotential_standard_Fin [OF preset_ph_conditions(1-3) assms(1)])
  show "js_mul (js_neg (literal 0.059))
          (js_sub (Fin (ph (preset_environment\<lparr>ph := 8\<rparr>))) (literal 7))
        = Fin (- (1062849512059437 / 18014398509481984))"
    unfolding preset_ph_conditions by (rule phFactor_at_8)
  show "catalystBoost (catalyst (preset_environment\<lparr>ph := 8\<rparr>)) = Fin 0"
    unfolding preset_ph_conditions by (rule catalystBoost_None)
  show "js_add (Fin b) (Fin (- (1062849512059437 / 18014398509481984))) = Fin x"
    by (rule assms(2))
  show "js_add (Fin x) (Fin 0) = Fin x"
    by (rule js_add_0 [OF assms(3)])
qed

lemma preset_ph_7: "preset_environment\<lparr>ph := 7\<rparr> = preset_environment"
  by (simp add: preset_environment_def)

lemma preset_catalyst_None: "preset_environment\<lparr>catalyst := None\<rparr> = preset_environment"
  by (simp add: preset_environment_def)

subsection \<open>The cell in the bath\<close>

lemma bath_fields:
  "temperature bath = 50" "pressure bath = 2" "solvent bath = ''Methanol''"
  "catalyst bath = Some ''Pt''" "ph bath = 6"
  by (simp_all add: bath_def)

lemma log_2: "Math_log sample_log (Fin 2) = Fin (6243314768165359 / 9007199254740992)"
  by (simp add: sample_log_def)

lemma solventFactor_Methanol: "solventFactor ''Methanol'' = Fin (4278419646001971 / 4503599627370496)"
  using literal_0_95 by (simp add: table_defs)

lemma bath_terms:
  "js_div (js_add (Fin (temperature bath)) (literal 273.15)) (literal 298.15) = Fin (610153538313255 / 562949953421312)"
  "js_mul (Math_log sample_log (Fin (pressure bath))) (literal 0.01) = Fin (1997860725812915 / 288230376151711744)"
  "js_mul (js_neg (literal 0.059)) (js_sub (Fin (ph bath)) (literal 7)) = Fin (1062849512059437 / 18014398509481984)"
  "solventFactor (solvent bath) = Fin (4278419646001971 / 4503599627370496)"
  "catalystBoost (catalyst bath) = Fin (3602879701896397 / 72057594037927936)"
proof -
  show "js_div (js_add (Fin (temperature bath)) (literal 273.15)) (literal 298.15) = Fin (610153538313255 / 562949953421312)"
    unfolding bath_fields literal_273_15 literal_298_15 kelvin_50 by (rule tempFactor_50)
  show "js_mul (Math_log sample_log (Fin (pressure bath))) (literal 0.01) = Fin (1997860725812915 / 288230376151711744)"
    unfolding bath_fields log_2 literal_0_01 by (rule pressure_term_2)
  show "js_mul (js_neg (literal 0.059)) (js_sub (Fin (ph bath)) (literal 7)) = Fin (1062849512059437 / 18014398509481984)"
    unfolding bath_fields literal_0_059 literal_7 js_neg.simps ph_6_minus_7 by (rule phFactor_6)
  show "solventFactor (solvent bath) = Fin (4278419646001971 / 4503599627370496)"
    unfolding bath_fields by (rule solventFactor_Methanol)
  show "catalystBoost (catalyst bath) = Fin (3602879701896397 / 72057594037927936)"
    unfolding bath_fields by (rule catalystBoost_Some) simp
qed

lemma rawPotential_bath_Zn: "rawPotential sample_log bath (Fin (- (3422735716801577 / 4503599627370496))) = Fin (- (1501068952036575 / 2251799813685248))"
  unfolding rawPotential_def Let_def bath_terms bath_Zn_1 bath_Zn_2 bath_Zn_3 bath_Zn_4
  by (rule bath_Zn_5)

lemma rawPotential_bath_Cu: "rawPotential sample_log bath (Fin (6124895493223875 / 18014398509481984)) = Fin (8394982704902647 / 18014398509481984)"
  unfolding rawPotential_def Let_def bath_terms bath_Cu_1 bath_Cu_2 bath_Cu_3 bath_Cu_4
  by (rule bath_Cu_5)

lemma text_bath_Zn: "toFixed 3 (Fin (- (1501068952036575 / 2251799813685248))) = Str ''-0.667''"
  by (simp add: toFixed_eval)

lemma text_bath_Cu: "toFixed 3 (Fin (8394982704902647 / 18014398509481984)) = Str ''0.466''"
  by (simp add: toFixed_eval)

lemma value_bath_Zn: "decimal_value (Str ''-0.667'') = Fin (- (667 / 1000))"
  by (simp add: decimal_value_eval)

lemma value_bath_Cu: "decimal_value (Str ''0.466'') = Fin (233 / 500)"
  by (simp add: decimal_value_eval)

lemma correction_bath_Zn: "parseFloat (modifyPotential sample_log bath (literal (- 0.76))) = Fin (- (3003900951456121 / 4503599627370496))"
  unfolding modifyPotential_def literal_Zn rawPotential_bath_Zn text_bath_Zn parseFloat_def
    value_bath_Zn jsnum.case by (rule read_bath_Zn)

lemma correction_bath_Cu: "parseFloat (modifyPotential sample_log bath (literal 0.34)) = Fin (8394709705418605 / 18014398509481984)"
  unfolding modifyPotential_def literal_Cu rawPotential_bath_Cu text_bath_Cu parseFloat_def
    value_bath_Cu jsnum.case by (rule read_bath_Cu)

lemma text_bath: "toFixed 4 (Fin (5059114117894929 / 4503599627370496)) = Str ''1.1233''"
  by (simp add: toFixed_eval)

lemma uneven_fields:
  "anode uneven_zinc_copper = ''Zn''" "cathode uneven_zinc_copper = ''Cu''"
  "concAnode uneven_zinc_copper = 2" "concCathode uneven_zinc_copper = 1"
  by (simp_all add: uneven_zinc_copper_def)

lemma solvent_bath: "solvent bath \<notin> set Object_prototype_names"
  by (simp add: bath_def Object_prototype_names_def)

lemma cell_potential_spec_bath:
  "cell_potential_spec sample_log bath (- 0.76) 0.34 2 1 = Str ''1.1233''"
  unfolding cell_potential_spec_unfold modifyPotential_eq_spec [OF solvent_bath, symmetric]
    correction_bath_Zn correction_bath_Cu E0_cell_bath bath_fields literal_273_15 literal_R
    literal_2 literal_F kelvin_50 kelvin_50_R twice_F RT_nF_50 Q_2_1 log_2 bath_thermal
    bath_result
  by (rule text_bath)

subsection \<open>Methanol at 25 degrees Celsius and pressure 1\<close>

lemma rawPotential_room:
  assumes "temperature env = 25" and "pressure env = 1" and "solvent env = name"
      and "ph env = p" and "catalyst env = c"
      and "double_of b = Fin b"
      and "solventFactor name = Fin k"
      and "js_mul (Fin b) (Fin k) = Fin m" and "double_of m = Fin m"
      and "js_mul (js_neg (literal 0.059)) (js_sub (Fin p) (literal 7)) = Fin f"
      and "catalystBoost c = Fin cb"
      and "js_add (Fin m) (Fin f) = Fin s" and "js_add (Fin s) (Fin cb) = Fin x"
  shows "rawPotential lg env (Fin b) = Fin x"
proof -
  have tf: "js_div (js_add (Fin (temperature env)) (literal 273.15)) (literal 298.15) = Fin 1"
    unfolding assms(1) literal_273_15 literal_298_15 kelvin_25 by (rule tempFactor_25)
  have pf: "js_mul (Math_log lg (Fin (pressure env))) (literal 0.01) = Fin 0"
    unfolding assms(2) literal_0_01 by (simp add: double_of_0)
  have b1: "js_mul (Fin b) (Fin 1) = Fin b"
    by (simp add: assms(6))
  have m0: "js_add (Fin m) (Fin 0) = Fin m"
    by (simp add: assms(9))
  show ?thesis
    unfolding rawPotential_def Let_def tf pf b1 assms(3-5) assms(7,8) m0 assms(10-13) ..
qed

lemma phFactor_at_1:
  "js_mul (js_neg (literal 0.059)) (js_sub (Fin 1) (literal 7)) = Fin (3188548536178311 / 9007199254740992)"
  unfolding literal_0_059 literal_7 js_neg.simps ph_1_minus_7 by (rule phFactor_1)

lemma phFactor_at_2:
  "js_mul (js_neg (literal 0.059)) (js_sub (Fin 2) (literal 7)) = Fin (5314247560297185 / 18014398509481984)"
  unfolding literal_0_059 literal_7 js_neg.simps ph_2_minus_7 by (rule phFactor_2)

lemma catalystBoost_Pt: "catalystBoost (Some ''Pt'') = Fin (3602879701896397 / 72057594037927936)"
  by (rule catalystBoost_Some) simp

text \<open>Potassium and mercury in methanol at pH 1, and mercury at pH 2.\<close>

lemma acid_methanol_sums:
  "rawPotential lg acid_methanol (Fin (- (6597773454097777 / 2251799813685248))) = Fin (- (2735373823674155 / 1125899906842624))"
  "rawPotential lg (acid_methanol\<lparr>catalyst := Some ''Pt''\<rparr>) (Fin (- (6597773454097777 / 2251799813685248))) = Fin (- (334884853541503 / 140737488355328))"
  "rawPotential lg acid_methanol (Fin (7656119366529843 / 9007199254740992)) = Fin (5230930967190831 / 4503599627370496)"
  "rawPotential lg (acid_methanol\<lparr>catalyst := Some ''Pt''\<rparr>) (Fin (7656119366529843 / 9007199254740992)) = Fin (1364027737139839 / 1125899906842624)"
  "rawPotential lg (acid_methanol\<lparr>ph := 2\<rparr>) (Fin (7656119366529843 / 9007199254740992)) = Fin (1241304647293993 / 1125899906842624)"
proof -
  show "rawPotential lg acid_methanol (Fin (- (6597773454097777 / 2251799813685248))) = Fin (- (2735373823674155 / 1125899906842624))"
    by (rule rawPotential_room [where name = "''Methanol''" and p = 1 and c = None,
          OF _ _ _ _ _ double_K solventFactor_Methanol methanol_K double_methanol_K
            phFactor_at_1 catalystBoost_None acid_methanol_K
            js_add_0 [OF double_acid_methanol_K]])
      (simp_all add: acid_methanol_def)
  show "rawPotential lg (acid_methanol\<lparr>catalyst := Some ''Pt''\<rparr>) (Fin (- (6597773454097777 / 2251799813685248))) = Fin (- (334884853541503 / 140737488355328))"
    by (rule rawPotential_room [where name = "''Methanol''" and p = 1 and c = "Some ''Pt''",
          OF _ _ _ _ _ double_K solventFactor_Methanol methanol_K double_methanol_K
            phFactor_at_1 catalystBoost_Pt acid_methanol_K acid_methanol_K_catalyst])
      (simp_all add: acid_methanol_def)
  show "rawPotential lg acid_methanol (Fin (7656119366529843 / 9007199254740992)) = Fin (5230930967190831 / 4503599627370496)"
    by (rule rawPotential_room [where name = "''Methanol''" and p = 1 and c = None,
          OF _ _ _ _ _ double_Hg solventFactor_Methanol methanol_Hg double_methanol_Hg
            phFactor_at_1 catalystBoost_None acid_methanol_Hg
            js_add_0 [OF double_acid_methanol_Hg]])
      (simp_all add: acid_methanol_def)
  show "rawPotential lg (acid_methanol\<lparr>catalyst := Some ''Pt''\<rparr>) (Fin (7656119366529843 / 9007199254740992)) = Fin (1364027737139839 / 1125899906842624)"
    by (rule rawPotential_room [where name = "''Methanol''" and p = 1 and c = "Some ''Pt''",
          OF _ _ _ _ _ double_Hg solventFactor_Methanol methanol_Hg double_methanol_Hg
            phFactor_at_1 catalystBoost_Pt acid_methanol_Hg acid_methanol_Hg_catalyst])
      (simp_all add: acid_methanol_def)
  show "rawPotential lg (acid_methanol\<lparr>ph := 2\<rparr>) (Fin (7656119366529843 / 9007199254740992)) = Fin (1241304647293993 / 1125899906842624)"
    by (rule rawPotential_room [where name = "''Methanol''" and p = 2 and c = None,
          OF _ _ _ _ _ double_Hg solventFactor_Methanol methanol_Hg double_methanol_Hg
            phFactor_at_2 catalystBoost_None acid_methanol_Hg_ph_2
            js_add_0 [OF double_acid_methanol_Hg_ph_2]])
      (simp_all add: acid_methanol_def)
qed

lemma acid_methanol_texts:
  "toFixed 3 (Fin (- (2735373823674155 / 1125899906842624))) = Str ''-2.429''"
  "toFixed 3 (Fin (- (334884853541503 / 140737488355328))) = Str ''-2.380''"
  "toFixed 3 (Fin (5230930967190831 / 4503599627370496)) = Str ''1.161''"
  "toFixed 3 (Fin (1364027737139839 / 1125899906842624)) = Str ''1.212''"
  "toFixed 3 (Fin (1241304647293993 / 1125899906842624)) = Str ''1.103''"
  by (simp_all add: toFixed_eval)

lemma acid_methanol_values:
  "decimal_value (Str ''-2.429'') = Fin (- 2.429)"
  "decimal_value (Str ''-2.380'') = Fin (- 2.38)"
  "decimal_value (Str ''1.161'') = Fin 1.161"
  "decimal_value (Str ''1.212'') = Fin 1.212"
  "decimal_value (Str ''1.103'') = Fin 1.103"
  by (simp_all add: decimal_value_eval)

lemma acid_methanol_corrections:
  "modifyPotential lg acid_methanol (literal (- 2.93)) = Str ''-2.429''"
  "modifyPotential lg (acid_methanol\<lparr>catalyst := Some ''Pt''\<rparr>) (literal (- 2.93)) = Str ''-2.380''"
  "modifyPotential lg acid_methanol (literal 0.85) = Str ''1.161''"
  "modifyPotential lg (acid_methanol\<lparr>catalyst := Some ''Pt''\<rparr>) (literal 0.85) = Str ''1.212''"
  "modifyPotential lg (acid_methanol\<lparr>ph := 2\<rparr>) (literal 0.85) = Str ''1.103''"
  unfolding modifyPotential_def literal_K literal_Hg acid_methanol_sums
  by (rule acid_methanol_texts)+

text \<open>Zinc and nickel in methanol at pH 7: the product \<open>-0.25 \<times> 0.95\<close> is the double just
  above the tie \<open>-0.2375\<close> and is written \<^verbatim>\<open>-0.237\<close>.\<close>

lemma neutral_methanol_sums:
  "rawPotential lg (acid_methanol\<lparr>ph := 7\<rparr>) (Fin (- (1 / 4))) = Fin (- (4278419646001971 / 18014398509481984))"
  "rawPotential lg (acid_methanol\<lparr>ph := 7\<rparr>) (Fin (- (3422735716801577 / 4503599627370496))) = Fin (- (1625799465480749 / 2251799813685248))"
proof -
  show "rawPotential lg (acid_methanol\<lparr>ph := 7\<rparr>) (Fin (- (1 / 4))) = Fin (- (4278419646001971 / 18014398509481984))"
    by (rule rawPotential_room [where name = "''Methanol''" and p = 7 and c = None,
          OF _ _ _ _ _ double_Ni solventFactor_Methanol methanol_Ni double_methanol_Ni
            phFactor_7 catalystBoost_None js_add_0 [OF double_methanol_Ni]
            js_add_0 [OF double_methanol_Ni]])
      (simp_all add: acid_methanol_def)
  show "rawPotential lg (acid_methanol\<lparr>ph := 7\<rparr>) (Fin (- (3422735716801577 / 4503599627370496))) = Fin (- (1625799465480749 / 2251799813685248))"
    by (rule rawPotential_room [where name = "''Methanol''" and p = 7 and c = None,
          OF _ _ _ _ _ double_Zn solventFactor_Methanol methanol_Zn double_methanol_Zn
            phFactor_7 catalystBoost_None js_add_0 [OF double_methanol_Zn]
            js_add_0 [OF double_methanol_Zn]])
      (simp_all add: acid_methanol_def)
qed

lemma neutral_methanol_texts:
  "toFixed 3 (Fin (- (4278419646001971 / 18014398509481984))) = Str ''-0.237''"
  "toFixed 3 (Fin (- (1625799465480749 / 2251799813685248))) = Str ''-0.722''"
  "toFixed 4 (Fin (4368491638549381 / 9007199254740992)) = Str ''0.4850''"
  by (simp_all add: toFixed_eval)

lemma neutral_methanol_values:
  "decimal_value (Str ''-0.237'') = Fin (- (237 / 1000))"
  "decimal_value (Str ''-0.722'') = Fin (- (361 / 500))"
  by (simp_all add: decimal_value_eval)

lemma table_Ni: "map_of STANDARD_REDUCTION_POTENTIALS ''Ni'' = Some (- 0.25)"
  by (simp add: STANDARD_REDUCTION_POTENTIALS_def)

lemma potential_zinc_nickel_methanol:
  "calculateCellPotential lg \<lparr>cell_environment = acid_methanol\<lparr>ph := 7\<rparr>\<rparr>
     (zinc_copper\<lparr>cathode := ''Ni''\<rparr>) = Inr (Str ''0.4850'')"
proof -
  have f: "anode (zinc_copper\<lparr>cathode := ''Ni''\<rparr>) = ''Zn''"
      "cathode (zinc_copper\<lparr>cathode := ''Ni''\<rparr>) = ''Ni''"
      "concAnode (zinc_copper\<lparr>cathode := ''Ni''\<rparr>) = 1"
      "concCathode (zinc_copper\<lparr>cathode := ''Ni''\<rparr>) = 1"
    by (simp_all add: zinc_copper_def)
  have env: "cell_environment \<lparr>cell_environment = acid_methanol\<lparr>ph := 7\<rparr>\<rparr>
      = acid_methanol\<lparr>ph := 7\<rparr>"
    by simp
  have T: "temperature (acid_methanol\<lparr>ph := 7\<rparr>) = 25"
    by (simp add: acid_methanol_def)
  have a: "map_of STANDARD_REDUCTION_POTENTIALS (anode (zinc_copper\<lparr>cathode := ''Ni''\<rparr>))
      = Some (- 0.76)"
    unfolding f by (rule table_Zn)
  have c: "map_of STANDARD_REDUCTION_POTENTIALS (cathode (zinc_copper\<lparr>cathode := ''Ni''\<rparr>))
      = Some (- 0.25)"
    unfolding f by (rule table_Ni)
  have z: "concCathode (zinc_copper\<lparr>cathode := ''Ni''\<rparr>) \<noteq> 0"
    by (simp add: f)
  have ea: "parseFloat (modifyPotential lg (acid_methanol\<lparr>ph := 7\<rparr>) (literal (- 0.76)))
      = Fin (- (1625799465480749 / 2251799813685248))"
    unfolding modifyPotential_def literal_Zn neutral_methanol_sums neutral_methanol_texts
      parseFloat_def neutral_methanol_values jsnum.case by (rule read_methanol_Zn)
  have ec: "parseFloat (modifyPotential lg (acid_methanol\<lparr>ph := 7\<rparr>) (literal (- 0.25)))
      = Fin (- (2134706223373615 / 9007199254740992))"
    unfolding modifyPotential_def literal_Ni neutral_methanol_sums neutral_methanol_texts
      parseFloat_def neutral_methanol_values jsnum.case by (rule read_methanol_Ni)
  have q: "Math_log lg (js_div (Fin 1) (Fin 1)) = Fin 0"
    using tempFactor_25 by simp
  have t: "js_sub (Fin (4368491638549381 / 9007199254740992)) (js_mul (Fin (1851345436094547 / 144115188075855872)) (Fin 0)) = Fin (4368491638549381 / 9007199254740992)"
    using double_E0_cell_zinc_nickel_methanol by (simp add: js_sub_def double_of_0)
  have "rawCellPotential lg \<lparr>cell_environment = acid_methanol\<lparr>ph := 7\<rparr>\<rparr>
     (zinc_copper\<lparr>cathode := ''Ni''\<rparr>) = Inr (Fin (4368491638549381 / 9007199254740992))"
    unfolding rawCellPotential_keys [OF a c z] env ea ec T f RT_nF_preset
      E0_cell_zinc_nickel_methanol q t ..
  from calculateCellPotential_raw [OF this] show ?thesis
    unfolding neutral_methanol_texts .
qed

subsection \<open>A quotient that overflows\<close>

lemma overflow_quotient: "js_div (Fin (2 ^ 600)) (Fin (1 / 2 ^ 600)) = PInf"
proof -
  have b: "binade (2 ^ 1200) = 1200"
    by (rule binade_eq) (simp_all add: pow2_def)
  have "double_of (2 ^ 1200) = PInf"
    unfolding double_of_def Let_def b by (simp add: pow2_def round_half_even_def)
  moreover have "(2::real) ^ 600 / (1 / 2 ^ 600) = 2 ^ 1200"
    by (simp add: power_add [symmetric])
  ultimately show ?thesis
    by (simp del: power_numeral add: power_add [symmetric])
qed

section \<open>Numbers that stay finite\<close>

text \<open>A real of magnitude at most \<open>B \<le> 10\<^sup>6\<close> is rounded to a finite number of magnitude at
  most \<open>B + 1\<close>; so are the results of the operations.\<close>

lemma double_of_within:
  assumes "\<bar>x\<bar> \<le> B" and "B \<le> 1000000"
  shows "\<exists>y. double_of x = Fin y \<and> \<bar>y\<bar> \<le> B + 1"
proof -
  have "\<bar>x\<bar> \<le> 1000000"
    using assms by linarith
  from double_of_near [OF this] obtain y
    where y: "double_of x = Fin y" and e: "\<bar>y - x\<bar> \<le> 1 / 8589934592"
    by blast
  have "\<bar>y\<bar> \<le> B + 1"
    using e assms(1) by linarith
  with y show ?thesis
    by blast
qed

lemma js_add_within:
  assumes "\<bar>a\<bar> \<le> A" and "\<bar>b\<bar> \<le> B" and "A + B \<le> 1000000"
  shows "\<exists>y. js_add (Fin a) (Fin b) = Fin y \<and> \<bar>y\<bar> \<le> A + B + 1"
proof -
  have "\<bar>a + b\<bar> \<le> A + B"
    using assms(1,2) by linarith
  from double_of_within [OF this assms(3)] show ?thesis
    by simp
qed

lemma js_sub_within:
  assumes "\<bar>a\<bar> \<le> A" and "\<bar>b\<bar> \<le> B" and "A + B \<le> 1000000"
  shows "\<exists>y. js_sub (Fin a) (Fin b) = Fin y \<and> \<bar>y\<bar> \<le> A + B + 1"
  using js_add_within [of a A "- b" B] assms by (simp add: js_sub_def)

lemma js_mul_within:
  assumes "\<bar>a\<bar> \<le> A" and "\<bar>b\<bar> \<le> B" and "A * B \<le> 1000000"
  shows "\<exists>y. js_mul (Fin a) (Fin b) = Fin y \<and> \<bar>y\<bar> \<le> A * B + 1"
proof -
  have "\<bar>a * b\<bar> = \<bar>a\<bar> * \<bar>b\<bar>"
    by (rule abs_mult)
  also have "\<dots> \<le> A * B"
    using assms(1,2) by (intro mult_mono) simp_all
  finally have "\<bar>a * b\<bar> \<le> A * B" .
  from double_of_within [OF this assms(3)] show ?thesis
    by simp
qed

lemma js_div_within:
  assumes "\<bar>a\<bar> \<le> A" and "1 \<le> d" and "A \<le> 1000000"
  shows "\<exists>y. js_div (Fin a) (Fin d) = Fin y \<and> \<bar>y\<bar> \<le> A + 1"
proof -
  have "\<bar>a / d\<bar> = \<bar>a\<bar> / d"
    using assms(2) by simp
  also have "\<dots> \<le> \<bar>a\<bar> / 1"
    using assms(2) by (intro divide_left_mono) simp_all
  finally have "\<bar>a / d\<bar> \<le> A"
    using assms(1) by simp
  from double_of_within [OF this assms(3)] show ?thesis
    using assms(2) by simp
qed

lemma literal_within:
  assumes "\<bar>x\<bar> \<le> B" and "B \<le> 1000000"
  shows "\<exists>y. literal x = Fin y \<and> \<bar>y\<bar> \<le> B + 1"
proof (cases "x < 0")
  case True
  have "\<bar>- x\<bar> \<le> B"
    using assms(1) by simp
  from double_of_within [OF this assms(2)] obtain y
    where "double_of (- x) = Fin y" and "\<bar>y\<bar> \<le> B + 1"
    by blast
  then have "literal x = Fin (- y) \<and> \<bar>- y\<bar> \<le> B + 1"
    using True by (simp add: literal_def)
  then show ?thesis
    by blast
next
  case False
  with double_of_within [OF assms] show ?thesis
    by (simp add: literal_def)
qed

text \<open>The potentials of the table and the factors of the solvents are small.\<close>

lemma table_within:
  "map_of STANDARD_REDUCTION_POTENTIALS key = Some p \<Longrightarrow> \<bar>p\<bar> \<le> 4"
  by (auto simp: STANDARD_REDUCTION_POTENTIALS_def split: if_splits)

lemma solventFactor_spec_within: "\<bar>solventFactor_spec name\<bar> \<le> 2"
  by (simp add: solventFactor_spec_def)

text \<open>
  With a temperature and a pH of magnitude at most 1000, a solvent that is not an
  inherited name, a logarithm of the pressure that is finite and at most 1000 in
  magnitude and a potential of magnitude at most 5, the sum that \<^verbatim>\<open>modifyPotential\<close>
  rounds is finite and at most 30000 in magnitude.
\<close>

lemma rawPotential_within:
  assumes b: "\<bar>b\<bar> \<le> 5"
      and T: "\<bar>temperature env\<bar> \<le> 1000" and p: "\<bar>ph env\<bar> \<le> 1000"
      and s: "solvent env \<notin> set Object_prototype_names"
      and l: "Math_log lg (Fin (pressure env)) = Fin lp" "\<bar>lp\<bar> \<le> 1000"
  shows "\<exists>x. rawPotential lg env (Fin b) = Fin x \<and> \<bar>x\<bar> \<le> 30000"
proof -
  have d273: "\<bar>(2402652809016115 / 8796093022208) :: real\<bar> \<le> 274"
    by simp
  obtain tk where tk: "js_add (Fin (temperature env)) (literal 273.15) = Fin tk"
      and btk: "\<bar>tk\<bar> \<le> 1275"
    using js_add_within [OF T d273] unfolding literal_273_15 by auto
  obtain tf where tf: "js_div (Fin tk) (literal 298.15) = Fin tf" and btf: "\<bar>tf\<bar> \<le> 1276"
    using js_div_within [OF btk, of "(2622555134571315 / 8796093022208)"] unfolding literal_298_15 by auto
  obtain m1 where m1: "js_mul (Fin b) (Fin tf) = Fin m1" and bm1: "\<bar>m1\<bar> \<le> 6381"
    using js_mul_within [OF b btf] by auto
  obtain k where k: "solventFactor (solvent env) = Fin k" and bk: "\<bar>k\<bar> \<le> 3"
    using literal_within [OF solventFactor_spec_within, of "solvent env"]
    unfolding solventFactor_eq_spec [OF s] by auto
  obtain m2 where m2: "js_mul (Fin m1) (Fin k) = Fin m2" and bm2: "\<bar>m2\<bar> \<le> 19144"
    using js_mul_within [OF bm1 bk] by auto
  have c001: "\<bar>(5764607523034235 / 576460752303423488) :: real\<bar> \<le> 1"
    by simp
  obtain pt where pt: "js_mul (Fin lp) (literal 0.01) = Fin pt" and bpt: "\<bar>pt\<bar> \<le> 1001"
    using js_mul_within [OF l(2) c001] unfolding literal_0_01 by auto
  obtain a1 where a1: "js_add (Fin m2) (Fin pt) = Fin a1" and ba1: "\<bar>a1\<bar> \<le> 20146"
    using js_add_within [OF bm2 bpt] by auto
  have "\<bar>ph env\<bar> \<le> 100002"
    using p by linarith
  from phFactor_near [OF this] obtain f
    where f: "js_mul (js_neg (literal 0.059)) (js_sub (Fin (ph env)) (literal 7)) = Fin f"
      and ef: "\<bar>f + (1062849512059437 / 18014398509481984) * (ph env - 7)\<bar> \<le> 1 / 4294967296"
    by blast
  have "\<bar>(1062849512059437 / 18014398509481984) * (ph env - 7)\<bar> \<le> 1007"
  proof (rule abs_scaled)
    show "\<bar>ph env - 7\<bar> \<le> 1007"
      using p by linarith
  qed simp_all
  then have bf: "\<bar>f\<bar> \<le> 1008"
    using ef by linarith
  obtain a2 where a2: "js_add (Fin a1) (Fin f) = Fin a2" and ba2: "\<bar>a2\<bar> \<le> 21155"
    using js_add_within [OF ba1 bf] by auto
  have "\<exists>c. catalystBoost (catalyst env) = Fin c \<and> \<bar>c\<bar> \<le> 1"
  proof (rule disjE [OF catalystBoost_cases [of "catalyst env"]])
    assume "catalystBoost (catalyst env) = Fin 0"
    then show ?thesis by simp
  next
    assume "catalystBoost (catalyst env) = Fin (3602879701896397 / 72057594037927936)"
    then show ?thesis
      by (intro exI [of _ "(3602879701896397 / 72057594037927936)"]) simp
  qed
  then obtain c where c: "catalystBoost (catalyst env) = Fin c" and bc: "\<bar>c\<bar> \<le> 1"
    by blast
  obtain x where x: "js_add (Fin a2) (Fin c) = Fin x" and bx: "\<bar>x\<bar> \<le> 21157"
    using js_add_within [OF ba2 bc] by auto
  have "rawPotential lg env (Fin b) = Fin x"
    unfolding rawPotential_def Let_def tk tf m1 k m2 l(1) pt a1 f a2 c x ..
  moreover have "\<bar>x\<bar> \<le> 30000"
    using bx by linarith
  ultimately show ?thesis
    by blast
qed

text \<open>Then the corrected potential that is read back is finite as well.\<close>

lemma correction_within:
  assumes "rawPotential lg env b = Fin x" and "\<bar>x\<bar> \<le> 30000"
  shows "\<exists>e. parseFloat (modifyPotential lg env b) = Fin e \<and> \<bar>e\<bar> \<le> 30002"
proof -
  have m: "\<bar>x\<bar> < 10 ^ 21"
    using assms(2) by simp
  have r: "\<bar>round_half_away 3 x\<bar> \<le> 30001"
    using round_half_away_close [of x] assms(2) by linarith
  have "parseFloat (modifyPotential lg env b) = double_of (round_half_away 3 x)"
    unfolding modifyPotential_def assms(1) by (rule parseFloat_toFixed [OF m]) simp
  with double_of_within [OF r] show ?thesis
    by simp
qed

text \<open>
  So is the cell potential before rounding, when moreover the electrodes are keys of the
  table and the logarithm of the quotient of the concentrations is finite and at most
  1000 in magnitude.
\<close>

lemma rawCellPotential_within:
  assumes a: "map_of STANDARD_REDUCTION_POTENTIALS (anode params) = Some pa"
      and c: "map_of STANDARD_REDUCTION_POTENTIALS (cathode params) = Some pc"
      and z: "concCathode params \<noteq> 0"
      and T: "\<bar>temperature (cell_environment this)\<bar> \<le> 1000"
      and p: "\<bar>ph (cell_environment this)\<bar> \<le> 1000"
      and s: "solvent (cell_environment this) \<notin> set Object_prototype_names"
      and l: "Math_log lg (Fin (pressure (cell_environment this))) = Fin lp" "\<bar>lp\<bar> \<le> 1000"
      and q: "Math_log lg (js_div (Fin (concAnode params)) (Fin (concCathode params))) = Fin lq"
             "\<bar>lq\<bar> \<le> 1000"
  shows "\<exists>xa xc r. rawPotential lg (cell_environment this) (literal pa) = Fin xa
           \<and> \<bar>xa\<bar> \<le> 30000
           \<and> rawPotential lg (cell_environment this) (literal pc) = Fin xc
           \<and> \<bar>xc\<bar> \<le> 30000
           \<and> rawCellPotential lg this params = Inr (Fin r) \<and> \<bar>r\<bar> \<le> 100000"
proof -
  have five: "(4::real) \<le> 1000000"
    by simp
  obtain ba where ba: "literal pa = Fin ba" and bba: "\<bar>ba\<bar> \<le> 5"
    using literal_within [OF table_within [OF a] five] by auto
  obtain bc where bc: "literal pc = Fin bc" and bbc: "\<bar>bc\<bar> \<le> 5"
    using literal_within [OF table_within [OF c] five] by auto
  obtain xa where xa: "rawPotential lg (cell_environment this) (literal pa) = Fin xa"
      and bxa: "\<bar>xa\<bar> \<le> 30000"
    using rawPotential_within [OF bba T p s l] unfolding ba by blast
  obtain xc where xc: "rawPotential lg (cell_environment this) (literal pc) = Fin xc"
      and bxc: "\<bar>xc\<bar> \<le> 30000"
    using rawPotential_within [OF bbc T p s l] unfolding bc by blast
  obtain ea where ea: "parseFloat (modifyPotential lg (cell_environment this) (literal pa)) = Fin ea"
      and bea: "\<bar>ea\<bar> \<le> 30002"
    using correction_within [OF xa bxa] by blast
  obtain ec where ec: "parseFloat (modifyPotential lg (cell_environment this) (literal pc)) = Fin ec"
      and bec: "\<bar>ec\<bar> \<le> 30002"
    using correction_within [OF xc bxc] by blast
  obtain e0 where e0: "js_sub (Fin ec) (Fin ea) = Fin e0" and be0: "\<bar>e0\<bar> \<le> 60005"
    using js_sub_within [OF bec bea] by auto
  have d273: "\<bar>(2402652809016115 / 8796093022208) :: real\<bar> \<le> 274"
    by simp
  obtain tk where tk: "js_add (Fin (temperature (cell_environment this))) (literal 273.15) = Fin tk"
      and btk: "\<bar>tk\<bar> \<le> 1275"
    using js_add_within [OF T d273] unfolding literal_273_15 by auto
  have dR: "\<bar>(2340313171806303 / 281474976710656) :: real\<bar> \<le> 9"
    by simp
  obtain v1 where v1: "js_mul (Fin tk) (literal 8.31446261815324) = Fin v1"
      and bv1: "\<bar>v1\<bar> \<le> 11476"
    using js_mul_within [OF btk dR] unfolding literal_R by auto
  have f2: "js_mul (literal 2) (literal 96485.3321233100184) = Fin (1657605384053259 / 8589934592)"
    unfolding literal_2 literal_F by (rule twice_F)
  have "\<bar>v1 / (1657605384053259 / 8589934592)\<bar> \<le> 1"
    using bv1 by simp
  from double_of_within [OF this] obtain rt
    where rt: "js_div (Fin v1) (Fin (1657605384053259 / 8589934592)) = Fin rt" and brt: "\<bar>rt\<bar> \<le> 2"
    by auto
  obtain t where t: "js_mul (Fin rt) (Fin lq) = Fin t" and bt: "\<bar>t\<bar> \<le> 2001"
    using js_mul_within [OF brt q(2)] by auto
  obtain r where r: "js_sub (Fin e0) (Fin t) = Fin r" and br: "\<bar>r\<bar> \<le> 62007"
    using js_sub_within [OF be0 bt] by auto
  have "rawCellPotential lg this params = Inr (Fin r)"
    unfolding rawCellPotential_keys [OF a c z] ea ec e0 tk v1 f2 rt q(1) t r ..
  moreover have "\<bar>r\<bar> \<le> 100000"
    using br by linarith
  ultimately show ?thesis
    using xa bxa xc bxc by blast
qed

text \<open>The bath with the uneven concentrations, as the code computes it.\<close>

lemma potential_bath:
  "calculateCellPotential sample_log \<lparr>cell_environment = bath\<rparr> uneven_zinc_copper
     = Inr (Str ''1.1233'')"
proof -
  have env: "cell_environment \<lparr>cell_environment = bath\<rparr> = bath"
    by simp
  have a: "map_of STANDARD_REDUCTION_POTENTIALS (anode uneven_zinc_copper) = Some (- 0.76)"
    unfolding uneven_fields by (rule table_Zn)
  have c: "map_of STANDARD_REDUCTION_POTENTIALS (cathode uneven_zinc_copper) = Some 0.34"
    unfolding uneven_fields by (rule table_Cu)
  have z: "concCathode uneven_zinc_copper \<noteq> 0"
    by (simp add: uneven_fields)
  show ?thesis
    unfolding calculateCellPotential_raw [OF rawCellPotential_keys [OF a c z]] env uneven_fields
      correction_bath_Zn correction_bath_Cu E0_cell_bath bath_fields literal_273_15 literal_R
      literal_2 literal_F kelvin_50 kelvin_50_R twice_F RT_nF_50 Q_2_1 log_2 bath_thermal
      bath_result text_bath ..
qed

section \<open>The claims\<close>

text \<open>
  C1. When the anode and the cathode are keys of the table of standard reduction
  potentials and \<open>concCathode\<close> is not zero, \<^verbatim>\<open>calculateCellPotential\<close> returns
  \<open>E_cathode - E_anode - ((temperature + 273.15) \<times> R / (2 \<times> F)) \<times> ln (concAnode / concCathode)\<close>
  written with 4 decimals, in the arithmetic of the program, where \<open>E_anode\<close> and
  \<open>E_cathode\<close> are the corrected standard potentials, written with 3 decimals and read
  back, \<open>R = 8.31446261815324\<close>, \<open>F = 96485.3321233100184\<close> and the electron count is 2
  for every pair. With a solvent that is not an inherited name, the corrected potentials
  are those of the correction of the specification, and the text returned is the one the
  steps of the specification give.
\<close>

theorem calculateCellPotential_nernst:
  assumes "map_of STANDARD_REDUCTION_POTENTIALS (anode params) = Some pa"
      and "map_of STANDARD_REDUCTION_POTENTIALS (cathode params) = Some pc"
      and "concCathode params \<noteq> 0"
  shows "calculateCellPotential lg this params =
     Inr (toFixed 4
       (js_sub
          (js_sub (parseFloat (modifyPotential lg (cell_environment this) (literal pc)))
                  (parseFloat (modifyPotential lg (cell_environment this) (literal pa))))
          (js_mul
             (js_div
                (js_mul (js_add (Fin (temperature (cell_environment this))) (literal 273.15))
                   (literal 8.31446261815324))
                (js_mul (literal 2) (literal 96485.3321233100184)))
             (Math_log lg (js_div (Fin (concAnode params)) (Fin (concCathode params)))))))
     \<and> (solvent (cell_environment this) \<notin> set Object_prototype_names \<longrightarrow>
          calculateCellPotential lg this params =
            Inr (cell_potential_spec lg (cell_environment this) pa pc
                   (concAnode params) (concCathode params)))"
proof (intro conjI impI)
  note r = calculateCellPotential_raw [OF rawCellPotential_keys [OF assms]]
  show "calculateCellPotential lg this params =
     Inr (toFixed 4
       (js_sub
          (js_sub (parseFloat (modifyPotential lg (cell_environment this) (literal pc)))
                  (parseFloat (modifyPotential lg (cell_environment this) (literal pa))))
          (js_mul
             (js_div
                (js_mul (js_add (Fin (temperature (cell_environment this))) (literal 273.15))
                   (literal 8.31446261815324))
                (js_mul (literal 2) (literal 96485.3321233100184)))
             (Math_log lg (js_div (Fin (concAnode params)) (Fin (concCathode params)))))))"
    by (rule r)
  assume s: "solvent (cell_environment this) \<notin> set Object_prototype_names"
  show "calculateCellPotential lg this params =
            Inr (cell_potential_spec lg (cell_environment this) pa pc
                   (concAnode params) (concCathode params))"
    unfolding cell_potential_spec_unfold modifyPotential_eq_spec [OF s, symmetric] by (rule r)
qed

theorem calculateCellPotential_nernst_witness:
  "map_of STANDARD_REDUCTION_POTENTIALS (anode uneven_zinc_copper) = Some (- 0.76)
   \<and> map_of STANDARD_REDUCTION_POTENTIALS (cathode uneven_zinc_copper) = Some 0.34
   \<and> concCathode uneven_zinc_copper \<noteq> 0
   \<and> solvent (cell_environment \<lparr>cell_environment = bath\<rparr>) \<notin> set Object_prototype_names
   \<and> cell_potential_spec sample_log bath (- 0.76) 0.34 2 1 = Str ''1.1233''
   \<and> calculateCellPotential sample_log \<lparr>cell_environment = bath\<rparr> uneven_zinc_copper
       = Inr (Str ''1.1233'')"
proof -
  have env: "cell_environment \<lparr>cell_environment = bath\<rparr> = bath"
    by simp
  have a: "map_of STANDARD_REDUCTION_POTENTIALS (anode uneven_zinc_copper) = Some (- 0.76)"
    unfolding uneven_fields by (rule table_Zn)
  have c: "map_of STANDARD_REDUCTION_POTENTIALS (cathode uneven_zinc_copper) = Some 0.34"
    unfolding uneven_fields by (rule table_Cu)
  have z: "concCathode uneven_zinc_copper \<noteq> 0"
    by (simp add: uneven_fields)
  have s: "solvent (cell_environment \<lparr>cell_environment = bath\<rparr>) \<notin> set Object_prototype_names"
    unfolding env by (rule solvent_bath)
  have "calculateCellPotential sample_log \<lparr>cell_environment = bath\<rparr> uneven_zinc_copper =
          Inr (cell_potential_spec sample_log (cell_environment \<lparr>cell_environment = bath\<rparr>)
                 (- 0.76) 0.34 (concAnode uneven_zinc_copper) (concCathode uneven_zinc_copper))"
    using calculateCellPotential_nernst [OF a c z, of sample_log "\<lparr>cell_environment = bath\<rparr>"] s
    by blast
  then have r: "calculateCellPotential sample_log \<lparr>cell_environment = bath\<rparr> uneven_zinc_copper
       = Inr (Str ''1.1233'')"
    unfolding env uneven_fields cell_potential_spec_bath .
  from a c z s cell_potential_spec_bath r show ?thesis
    by (intro conjI)
qed

text \<open>
  C2. The correction is to return the formula of the specification rounded to 3
  decimals, with the solvent factor 1.0 for every name outside the table. The code reads
  \<^verbatim>\<open>solventFactors[this.solvent] || 1.0\<close>, and the lookup also finds the members
  inherited from \<^verbatim>\<open>Object.prototype\<close>: for the solvent \<^verbatim>\<open>constructor\<close>, which is no
  key of the table, the factor is a function, the product is \<^verbatim>\<open>NaN\<close> and the text
  \<^verbatim>\<open>NaN\<close> is returned, where the formula gives \<^verbatim>\<open>0.340\<close>.
\<close>

theorem inherited_solvent_not_neutral:
  "''constructor'' \<notin> set (map fst solventFactors)
   \<and> solventFactor_spec ''constructor'' = 1.0
   \<and> 0 < pressure (preset_environment\<lparr>solvent := ''constructor''\<rparr>)
   \<and> correct_spec lg (preset_environment\<lparr>solvent := ''constructor''\<rparr>) (literal 0.34)
       = Str ''0.340''
   \<and> modifyPotential lg (preset_environment\<lparr>solvent := ''constructor''\<rparr>) (literal 0.34)
       = Str ''NaN''"
proof (intro conjI)
  show "''constructor'' \<notin> set (map fst solventFactors)"
    by (simp add: solventFactors_def)
  show "solventFactor_spec ''constructor'' = 1.0"
    by (simp add: solventFactor_spec_def)
  show "0 < pressure (preset_environment\<lparr>solvent := ''constructor''\<rparr>)"
    by (simp add: preset_environment_def)
  have w: "solvent preset_environment \<notin> set Object_prototype_names"
    by (simp add: preset_environment_def Object_prototype_names_def)
  have "correct_spec lg (preset_environment\<lparr>solvent := ''constructor''\<rparr>) (literal 0.34)
          = correct_spec lg preset_environment (literal 0.34)"
    by (simp add: correct_spec_def solventFactor_spec_def preset_environment_def)
  also have "\<dots> = modifyPotential lg preset_environment (literal 0.34)"
    by (rule modifyPotential_eq_spec [OF w, symmetric])
  also have "\<dots> = Str ''0.340''"
    by (rule correction_Cu)
  finally show "correct_spec lg (preset_environment\<lparr>solvent := ''constructor''\<rparr>) (literal 0.34)
       = Str ''0.340''" .
  have "solventFactor (solvent (preset_environment\<lparr>solvent := ''constructor''\<rparr>)) = NaN"
    by (simp add: table_defs)
  then have "rawPotential lg (preset_environment\<lparr>solvent := ''constructor''\<rparr>) (literal 0.34) = NaN"
    unfolding rawPotential_def Let_def by (simp only: js_mul_NaN js_add.simps)
  then show "modifyPotential lg (preset_environment\<lparr>solvent := ''constructor''\<rparr>) (literal 0.34)
       = Str ''NaN''"
    by (simp only: modifyPotential_def toFixed_NaN)
qed

text \<open>
  C3. For the reference input (anode Zn, cathode Cu, both concentrations 1.0, 25 degrees
  Celsius, pressure 1.0, solvent Water, no catalyst, pH 7) the correction leaves each
  standard potential as it is, writing \<^verbatim>\<open>-0.760\<close> and \<^verbatim>\<open>0.340\<close>, which read back as
  the doubles of \<open>-0.76\<close> and \<open>0.34\<close>, and \<^verbatim>\<open>calculateCellPotential\<close> returns exactly
  \<^verbatim>\<open>1.1000\<close>.
\<close>

theorem reference_case:
  "potential (get_property STANDARD_REDUCTION_POTENTIALS ''Zn'') = literal (- 0.76)
   \<and> potential (get_property STANDARD_REDUCTION_POTENTIALS ''Cu'') = literal 0.34
   \<and> modifyPotential lg
        \<lparr>temperature = 25, pressure = 1.0, solvent = ''Water'', catalyst = None, ph = 7\<rparr>
        (literal (- 0.76)) = Str ''-0.760''
   \<and> decimal_value (Str ''-0.760'') = Fin (- 0.76)
   \<and> parseFloat (Str ''-0.760'') = literal (- 0.76)
   \<and> modifyPotential lg
        \<lparr>temperature = 25, pressure = 1.0, solvent = ''Water'', catalyst = None, ph = 7\<rparr>
        (literal 0.34) = Str ''0.340''
   \<and> decimal_value (Str ''0.340'') = Fin 0.34
   \<and> parseFloat (Str ''0.340'') = literal 0.34
   \<and> calculateCellPotential lg
        \<lparr>cell_environment =
           \<lparr>temperature = 25, pressure = 1.0, solvent = ''Water'', catalyst = None, ph = 7\<rparr>\<rparr>
        \<lparr>anode = ''Zn'', cathode = ''Cu'', concAnode = 1.0, concCathode = 1.0,
         molesReactant = 1.0,
         environment =
           \<lparr>temperature = 25, pressure = 1.0, solvent = ''Water'', catalyst = None, ph = 7\<rparr>\<rparr>
      = Inr (Str ''1.1000'')"
proof (intro conjI)
  show "potential (get_property STANDARD_REDUCTION_POTENTIALS ''Zn'') = literal (- 0.76)"
    using get_property_own [OF table_Zn] by (simp add: potential_def)
  show "potential (get_property STANDARD_REDUCTION_POTENTIALS ''Cu'') = literal 0.34"
    using get_property_own [OF table_Cu] by (simp add: potential_def)
  show "modifyPotential lg
        \<lparr>temperature = 25, pressure = 1.0, solvent = ''Water'', catalyst = None, ph = 7\<rparr>
        (literal (- 0.76)) = Str ''-0.760''"
    using correction_Zn [of lg] unfolding preset_environment_def .
  show "modifyPotential lg
        \<lparr>temperature = 25, pressure = 1.0, solvent = ''Water'', catalyst = None, ph = 7\<rparr>
        (literal 0.34) = Str ''0.340''"
    using correction_Cu [of lg] unfolding preset_environment_def .
  show "decimal_value (Str ''-0.760'') = Fin (- 0.76)"
    by (rule value_Zn)
  show "decimal_value (Str ''0.340'') = Fin 0.34"
    by (rule value_Cu)
  show "parseFloat (Str ''-0.760'') = literal (- 0.76)"
    unfolding read_Zn literal_Zn ..
  show "parseFloat (Str ''0.340'') = literal 0.34"
    unfolding read_Cu literal_Cu ..
  show "calculateCellPotential lg
        \<lparr>cell_environment =
           \<lparr>temperature = 25, pressure = 1.0, solvent = ''Water'', catalyst = None, ph = 7\<rparr>\<rparr>
        \<lparr>anode = ''Zn'', cathode = ''Cu'', concAnode = 1.0, concCathode = 1.0,
         molesReactant = 1.0,
         environment =
           \<lparr>temperature = 25, pressure = 1.0, solvent = ''Water'', catalyst = None, ph = 7\<rparr>\<rparr>
      = Inr (Str ''1.1000'')"
    using potential_zinc_copper [of lg]
    unfolding preset_cell_def zinc_copper_def preset_environment_def .
qed

theorem reference_case_witness:
  "(case calculateCellPotential sample_log preset_cell zinc_copper of
      Inl e \<Rightarrow> False
    | Inr v \<Rightarrow> decimal_value v = Fin 1.1)"
proof -
  have "calculateCellPotential sample_log preset_cell zinc_copper = Inr (Str ''1.1000'')"
    using reference_case [of sample_log]
    unfolding preset_cell_def zinc_copper_def preset_environment_def by (elim conjE)
  then show ?thesis
    by (simp add: value_zinc_copper)
qed

text \<open>
  C4. An identifier that is not a key of the table is to be refused with the error for an
  unknown electrode material. The code tests \<^verbatim>\<open>!STANDARD_REDUCTION_POTENTIALS[params.anode]\<close>,
  and the lookup also finds the members inherited from \<^verbatim>\<open>Object.prototype\<close>: for the
  anode \<^verbatim>\<open>constructor\<close>, which is no key of the table, no error is thrown and the text
  \<^verbatim>\<open>NaN\<close> is returned.
\<close>

theorem inherited_electrode_accepted:
  "''constructor'' \<notin> set (map fst STANDARD_REDUCTION_POTENTIALS)
   \<and> calculateCellPotential lg preset_cell (zinc_copper\<lparr>anode := ''constructor''\<rparr>)
       = Inr (Str ''NaN'')"
proof (intro conjI)
  show "''constructor'' \<notin> set (map fst STANDARD_REDUCTION_POTENTIALS)"
    by (simp add: STANDARD_REDUCTION_POTENTIALS_def)
  have a: "get_property STANDARD_REDUCTION_POTENTIALS (anode (zinc_copper\<lparr>anode := ''constructor''\<rparr>))
             = Inherited"
    by (simp add: table_defs)
  have c: "truthy (get_property STANDARD_REDUCTION_POTENTIALS
             (cathode (zinc_copper\<lparr>anode := ''constructor''\<rparr>)))"
    by (simp add: table_defs zinc_copper_def)
  have z: "concCathode (zinc_copper\<lparr>anode := ''constructor''\<rparr>) \<noteq> 0"
    by (simp add: zinc_copper_def)
  have n: "parseFloat (modifyPotential lg env NaN) = NaN" for env
    by (simp add: modifyPotential_def rawPotential_def toFixed_NaN parseFloat_def
        decimal_value_eval)
  have "rawCellPotential lg preset_cell (zinc_copper\<lparr>anode := ''constructor''\<rparr>) = Inr NaN"
    unfolding rawCellPotential_def Let_def a using c z
    by (simp add: truthy_def potential_def n js_sub_def js_add_NaN)
  then show "calculateCellPotential lg preset_cell (zinc_copper\<lparr>anode := ''constructor''\<rparr>)
       = Inr (Str ''NaN'')"
    by (simp add: calculateCellPotential_def toFixed_NaN)
qed

theorem inherited_electrode_accepted_witness:
  "calculateCellPotential sample_log preset_cell (zinc_copper\<lparr>anode := ''constructor''\<rparr>)
     \<noteq> Inl (Error ''Invalid electrode materials'')"
  using inherited_electrode_accepted [of sample_log] by simp

text \<open>
  C5. When both identifiers are keys of the table and \<open>concCathode\<close> is zero,
  \<^verbatim>\<open>calculateCellPotential\<close> throws the error for a zero cathode concentration and
  returns nothing.
\<close>

theorem zero_cathode_concentration_refused:
  assumes "anode params \<in> set (map fst STANDARD_REDUCTION_POTENTIALS)"
      and "cathode params \<in> set (map fst STANDARD_REDUCTION_POTENTIALS)"
      and "concCathode params = 0"
  shows "calculateCellPotential lg this params =
           Inl (Error ''Cathode concentration cannot be zero'')"
  using truthy_key [OF assms(1)] truthy_key [OF assms(2)] assms(3)
  by (simp add: calculateCellPotential_def rawCellPotential_def Let_def)

theorem zero_cathode_concentration_refused_witness:
  "anode (zinc_copper\<lparr>concCathode := 0\<rparr>) \<in> set (map fst STANDARD_REDUCTION_POTENTIALS)
   \<and> cathode (zinc_copper\<lparr>concCathode := 0\<rparr>) \<in> set (map fst STANDARD_REDUCTION_POTENTIALS)
   \<and> concCathode (zinc_copper\<lparr>concCathode := 0\<rparr>) = 0
   \<and> calculateCellPotential sample_log preset_cell (zinc_copper\<lparr>concCathode := 0\<rparr>) =
       Inl (Error ''Cathode concentration cannot be zero'')"
proof -
  have a: "anode (zinc_copper\<lparr>concCathode := 0\<rparr>) \<in> set (map fst STANDARD_REDUCTION_POTENTIALS)"
    by (simp add: zinc_copper_def STANDARD_REDUCTION_POTENTIALS_def)
  have c: "cathode (zinc_copper\<lparr>concCathode := 0\<rparr>) \<in> set (map fst STANDARD_REDUCTION_POTENTIALS)"
    by (simp add: zinc_copper_def STANDARD_REDUCTION_POTENTIALS_def)
  have z: "concCathode (zinc_copper\<lparr>concCathode := 0\<rparr>) = 0"
    by simp
  from a c z zero_cathode_concentration_refused [OF a c z, of sample_log preset_cell]
  show ?thesis by (intro conjI)
qed

text \<open>
  C6, as amended. Any two non-empty catalyst names give the same corrected potential.
  When the sum without a catalyst (\<^verbatim>\<open>null\<close> or the empty string) is a finite number of
  magnitude at most \<open>10\<^sup>5\<close>, a non-empty catalyst raises the sum before it is rounded by
  0.05, up to \<open>10\<^sup>-\<^sup>9\<close> for the rounding of the doubles, and the corrected potential, which
  is written with 3 decimals after the catalyst is added, by 0.049, 0.050 or 0.051.
\<close>

theorem catalyst_boost:
  assumes "name1 \<noteq> []" and "name2 \<noteq> []" and "none = None \<or> none = Some []"
  shows "modifyPotential lg (env\<lparr>catalyst := Some name1\<rparr>) b =
           modifyPotential lg (env\<lparr>catalyst := Some name2\<rparr>) b
       \<and> (rawPotential lg (env\<lparr>catalyst := none\<rparr>) b = Fin x \<longrightarrow> \<bar>x\<bar> \<le> 10 ^ 5 \<longrightarrow>
            (\<exists>x1 d0 d1.
               rawPotential lg (env\<lparr>catalyst := Some name1\<rparr>) b = Fin x1
               \<and> \<bar>x1 - (x + 0.05)\<bar> \<le> 1 / 10 ^ 9
               \<and> decimal_value (modifyPotential lg (env\<lparr>catalyst := none\<rparr>) b) = Fin d0
               \<and> decimal_value (modifyPotential lg (env\<lparr>catalyst := Some name1\<rparr>) b) = Fin d1
               \<and> (d1 - d0 = 0.049 \<or> d1 - d0 = 0.05 \<or> d1 - d0 = 0.051)))"
proof (intro conjI impI)
  obtain P where P: "\<And>c. rawPotential lg (env\<lparr>catalyst := c\<rparr>) b = js_add P (catalystBoost c)"
    using rawPotential_catalyst [of lg env b] by blast
  show "modifyPotential lg (env\<lparr>catalyst := Some name1\<rparr>) b =
           modifyPotential lg (env\<lparr>catalyst := Some name2\<rparr>) b"
    unfolding modifyPotential_def P catalystBoost_Some [OF assms(1)]
      catalystBoost_Some [OF assms(2)] ..
next
  assume r: "rawPotential lg (env\<lparr>catalyst := none\<rparr>) b = Fin x" and m: "\<bar>x\<bar> \<le> 10 ^ 5"
  obtain x1 where x1: "rawPotential lg (env\<lparr>catalyst := Some name1\<rparr>) b = Fin x1"
      and e: "\<bar>x1 - (x + 0.05)\<bar> \<le> 1 / 10 ^ 9"
    using catalyst_raises_sum [OF assms(1) assms(3) r m] by blast
  have "\<bar>x1 - (x + of_int 50 / 1000)\<bar> \<le> 1 / 10 ^ 6"
    using e by simp
  from written_shift [OF m this]
  obtain d0 d1 where d0: "decimal_value (toFixed 3 (Fin x)) = Fin d0"
      and d1: "decimal_value (toFixed 3 (Fin x1)) = Fin d1"
      and d: "d1 - d0 = (of_int 50 - 1) / 1000 \<or> d1 - d0 = of_int 50 / 1000
              \<or> d1 - d0 = (of_int 50 + 1) / 1000"
    by auto
  have dd: "d1 - d0 = 0.049 \<or> d1 - d0 = 0.05 \<or> d1 - d0 = 0.051"
    using d by simp
  show "\<exists>x1 d0 d1.
               rawPotential lg (env\<lparr>catalyst := Some name1\<rparr>) b = Fin x1
               \<and> \<bar>x1 - (x + 0.05)\<bar> \<le> 1 / 10 ^ 9
               \<and> decimal_value (modifyPotential lg (env\<lparr>catalyst := none\<rparr>) b) = Fin d0
               \<and> decimal_value (modifyPotential lg (env\<lparr>catalyst := Some name1\<rparr>) b) = Fin d1
               \<and> (d1 - d0 = 0.049 \<or> d1 - d0 = 0.05 \<or> d1 - d0 = 0.051)"
    unfolding modifyPotential_def r x1 using e d0 d1 dd by blast
qed

theorem catalyst_boost_witness:
  "''Pt'' \<noteq> [] \<and> ''Ni'' \<noteq> []
   \<and> rawPotential sample_log (preset_environment\<lparr>catalyst := None\<rparr>) (literal 0.34)
       = Fin (6124895493223875 / 18014398509481984)
   \<and> \<bar>(6124895493223875 / 18014398509481984) :: real\<bar> \<le> 10 ^ 5
   \<and> modifyPotential sample_log (preset_environment\<lparr>catalyst := None\<rparr>) (literal 0.34)
       = Str ''0.340''
   \<and> modifyPotential sample_log (preset_environment\<lparr>catalyst := Some ''Pt''\<rparr>) (literal 0.34)
       = Str ''0.390''
   \<and> modifyPotential sample_log (preset_environment\<lparr>catalyst := Some ''Ni''\<rparr>) (literal 0.34)
       = Str ''0.390''
   \<and> (\<exists>d0 d1.
         decimal_value (modifyPotential sample_log (preset_environment\<lparr>catalyst := None\<rparr>)
           (literal 0.34)) = Fin d0
         \<and> decimal_value (modifyPotential sample_log
              (preset_environment\<lparr>catalyst := Some ''Pt''\<rparr>) (literal 0.34)) = Fin d1
         \<and> (d1 - d0 = 0.049 \<or> d1 - d0 = 0.05 \<or> d1 - d0 = 0.051))"
proof -
  have n1: "''Pt'' \<noteq> []" and n2: "''Ni'' \<noteq> []"
    by simp_all
  have n0: "(None :: string option) = None \<or> (None :: string option) = Some []"
    by simp
  have r: "rawPotential sample_log (preset_environment\<lparr>catalyst := None\<rparr>) (literal 0.34)
       = Fin (6124895493223875 / 18014398509481984)"
    unfolding preset_catalyst_None literal_Cu by (rule rawPotential_preset [OF double_Cu])
  have m: "\<bar>(6124895493223875 / 18014398509481984) :: real\<bar> \<le> 10 ^ 5"
    by simp
  note t = catalyst_boost [OF n1 n2 n0, where lg = sample_log and env = preset_environment
      and b = "literal 0.34" and x = "(6124895493223875 / 18014398509481984)"]
  have t0: "modifyPotential sample_log (preset_environment\<lparr>catalyst := None\<rparr>) (literal 0.34)
       = Str ''0.340''"
    unfolding modifyPotential_def r by (rule text_Cu)
  have "rawPotential sample_log (preset_environment\<lparr>catalyst := Some ''Pt''\<rparr>) (literal 0.34)
       = Fin (3512807709348987 / 9007199254740992)"
    unfolding literal_Cu
    by (rule rawPotential_preset_catalyst [OF double_Cu catalystBoost_Some [OF n1] sum_Cu_catalyst])
  then have t1: "modifyPotential sample_log (preset_environment\<lparr>catalyst := Some ''Pt''\<rparr>)
       (literal 0.34) = Str ''0.390''"
    unfolding modifyPotential_def by (simp only: text_0_39)
  from t have "modifyPotential sample_log (preset_environment\<lparr>catalyst := Some ''Pt''\<rparr>)
       (literal 0.34) =
     modifyPotential sample_log (preset_environment\<lparr>catalyst := Some ''Ni''\<rparr>) (literal 0.34)"
    by (rule conjunct1)
  with t1 have t2: "modifyPotential sample_log (preset_environment\<lparr>catalyst := Some ''Ni''\<rparr>)
       (literal 0.34) = Str ''0.390''"
    by simp
  from t r m have "\<exists>d0 d1.
         decimal_value (modifyPotential sample_log (preset_environment\<lparr>catalyst := None\<rparr>)
           (literal 0.34)) = Fin d0
         \<and> decimal_value (modifyPotential sample_log
              (preset_environment\<lparr>catalyst := Some ''Pt''\<rparr>) (literal 0.34)) = Fin d1
         \<and> (d1 - d0 = 0.049 \<or> d1 - d0 = 0.05 \<or> d1 - d0 = 0.051)"
    by blast
  with n1 n2 r m t0 t1 t2 show ?thesis
    by (intro conjI)
qed

text \<open>
  C6 as stated fails, in both directions. At the base potential \<open>-0.0005\<close> under the
  conditions of the presets, the sum without a catalyst is just below the tie \<open>-0.0005\<close>
  and is written \<^verbatim>\<open>-0.001\<close>; with the catalyst \<^verbatim>\<open>Pt\<close> the sum is just above the tie
  \<open>0.0495\<close> and is written \<^verbatim>\<open>0.050\<close>: the rise is 0.051. For potassium (\<open>-2.93\<close>) in
  methanol at pH 1 the texts are \<^verbatim>\<open>-2.429\<close> and \<^verbatim>\<open>-2.380\<close>: the rise is 0.049.
\<close>

theorem catalyst_boost_counterexample:
  "\<forall>lg.
     modifyPotential lg (preset_environment\<lparr>catalyst := None\<rparr>) (literal (- 0.0005))
       = Str ''-0.001''
     \<and> modifyPotential lg (preset_environment\<lparr>catalyst := Some ''Pt''\<rparr>) (literal (- 0.0005))
         = Str ''0.050''
     \<and> (\<exists>d0 d1.
           decimal_value (modifyPotential lg (preset_environment\<lparr>catalyst := None\<rparr>)
             (literal (- 0.0005))) = Fin d0
           \<and> decimal_value (modifyPotential lg (preset_environment\<lparr>catalyst := Some ''Pt''\<rparr>)
                (literal (- 0.0005))) = Fin d1
           \<and> d1 - d0 = 0.051 \<and> d1 - d0 \<noteq> 0.05)
     \<and> modifyPotential lg acid_methanol (literal (- 2.93)) = Str ''-2.429''
     \<and> modifyPotential lg (acid_methanol\<lparr>catalyst := Some ''Pt''\<rparr>) (literal (- 2.93))
         = Str ''-2.380''
     \<and> (\<exists>d0 d1.
           decimal_value (modifyPotential lg acid_methanol (literal (- 2.93))) = Fin d0
           \<and> decimal_value (modifyPotential lg (acid_methanol\<lparr>catalyst := Some ''Pt''\<rparr>)
                (literal (- 2.93))) = Fin d1
           \<and> d1 - d0 = 0.049 \<and> d1 - d0 \<noteq> 0.05)"
proof
  fix lg
  have "rawPotential lg (preset_environment\<lparr>catalyst := None\<rparr>) (literal (- 0.0005))
          = Fin (- (1152921504606847 / 2305843009213693952))"
    unfolding preset_catalyst_None literal_m0_0005
    by (rule rawPotential_preset [OF double_m0_0005])
  then have n: "modifyPotential lg (preset_environment\<lparr>catalyst := None\<rparr>) (literal (- 0.0005))
       = Str ''-0.001''"
    unfolding modifyPotential_def by (simp only: text_m0_0005)
  have "rawPotential lg (preset_environment\<lparr>catalyst := Some ''Pt''\<rparr>) (literal (- 0.0005))
          = Fin (3566850904877433 / 72057594037927936)"
    unfolding literal_m0_0005
    by (rule rawPotential_preset_catalyst
        [OF double_m0_0005 catalystBoost_Some sum_m0_0005_catalyst]) simp
  then have p: "modifyPotential lg (preset_environment\<lparr>catalyst := Some ''Pt''\<rparr>)
       (literal (- 0.0005)) = Str ''0.050''"
    unfolding modifyPotential_def by (simp only: text_0_0495)
  have "(0.05::real) - (- 0.001) = 0.051 \<and> (0.05::real) - (- 0.001) \<noteq> 0.05"
    by simp
  then have up: "\<exists>d0 d1.
           decimal_value (modifyPotential lg (preset_environment\<lparr>catalyst := None\<rparr>)
             (literal (- 0.0005))) = Fin d0
           \<and> decimal_value (modifyPotential lg (preset_environment\<lparr>catalyst := Some ''Pt''\<rparr>)
                (literal (- 0.0005))) = Fin d1
           \<and> d1 - d0 = 0.051 \<and> d1 - d0 \<noteq> 0.05"
    unfolding n p value_m0_001 value_0_050 by blast
  note k = acid_methanol_corrections(1,2) [of lg]
  have "- 2.38 - (- 2.429::real) = 0.049 \<and> - 2.38 - (- 2.429::real) \<noteq> 0.05"
    by simp
  then have down: "\<exists>d0 d1.
           decimal_value (modifyPotential lg acid_methanol (literal (- 2.93))) = Fin d0
           \<and> decimal_value (modifyPotential lg (acid_methanol\<lparr>catalyst := Some ''Pt''\<rparr>)
                (literal (- 2.93))) = Fin d1
           \<and> d1 - d0 = 0.049 \<and> d1 - d0 \<noteq> 0.05"
    unfolding k acid_methanol_values by blast
  from n p up k down
  show "modifyPotential lg (preset_environment\<lparr>catalyst := None\<rparr>) (literal (- 0.0005))
       = Str ''-0.001''
     \<and> modifyPotential lg (preset_environment\<lparr>catalyst := Some ''Pt''\<rparr>) (literal (- 0.0005))
         = Str ''0.050''
     \<and> (\<exists>d0 d1.
           decimal_value (modifyPotential lg (preset_environment\<lparr>catalyst := None\<rparr>)
             (literal (- 0.0005))) = Fin d0
           \<and> decimal_value (modifyPotential lg (preset_environment\<lparr>catalyst := Some ''Pt''\<rparr>)
                (literal (- 0.0005))) = Fin d1
           \<and> d1 - d0 = 0.051 \<and> d1 - d0 \<noteq> 0.05)
     \<and> modifyPotential lg acid_methanol (literal (- 2.93)) = Str ''-2.429''
     \<and> modifyPotential lg (acid_methanol\<lparr>catalyst := Some ''Pt''\<rparr>) (literal (- 2.93))
         = Str ''-2.380''
     \<and> (\<exists>d0 d1.
           decimal_value (modifyPotential lg acid_methanol (literal (- 2.93))) = Fin d0
           \<and> decimal_value (modifyPotential lg (acid_methanol\<lparr>catalyst := Some ''Pt''\<rparr>)
                (literal (- 2.93))) = Fin d1
           \<and> d1 - d0 = 0.049 \<and> d1 - d0 \<noteq> 0.05)"
    by (intro conjI)
qed

text \<open>
  C7, as amended. When the sum is a finite number of magnitude at most \<open>10\<^sup>5\<close> and the pH
  is at most \<open>10\<^sup>5\<close> in magnitude, raising the pH by 1 (up to \<open>10\<^sup>-\<^sup>9\<close>, for a pH that is not
  a whole number) lowers the sum before it is rounded by 0.059, up to \<open>10\<^sup>-\<^sup>8\<close> for the
  rounding of the doubles, and the corrected potential, which is written with 3 decimals
  after the pH term is added, by 0.058, 0.059 or 0.060.
\<close>

theorem ph_shift:
  assumes "rawPotential lg env b = Fin x" and "\<bar>x\<bar> \<le> 10 ^ 5" and "\<bar>ph env\<bar> \<le> 10 ^ 5"
      and "\<bar>ph' - (ph env + 1)\<bar> \<le> 1 / 10 ^ 9"
  shows "\<exists>x1 d0 d1.
           rawPotential lg (env\<lparr>ph := ph'\<rparr>) b = Fin x1
           \<and> \<bar>x1 - (x - 0.059)\<bar> \<le> 1 / 10 ^ 8
           \<and> decimal_value (modifyPotential lg env b) = Fin d0
           \<and> decimal_value (modifyPotential lg (env\<lparr>ph := ph'\<rparr>) b) = Fin d1
           \<and> (d1 - d0 = - 0.06 \<or> d1 - d0 = - 0.059 \<or> d1 - d0 = - 0.058)"
proof -
  obtain x1 where x1: "rawPotential lg (env\<lparr>ph := ph'\<rparr>) b = Fin x1"
      and e: "\<bar>x1 - (x - 0.059)\<bar> \<le> 1 / 10 ^ 8"
    using ph_lowers_sum [OF assms] by blast
  have "\<bar>x1 - (x + of_int (- 59) / 1000)\<bar> \<le> 1 / 10 ^ 6"
    using e by simp
  from written_shift [OF assms(2) this]
  obtain d0 d1 where d0: "decimal_value (toFixed 3 (Fin x)) = Fin d0"
      and d1: "decimal_value (toFixed 3 (Fin x1)) = Fin d1"
      and d: "d1 - d0 = (of_int (- 59) - 1) / 1000 \<or> d1 - d0 = of_int (- 59) / 1000
              \<or> d1 - d0 = (of_int (- 59) + 1) / 1000"
    by auto
  have dd: "d1 - d0 = - 0.06 \<or> d1 - d0 = - 0.059 \<or> d1 - d0 = - 0.058"
    using d by simp
  show ?thesis
    unfolding modifyPotential_def assms(1) x1 using e d0 d1 dd by blast
qed

theorem ph_shift_witness:
  "rawPotential sample_log preset_environment (literal 0.34) = Fin (6124895493223875 / 18014398509481984)
   \<and> \<bar>(6124895493223875 / 18014398509481984) :: real\<bar> \<le> 10 ^ 5
   \<and> \<bar>ph preset_environment\<bar> \<le> 10 ^ 5
   \<and> \<bar>8 - (ph preset_environment + 1)\<bar> \<le> 1 / 10 ^ 9
   \<and> modifyPotential sample_log preset_environment (literal 0.34) = Str ''0.340''
   \<and> modifyPotential sample_log (preset_environment\<lparr>ph := 8\<rparr>) (literal 0.34) = Str ''0.281''
   \<and> (\<exists>d0 d1.
         decimal_value (modifyPotential sample_log preset_environment (literal 0.34)) = Fin d0
         \<and> decimal_value (modifyPotential sample_log (preset_environment\<lparr>ph := 8\<rparr>)
              (literal 0.34)) = Fin d1
         \<and> (d1 - d0 = - 0.06 \<or> d1 - d0 = - 0.059 \<or> d1 - d0 = - 0.058))"
proof -
  have r: "rawPotential sample_log preset_environment (literal 0.34) = Fin (6124895493223875 / 18014398509481984)"
    unfolding literal_Cu by (rule rawPotential_preset [OF double_Cu])
  have m: "\<bar>(6124895493223875 / 18014398509481984) :: real\<bar> \<le> 10 ^ 5"
    by simp
  have p: "\<bar>ph preset_environment\<bar> \<le> 10 ^ 5"
    by (simp add: preset_conditions)
  have q: "\<bar>8 - (ph preset_environment + 1)\<bar> \<le> 1 / 10 ^ 9"
    by (simp add: preset_conditions)
  have t0: "modifyPotential sample_log preset_environment (literal 0.34) = Str ''0.340''"
    by (rule correction_Cu)
  have "rawPotential sample_log (preset_environment\<lparr>ph := 8\<rparr>) (literal 0.34) = Fin (2531022990582219 / 9007199254740992)"
    unfolding literal_Cu
    by (rule rawPotential_preset_ph_8 [OF double_Cu sum_Cu_ph_8 double_sum_Cu_ph_8])
  then have t1: "modifyPotential sample_log (preset_environment\<lparr>ph := 8\<rparr>) (literal 0.34)
      = Str ''0.281''"
    unfolding modifyPotential_def by (simp only: text_0_281)
  from ph_shift [OF r m p q]
  have "\<exists>d0 d1.
         decimal_value (modifyPotential sample_log preset_environment (literal 0.34)) = Fin d0
         \<and> decimal_value (modifyPotential sample_log (preset_environment\<lparr>ph := 8\<rparr>)
              (literal 0.34)) = Fin d1
         \<and> (d1 - d0 = - 0.06 \<or> d1 - d0 = - 0.059 \<or> d1 - d0 = - 0.058)"
    by blast
  with r m p q t0 t1 show ?thesis
    by (intro conjI)
qed

text \<open>
  C7 as stated fails, in both directions. At the base potential \<open>0.0275\<close> under the
  conditions of the presets, pH 7 gives a sum just above the tie \<open>0.0275\<close>, written
  \<^verbatim>\<open>0.028\<close>, and pH 8 gives a sum just below the tie \<open>-0.0315\<close>, written \<^verbatim>\<open>-0.032\<close>:
  the shift is \<open>-0.060\<close>. For mercury (\<open>0.85\<close>) in methanol the texts are \<^verbatim>\<open>1.161\<close> at
  pH 1 and \<^verbatim>\<open>1.103\<close> at pH 2: the shift is \<open>-0.058\<close>.
\<close>

theorem ph_shift_counterexample:
  "\<forall>lg.
     modifyPotential lg (preset_environment\<lparr>ph := 7\<rparr>) (literal 0.0275) = Str ''0.028''
     \<and> modifyPotential lg (preset_environment\<lparr>ph := 8\<rparr>) (literal 0.0275) = Str ''-0.032''
     \<and> (\<exists>d0 d1.
           decimal_value (modifyPotential lg (preset_environment\<lparr>ph := 7\<rparr>) (literal 0.0275))
             = Fin d0
           \<and> decimal_value (modifyPotential lg (preset_environment\<lparr>ph := 8\<rparr>) (literal 0.0275))
               = Fin d1
           \<and> d1 - d0 = - 0.06 \<and> d1 - d0 \<noteq> - 0.059)
     \<and> ph acid_methanol = 1
     \<and> modifyPotential lg acid_methanol (literal 0.85) = Str ''1.161''
     \<and> modifyPotential lg (acid_methanol\<lparr>ph := 2\<rparr>) (literal 0.85) = Str ''1.103''
     \<and> (\<exists>d0 d1.
           decimal_value (modifyPotential lg acid_methanol (literal 0.85)) = Fin d0
           \<and> decimal_value (modifyPotential lg (acid_methanol\<lparr>ph := 2\<rparr>) (literal 0.85))
               = Fin d1
           \<and> d1 - d0 = - 0.058 \<and> d1 - d0 \<noteq> - 0.059)"
proof
  fix lg
  have "rawPotential lg (preset_environment\<lparr>ph := 7\<rparr>) (literal 0.0275) = Fin (7926335344172073 / 288230376151711744)"
    unfolding preset_ph_7 literal_0_0275 by (rule rawPotential_preset [OF double_0_0275])
  then have a: "modifyPotential lg (preset_environment\<lparr>ph := 7\<rparr>) (literal 0.0275)
      = Str ''0.028''"
    unfolding modifyPotential_def by (simp only: text_0_0275)
  have "rawPotential lg (preset_environment\<lparr>ph := 8\<rparr>) (literal 0.0275) = Fin (- (1134907106097365 / 36028797018963968))"
    unfolding literal_0_0275
    by (rule rawPotential_preset_ph_8 [OF double_0_0275 sum_0_0275_ph_8 double_sum_0_0275_ph_8])
  then have b: "modifyPotential lg (preset_environment\<lparr>ph := 8\<rparr>) (literal 0.0275)
      = Str ''-0.032''"
    unfolding modifyPotential_def by (simp only: text_m0_0315)
  have "- 0.032 - (0.028::real) = - 0.06 \<and> - 0.032 - (0.028::real) \<noteq> - 0.059"
    by simp
  then have down: "\<exists>d0 d1.
           decimal_value (modifyPotential lg (preset_environment\<lparr>ph := 7\<rparr>) (literal 0.0275))
             = Fin d0
           \<and> decimal_value (modifyPotential lg (preset_environment\<lparr>ph := 8\<rparr>) (literal 0.0275))
               = Fin d1
           \<and> d1 - d0 = - 0.06 \<and> d1 - d0 \<noteq> - 0.059"
    unfolding a b value_0_028 value_m0_032 by blast
  have p1: "ph acid_methanol = 1"
    by (simp add: acid_methanol_def)
  note h = acid_methanol_corrections(3,5) [of lg]
  have "1.103 - (1.161::real) = - 0.058 \<and> 1.103 - (1.161::real) \<noteq> - 0.059"
    by simp
  then have up: "\<exists>d0 d1.
           decimal_value (modifyPotential lg acid_methanol (literal 0.85)) = Fin d0
           \<and> decimal_value (modifyPotential lg (acid_methanol\<lparr>ph := 2\<rparr>) (literal 0.85))
               = Fin d1
           \<and> d1 - d0 = - 0.058 \<and> d1 - d0 \<noteq> - 0.059"
    unfolding h acid_methanol_values by blast
  from a b down p1 h up
  show "modifyPotential lg (preset_environment\<lparr>ph := 7\<rparr>) (literal 0.0275) = Str ''0.028''
     \<and> modifyPotential lg (preset_environment\<lparr>ph := 8\<rparr>) (literal 0.0275) = Str ''-0.032''
     \<and> (\<exists>d0 d1.
           decimal_value (modifyPotential lg (preset_environment\<lparr>ph := 7\<rparr>) (literal 0.0275))
             = Fin d0
           \<and> decimal_value (modifyPotential lg (preset_environment\<lparr>ph := 8\<rparr>) (literal 0.0275))
               = Fin d1
           \<and> d1 - d0 = - 0.06 \<and> d1 - d0 \<noteq> - 0.059)
     \<and> ph acid_methanol = 1
     \<and> modifyPotential lg acid_methanol (literal 0.85) = Str ''1.161''
     \<and> modifyPotential lg (acid_methanol\<lparr>ph := 2\<rparr>) (literal 0.85) = Str ''1.103''
     \<and> (\<exists>d0 d1.
           decimal_value (modifyPotential lg acid_methanol (literal 0.85)) = Fin d0
           \<and> decimal_value (modifyPotential lg (acid_methanol\<lparr>ph := 2\<rparr>) (literal 0.85))
               = Fin d1
           \<and> d1 - d0 = - 0.058 \<and> d1 - d0 \<noteq> - 0.059)"
    by (intro conjI)
qed

text \<open>
  C8, as amended. When the electrodes are keys of the table and \<open>concCathode\<close> is not
  zero, the text \<^verbatim>\<open>calculateCellPotential\<close> returns has exactly 4 decimals if and only
  if the cell potential before rounding is a finite number below \<open>10\<^sup>2\<^sup>1\<close> in magnitude,
  and a corrected potential has exactly 3 decimals if and only if its sum before rounding
  is a finite number below \<open>10\<^sup>2\<^sup>1\<close> in magnitude. In the other cases the text is
  \<^verbatim>\<open>NaN\<close>, \<^verbatim>\<open>Infinity\<close>, \<^verbatim>\<open>-Infinity\<close> or in exponent notation. All three
  texts have their 3, 3 and 4 decimals whenever the temperature and the pH are at
  most 1000 in magnitude, the solvent is not a name inherited from
  \<^verbatim>\<open>Object.prototype\<close>, and \<^verbatim>\<open>Math.log\<close> gives finite numbers of magnitude at most
  1000 for the pressure and for the quotient of the concentrations.
\<close>

theorem results_have_fixed_decimals:
  assumes "map_of STANDARD_REDUCTION_POTENTIALS (anode params) = Some pa"
      and "map_of STANDARD_REDUCTION_POTENTIALS (cathode params) = Some pc"
      and "concCathode params \<noteq> 0"
  shows "(decimal_places (modifyPotential lg (cell_environment this) (literal pa)) = Some 3
            \<longleftrightarrow> (\<exists>x. rawPotential lg (cell_environment this) (literal pa) = Fin x
                     \<and> \<bar>x\<bar> < 10 ^ 21))
       \<and> (decimal_places (modifyPotential lg (cell_environment this) (literal pc)) = Some 3
            \<longleftrightarrow> (\<exists>x. rawPotential lg (cell_environment this) (literal pc) = Fin x
                     \<and> \<bar>x\<bar> < 10 ^ 21))
       \<and> (\<exists>r. rawCellPotential lg this params = Inr r
              \<and> calculateCellPotential lg this params = Inr (toFixed 4 r)
              \<and> (decimal_places (toFixed 4 r) = Some 4 \<longleftrightarrow> (\<exists>x. r = Fin x \<and> \<bar>x\<bar> < 10 ^ 21)))
       \<and> (solvent (cell_environment this) \<notin> set Object_prototype_names \<longrightarrow>
          \<bar>temperature (cell_environment this)\<bar> \<le> 1000 \<longrightarrow>
          \<bar>ph (cell_environment this)\<bar> \<le> 1000 \<longrightarrow>
          Math_log lg (Fin (pressure (cell_environment this))) = Fin lp \<longrightarrow>
          \<bar>lp\<bar> \<le> 1000 \<longrightarrow>
          Math_log lg (js_div (Fin (concAnode params)) (Fin (concCathode params))) = Fin lq \<longrightarrow>
          \<bar>lq\<bar> \<le> 1000 \<longrightarrow>
            decimal_places (modifyPotential lg (cell_environment this) (literal pa)) = Some 3
            \<and> decimal_places (modifyPotential lg (cell_environment this) (literal pc)) = Some 3
            \<and> (\<exists>v. calculateCellPotential lg this params = Inr v
                   \<and> decimal_places v = Some 4))"
proof (intro conjI)
  have nz: "(3::nat) \<noteq> 0" "(4::nat) \<noteq> 0"
    by simp_all
  show "decimal_places (modifyPotential lg (cell_environment this) (literal pa)) = Some 3
            \<longleftrightarrow> (\<exists>x. rawPotential lg (cell_environment this) (literal pa) = Fin x
                     \<and> \<bar>x\<bar> < 10 ^ 21)"
    unfolding modifyPotential_def by (rule decimal_places_toFixed_iff [OF nz(1)])
  show "decimal_places (modifyPotential lg (cell_environment this) (literal pc)) = Some 3
            \<longleftrightarrow> (\<exists>x. rawPotential lg (cell_environment this) (literal pc) = Fin x
                     \<and> \<bar>x\<bar> < 10 ^ 21)"
    unfolding modifyPotential_def by (rule decimal_places_toFixed_iff [OF nz(1)])
  obtain r where r: "rawCellPotential lg this params = Inr r"
    using rawCellPotential_keys [OF assms] by blast
  from r calculateCellPotential_raw [OF r] decimal_places_toFixed_iff [OF nz(2), of r]
  show "\<exists>r. rawCellPotential lg this params = Inr r
              \<and> calculateCellPotential lg this params = Inr (toFixed 4 r)
              \<and> (decimal_places (toFixed 4 r) = Some 4 \<longleftrightarrow> (\<exists>x. r = Fin x \<and> \<bar>x\<bar> < 10 ^ 21))"
    by blast
  show "solvent (cell_environment this) \<notin> set Object_prototype_names \<longrightarrow>
          \<bar>temperature (cell_environment this)\<bar> \<le> 1000 \<longrightarrow>
          \<bar>ph (cell_environment this)\<bar> \<le> 1000 \<longrightarrow>
          Math_log lg (Fin (pressure (cell_environment this))) = Fin lp \<longrightarrow>
          \<bar>lp\<bar> \<le> 1000 \<longrightarrow>
          Math_log lg (js_div (Fin (concAnode params)) (Fin (concCathode params))) = Fin lq \<longrightarrow>
          \<bar>lq\<bar> \<le> 1000 \<longrightarrow>
            decimal_places (modifyPotential lg (cell_environment this) (literal pa)) = Some 3
            \<and> decimal_places (modifyPotential lg (cell_environment this) (literal pc)) = Some 3
            \<and> (\<exists>v. calculateCellPotential lg this params = Inr v
                   \<and> decimal_places v = Some 4)"
  proof (intro impI)
    assume s: "solvent (cell_environment this) \<notin> set Object_prototype_names"
      and T: "\<bar>temperature (cell_environment this)\<bar> \<le> 1000"
      and p: "\<bar>ph (cell_environment this)\<bar> \<le> 1000"
      and l: "Math_log lg (Fin (pressure (cell_environment this))) = Fin lp" "\<bar>lp\<bar> \<le> 1000"
      and q: "Math_log lg (js_div (Fin (concAnode params)) (Fin (concCathode params))) = Fin lq"
             "\<bar>lq\<bar> \<le> 1000"
    from rawCellPotential_within [OF assms T p s l q] obtain xa xc x
      where xa: "rawPotential lg (cell_environment this) (literal pa) = Fin xa"
        and bxa: "\<bar>xa\<bar> \<le> 30000"
        and xc: "rawPotential lg (cell_environment this) (literal pc) = Fin xc"
        and bxc: "\<bar>xc\<bar> \<le> 30000"
        and x: "rawCellPotential lg this params = Inr (Fin x)" and bx: "\<bar>x\<bar> \<le> 100000"
      by blast
    have ma: "\<bar>xa\<bar> < 10 ^ 21" and mc: "\<bar>xc\<bar> < 10 ^ 21" and mx: "\<bar>x\<bar> < 10 ^ 21"
      using bxa bxc bx by simp_all
    have da: "decimal_places (modifyPotential lg (cell_environment this) (literal pa)) = Some 3"
      unfolding modifyPotential_def xa using decimal_places_toFixed_iff [OF nz(1), of "Fin xa"] ma
      by blast
    have dc: "decimal_places (modifyPotential lg (cell_environment this) (literal pc)) = Some 3"
      unfolding modifyPotential_def xc using decimal_places_toFixed_iff [OF nz(1), of "Fin xc"] mc
      by blast
    have "decimal_places (toFixed 4 (Fin x)) = Some 4"
      using decimal_places_toFixed_iff [OF nz(2), of "Fin x"] mx by blast
    with calculateCellPotential_raw [OF x]
    have "\<exists>v. calculateCellPotential lg this params = Inr v \<and> decimal_places v = Some 4"
      by blast
    with da dc
    show "decimal_places (modifyPotential lg (cell_environment this) (literal pa)) = Some 3
            \<and> decimal_places (modifyPotential lg (cell_environment this) (literal pc)) = Some 3
            \<and> (\<exists>v. calculateCellPotential lg this params = Inr v
                   \<and> decimal_places v = Some 4)"
      by (intro conjI)
  qed
qed

theorem results_have_fixed_decimals_witness:
  "map_of STANDARD_REDUCTION_POTENTIALS (anode zinc_copper) = Some (- 0.76)
   \<and> map_of STANDARD_REDUCTION_POTENTIALS (cathode zinc_copper) = Some 0.34
   \<and> concCathode zinc_copper \<noteq> 0
   \<and> rawPotential sample_log (cell_environment preset_cell) (literal (- 0.76)) = Fin (- (3422735716801577 / 4503599627370496))
   \<and> rawPotential sample_log (cell_environment preset_cell) (literal 0.34) = Fin (6124895493223875 / 18014398509481984)
   \<and> rawCellPotential sample_log preset_cell zinc_copper = Inr (Fin (2476979795053773 / 2251799813685248))
   \<and> decimal_places (modifyPotential sample_log (cell_environment preset_cell) (literal (- 0.76)))
       = Some 3
   \<and> decimal_places (modifyPotential sample_log (cell_environment preset_cell) (literal 0.34))
       = Some 3
   \<and> calculateCellPotential sample_log preset_cell zinc_copper = Inr (Str ''1.1000'')
   \<and> decimal_places (Str ''1.1000'') = Some 4
   \<and> map_of STANDARD_REDUCTION_POTENTIALS (anode uneven_zinc_copper) = Some (- 0.76)
   \<and> map_of STANDARD_REDUCTION_POTENTIALS (cathode uneven_zinc_copper) = Some 0.34
   \<and> concCathode uneven_zinc_copper \<noteq> 0
   \<and> solvent (cell_environment \<lparr>cell_environment = bath\<rparr>) \<notin> set Object_prototype_names
   \<and> \<bar>temperature (cell_environment \<lparr>cell_environment = bath\<rparr>)\<bar> \<le> 1000
   \<and> \<bar>ph (cell_environment \<lparr>cell_environment = bath\<rparr>)\<bar> \<le> 1000
   \<and> Math_log sample_log (Fin (pressure (cell_environment \<lparr>cell_environment = bath\<rparr>)))
       = Fin (6243314768165359 / 9007199254740992)
   \<and> Math_log sample_log
         (js_div (Fin (concAnode uneven_zinc_copper)) (Fin (concCathode uneven_zinc_copper)))
       = Fin (6243314768165359 / 9007199254740992)
   \<and> \<bar>(6243314768165359 / 9007199254740992) :: real\<bar> \<le> 1000
   \<and> decimal_places (modifyPotential sample_log (cell_environment \<lparr>cell_environment = bath\<rparr>)
         (literal (- 0.76))) = Some 3
   \<and> decimal_places (modifyPotential sample_log (cell_environment \<lparr>cell_environment = bath\<rparr>)
         (literal 0.34)) = Some 3
   \<and> calculateCellPotential sample_log \<lparr>cell_environment = bath\<rparr> uneven_zinc_copper
       = Inr (Str ''1.1233'')
   \<and> decimal_places (Str ''1.1233'') = Some 4"
proof -
  have env: "cell_environment preset_cell = preset_environment"
    by (simp add: preset_cell_def)
  have a: "map_of STANDARD_REDUCTION_POTENTIALS (anode zinc_copper) = Some (- 0.76)"
    unfolding zinc_copper_fields by (rule table_Zn)
  have c: "map_of STANDARD_REDUCTION_POTENTIALS (cathode zinc_copper) = Some 0.34"
    unfolding zinc_copper_fields by (rule table_Cu)
  have z: "concCathode zinc_copper \<noteq> 0"
    by (simp add: zinc_copper_fields)
  have ra: "rawPotential sample_log (cell_environment preset_cell) (literal (- 0.76)) = Fin (- (3422735716801577 / 4503599627370496))"
    unfolding env literal_Zn by (rule rawPotential_preset [OF double_Zn])
  have rc: "rawPotential sample_log (cell_environment preset_cell) (literal 0.34) = Fin (6124895493223875 / 18014398509481984)"
    unfolding env literal_Cu by (rule rawPotential_preset [OF double_Cu])
  have rr: "rawCellPotential sample_log preset_cell zinc_copper = Inr (Fin (2476979795053773 / 2251799813685248))"
    by (rule rawCellPotential_zinc_copper)
  have ma: "\<bar>(- (3422735716801577 / 4503599627370496)) :: real\<bar> < 10 ^ 21" and mc: "\<bar>(6124895493223875 / 18014398509481984) :: real\<bar> < 10 ^ 21"
    and mr: "\<bar>(2476979795053773 / 2251799813685248) :: real\<bar> < 10 ^ 21"
    by simp_all
  note t = results_have_fixed_decimals [OF a c z,
      where lg = sample_log and this = preset_cell and lp = 0 and lq = 0]
  from t ra ma
  have d3a: "decimal_places (modifyPotential sample_log (cell_environment preset_cell)
      (literal (- 0.76))) = Some 3"
    by blast
  from t rc mc
  have d3c: "decimal_places (modifyPotential sample_log (cell_environment preset_cell)
      (literal 0.34)) = Some 3"
    by blast
  from t obtain r where r: "rawCellPotential sample_log preset_cell zinc_copper = Inr r"
      and v: "calculateCellPotential sample_log preset_cell zinc_copper = Inr (toFixed 4 r)"
      and d: "decimal_places (toFixed 4 r) = Some 4 \<longleftrightarrow> (\<exists>x. r = Fin x \<and> \<bar>x\<bar> < 10 ^ 21)"
    by blast
  from r rr have re: "r = Fin (2476979795053773 / 2251799813685248)"
    by simp
  have v4: "calculateCellPotential sample_log preset_cell zinc_copper = Inr (Str ''1.1000'')"
    using v unfolding re text_zinc_copper .
  have "decimal_places (toFixed 4 r) = Some 4"
    using d re mr by blast
  then have d4: "decimal_places (Str ''1.1000'') = Some 4"
    unfolding re text_zinc_copper .
  have benv: "cell_environment \<lparr>cell_environment = bath\<rparr> = bath"
    by simp
  have ua: "map_of STANDARD_REDUCTION_POTENTIALS (anode uneven_zinc_copper) = Some (- 0.76)"
    unfolding uneven_fields by (rule table_Zn)
  have uc: "map_of STANDARD_REDUCTION_POTENTIALS (cathode uneven_zinc_copper) = Some 0.34"
    unfolding uneven_fields by (rule table_Cu)
  have uz: "concCathode uneven_zinc_copper \<noteq> 0"
    by (simp add: uneven_fields)
  have bs: "solvent (cell_environment \<lparr>cell_environment = bath\<rparr>) \<notin> set Object_prototype_names"
    unfolding benv by (rule solvent_bath)
  have bT: "\<bar>temperature (cell_environment \<lparr>cell_environment = bath\<rparr>)\<bar> \<le> 1000"
    and bp: "\<bar>ph (cell_environment \<lparr>cell_environment = bath\<rparr>)\<bar> \<le> 1000"
    unfolding benv bath_fields by simp_all
  have bl: "Math_log sample_log (Fin (pressure (cell_environment \<lparr>cell_environment = bath\<rparr>)))
       = Fin (6243314768165359 / 9007199254740992)"
    unfolding benv bath_fields by (rule log_2)
  have bq: "Math_log sample_log
         (js_div (Fin (concAnode uneven_zinc_copper)) (Fin (concCathode uneven_zinc_copper)))
       = Fin (6243314768165359 / 9007199254740992)"
    unfolding uneven_fields Q_2_1 by (rule log_2)
  have bb: "\<bar>(6243314768165359 / 9007199254740992) :: real\<bar> \<le> 1000"
    by simp
  note u = results_have_fixed_decimals [OF ua uc uz,
      where lg = sample_log and this = "\<lparr>cell_environment = bath\<rparr>"
        and lp = "(6243314768165359 / 9007199254740992)" and lq = "(6243314768165359 / 9007199254740992)"]
  note w = u [THEN conjunct2, THEN conjunct2, THEN conjunct2, rule_format,
      OF bs bT bp bl bb bq bb]
  note w3a = w [THEN conjunct1] and w3c = w [THEN conjunct2, THEN conjunct1]
  from w [THEN conjunct2, THEN conjunct2] obtain v
    where v1: "calculateCellPotential sample_log \<lparr>cell_environment = bath\<rparr> uneven_zinc_copper
        = Inr v"
      and v2: "decimal_places v = Some 4"
    by (elim exE conjE)
  from v1 have "v = Str ''1.1233''"
    unfolding potential_bath by simp
  with v2 have w4: "decimal_places (Str ''1.1233'') = Some 4"
    by simp
  from a c z ra rc rr d3a d3c v4 d4 ua uc uz bs bT bp bl bq bb w3a w3c potential_bath w4
  show ?thesis
    by (intro conjI)
qed

text \<open>
  C8 as stated fails: with the electrodes Zn and Cu of the table, \<open>concCathode = 1\<close> and
  pressure 1, the anode concentration 0 makes the quotient 0, its logarithm
  \<^verbatim>\<open>-Infinity\<close> and the result the text \<^verbatim>\<open>Infinity\<close>, which has no decimals. With
  the positive concentrations \<open>2\<^sup>6\<^sup>0\<^sup>0\<close> and \<open>2\<^sup>-\<^sup>6\<^sup>0\<^sup>0\<close> the quotient overflows to
  \<^verbatim>\<open>Infinity\<close> and the result is the text \<^verbatim>\<open>-Infinity\<close>.
\<close>

theorem decimal_places_counterexample:
  "\<forall>lg.
     map_of STANDARD_REDUCTION_POTENTIALS (anode (zinc_copper\<lparr>concAnode := 0\<rparr>)) = Some (- 0.76)
     \<and> map_of STANDARD_REDUCTION_POTENTIALS (cathode (zinc_copper\<lparr>concAnode := 0\<rparr>)) = Some 0.34
     \<and> concCathode (zinc_copper\<lparr>concAnode := 0\<rparr>) \<noteq> 0
     \<and> 0 < pressure (cell_environment preset_cell)
     \<and> rawCellPotential lg preset_cell (zinc_copper\<lparr>concAnode := 0\<rparr>) = Inr PInf
     \<and> calculateCellPotential lg preset_cell (zinc_copper\<lparr>concAnode := 0\<rparr>)
         = Inr (Str ''Infinity'')
     \<and> decimal_places (Str ''Infinity'') = None
     \<and> calculateCellPotential lg preset_cell
          (zinc_copper\<lparr>concAnode := 2 ^ 600, concCathode := 1 / 2 ^ 600\<rparr>)
         = Inr (Str ''-Infinity'')
     \<and> decimal_places (Str ''-Infinity'') = None"
proof
  fix lg
  have env: "cell_environment preset_cell = preset_environment"
    by (simp add: preset_cell_def)
  have f: "anode (zinc_copper\<lparr>concAnode := 0\<rparr>) = ''Zn''"
      "cathode (zinc_copper\<lparr>concAnode := 0\<rparr>) = ''Cu''"
      "concAnode (zinc_copper\<lparr>concAnode := 0\<rparr>) = 0"
      "concCathode (zinc_copper\<lparr>concAnode := 0\<rparr>) = 1"
    by (simp_all add: zinc_copper_def)
  have a: "map_of STANDARD_REDUCTION_POTENTIALS (anode (zinc_copper\<lparr>concAnode := 0\<rparr>))
      = Some (- 0.76)"
    unfolding f by (rule table_Zn)
  have c: "map_of STANDARD_REDUCTION_POTENTIALS (cathode (zinc_copper\<lparr>concAnode := 0\<rparr>))
      = Some 0.34"
    unfolding f by (rule table_Cu)
  have z: "concCathode (zinc_copper\<lparr>concAnode := 0\<rparr>) \<noteq> 0"
    by (simp add: f)
  have p: "0 < pressure (cell_environment preset_cell)"
    by (simp add: env preset_conditions)
  have q: "Math_log lg (js_div (Fin 0) (Fin 1)) = NInf"
    by (simp add: double_of_0)
  have t: "js_sub (Fin (2476979795053773 / 2251799813685248)) (js_mul (Fin (1851345436094547 / 144115188075855872)) NInf) = PInf"
    by (simp add: js_sub_def)
  have r: "rawCellPotential lg preset_cell (zinc_copper\<lparr>concAnode := 0\<rparr>) = Inr PInf"
    unfolding rawCellPotential_keys [OF a c z] env correction_Zn correction_Cu read_Zn read_Cu
      preset_conditions f RT_nF_preset E0_cell_zinc_copper q t ..
  have v: "calculateCellPotential lg preset_cell (zinc_copper\<lparr>concAnode := 0\<rparr>)
         = Inr (Str ''Infinity'')"
    unfolding calculateCellPotential_raw [OF r] toFixed_PInf ..
  define big where "big = zinc_copper\<lparr>concAnode := 2 ^ 600, concCathode := 1 / 2 ^ 600\<rparr>"
  have g: "anode big = ''Zn''" "cathode big = ''Cu''" "concAnode big = 2 ^ 600"
      "concCathode big = 1 / 2 ^ 600"
    by (simp_all add: big_def zinc_copper_def del: power_numeral)
  have ab: "map_of STANDARD_REDUCTION_POTENTIALS (anode big) = Some (- 0.76)"
    unfolding g by (rule table_Zn)
  have cb: "map_of STANDARD_REDUCTION_POTENTIALS (cathode big) = Some 0.34"
    unfolding g by (rule table_Cu)
  have zb: "concCathode big \<noteq> 0"
    unfolding g by simp
  have qb: "Math_log lg PInf = PInf"
    by simp
  have tb: "js_sub (Fin (2476979795053773 / 2251799813685248)) (js_mul (Fin (1851345436094547 / 144115188075855872)) PInf) = NInf"
    by (simp add: js_sub_def)
  have rb: "rawCellPotential lg preset_cell big = Inr NInf"
    unfolding rawCellPotential_keys [OF ab cb zb] env correction_Zn correction_Cu read_Zn read_Cu
      preset_conditions g RT_nF_preset E0_cell_zinc_copper overflow_quotient qb tb ..
  have vb: "calculateCellPotential lg preset_cell
          (zinc_copper\<lparr>concAnode := 2 ^ 600, concCathode := 1 / 2 ^ 600\<rparr>)
         = Inr (Str ''-Infinity'')"
    using calculateCellPotential_raw [OF rb] unfolding toFixed_NInf big_def .
  from a c z p r v places_Infinity vb places_minus_Infinity
  show "map_of STANDARD_REDUCTION_POTENTIALS (anode (zinc_copper\<lparr>concAnode := 0\<rparr>)) = Some (- 0.76)
     \<and> map_of STANDARD_REDUCTION_POTENTIALS (cathode (zinc_copper\<lparr>concAnode := 0\<rparr>)) = Some 0.34
     \<and> concCathode (zinc_copper\<lparr>concAnode := 0\<rparr>) \<noteq> 0
     \<and> 0 < pressure (cell_environment preset_cell)
     \<and> rawCellPotential lg preset_cell (zinc_copper\<lparr>concAnode := 0\<rparr>) = Inr PInf
     \<and> calculateCellPotential lg preset_cell (zinc_copper\<lparr>concAnode := 0\<rparr>)
         = Inr (Str ''Infinity'')
     \<and> decimal_places (Str ''Infinity'') = None
     \<and> calculateCellPotential lg preset_cell
          (zinc_copper\<lparr>concAnode := 2 ^ 600, concCathode := 1 / 2 ^ 600\<rparr>)
         = Inr (Str ''-Infinity'')
     \<and> decimal_places (Str ''-Infinity'') = None"
    by (intro conjI)
qed

text \<open>
  C9. No statement of \<^verbatim>\<open>modifyPotential\<close> or of \<^verbatim>\<open>calculateCellPotential\<close> assigns
  to a field. Running the statements of \<^verbatim>\<open>calculateCellPotential\<close> twice in a row
  gives the same outcome twice and leaves the engine, its environment and the argument
  as they were; the outcome is that of the function \<open>calculateCellPotential\<close> of the
  engine and the argument, whatever the console holds. Running the statements of
  \<^verbatim>\<open>modifyPotential\<close> returns the text of the function \<open>modifyPotential\<close> and leaves
  the store as it was.
\<close>

theorem calls_repeatable_fields_untouched:
  "\<not> list_ex assigns (modifyPotential_body lg)
   \<and> \<not> list_ex assigns (calculateCellPotential_body lg)
   \<and> (case call_calculateCellPotential lg s of
        (r1, s1) \<Rightarrow>
          (case call_calculateCellPotential lg s1 of
             (r2, s2) \<Rightarrow>
               r1 = r2
               \<and> engine s1 = engine s \<and> argument s1 = argument s
               \<and> engine s2 = engine s \<and> argument s2 = argument s))
   \<and> fst (call_calculateCellPotential lg s) =
       (case calculateCellPotential lg (engine s) (argument s) of
          Inl e \<Rightarrow> Throws (Err e)
        | Inr t \<Rightarrow> Returns (Text t))
   \<and> call_modifyPotential lg b s =
       (Returns (Text (modifyPotential lg (cell_environment (engine s)) (num b))), s)"
proof (intro conjI)
  show nm: "\<not> list_ex assigns (modifyPotential_body lg)"
    by (simp add: modifyPotential_body_def)
  show nc: "\<not> list_ex assigns (calculateCellPotential_body lg)"
    by (simp add: calculateCellPotential_body_def)
  have km: "engine (snd (call_modifyPotential lg v t)) = engine t
          \<and> argument (snd (call_modifyPotential lg v t)) = argument t" for v t
    unfolding call_modifyPotential_def by (rule exec_keeps_objects [OF _ nm]) simp
  have kc: "engine (snd (call_calculateCellPotential lg t)) = engine t
          \<and> argument (snd (call_calculateCellPotential lg t)) = argument t" for t
    unfolding call_calculateCellPotential_def by (rule exec_keeps_objects [OF km nc])
  have out: "fst (call_calculateCellPotential lg t) =
       (case calculateCellPotential lg (engine t) (argument t) of
          Inl e \<Rightarrow> Throws (Err e)
        | Inr u \<Rightarrow> Returns (Text u))" for t
    unfolding call_calculateCellPotential_eq
    by (cases "calculateCellPotential lg (engine t) (argument t)") simp_all
  show "fst (call_calculateCellPotential lg s) =
       (case calculateCellPotential lg (engine s) (argument s) of
          Inl e \<Rightarrow> Throws (Err e)
        | Inr t \<Rightarrow> Returns (Text t))"
    by (rule out)
  show "call_modifyPotential lg b s =
       (Returns (Text (modifyPotential lg (cell_environment (engine s)) (num b))), s)"
    by (rule call_modifyPotential_eq)
  obtain r1 s1 where c1: "call_calculateCellPotential lg s = (r1, s1)"
    by (cases "call_calculateCellPotential lg s")
  obtain r2 s2 where c2: "call_calculateCellPotential lg s1 = (r2, s2)"
    by (cases "call_calculateCellPotential lg s1")
  have k1: "engine s1 = engine s \<and> argument s1 = argument s"
    using kc [of s] unfolding c1 by simp
  have k2: "engine s2 = engine s1 \<and> argument s2 = argument s1"
    using kc [of s1] unfolding c2 by simp
  have "r1 = r2"
    using out [of s] out [of s1] k1 unfolding c1 c2 by simp
  with k1 k2
  show "case call_calculateCellPotential lg s of
        (r1, s1) \<Rightarrow>
          (case call_calculateCellPotential lg s1 of
             (r2, s2) \<Rightarrow>
               r1 = r2
               \<and> engine s1 = engine s \<and> argument s1 = argument s
               \<and> engine s2 = engine s \<and> argument s2 = argument s)"
    unfolding c1 prod.case c2 by simp
qed

theorem calls_repeatable_fields_untouched_witness:
  "call_calculateCellPotential sample_log
     \<lparr>engine = preset_cell, argument = zinc_copper\<lparr>anode := ''Xx''\<rparr>, console = []\<rparr>
   = (Throws (Err (Error ''Invalid electrode materials'')),
      \<lparr>engine = preset_cell, argument = zinc_copper\<lparr>anode := ''Xx''\<rparr>,
       console = [(''Cell potential calculation error:'', Error ''Invalid electrode materials'')]\<rparr>)
   \<and> fst (call_calculateCellPotential sample_log
       \<lparr>engine = preset_cell, argument = zinc_copper\<lparr>anode := ''Xx''\<rparr>,
        console = [(''Cell potential calculation error:'', Error ''Invalid electrode materials'')]\<rparr>)
     = Throws (Err (Error ''Invalid electrode materials''))
   \<and> call_calculateCellPotential sample_log
       \<lparr>engine = preset_cell, argument = zinc_copper, console = []\<rparr>
     = (Returns (Text (Str ''1.1000'')),
        \<lparr>engine = preset_cell, argument = zinc_copper, console = []\<rparr>)"
proof -
  define s0 where "s0 = \<lparr>engine = preset_cell, argument = zinc_copper\<lparr>anode := ''Xx''\<rparr>,
      console = ([] :: (string \<times> error) list)\<rparr>"
  define s1 where "s1 = \<lparr>engine = preset_cell, argument = zinc_copper\<lparr>anode := ''Xx''\<rparr>,
      console = [(''Cell potential calculation error:'', Error ''Invalid electrode materials'')]\<rparr>"
  have u: "get_property STANDARD_REDUCTION_POTENTIALS (anode (zinc_copper\<lparr>anode := ''Xx''\<rparr>))
             = Undefined"
    by (simp add: table_defs)
  have e: "calculateCellPotential sample_log preset_cell (zinc_copper\<lparr>anode := ''Xx''\<rparr>)
             = Inl (Error ''Invalid electrode materials'')"
    by (rule unknown_electrode_refused) (rule disjI1, rule u)
  have first: "call_calculateCellPotential sample_log s0
      = (Throws (Err (Error ''Invalid electrode materials'')), s1)"
    unfolding call_calculateCellPotential_eq by (simp add: s0_def s1_def e)
  note t = calls_repeatable_fields_untouched [of sample_log s0 Undef]
  from t have "case call_calculateCellPotential sample_log s0 of
        (r1, t1) \<Rightarrow>
          (case call_calculateCellPotential sample_log t1 of
             (r2, t2) \<Rightarrow>
               r1 = r2
               \<and> engine t1 = engine s0 \<and> argument t1 = argument s0
               \<and> engine t2 = engine s0 \<and> argument t2 = argument s0)"
    by (elim conjE)
  then have second: "fst (call_calculateCellPotential sample_log s1)
      = Throws (Err (Error ''Invalid electrode materials''))"
    unfolding first prod.case by (cases "call_calculateCellPotential sample_log s1") simp
  have third: "call_calculateCellPotential sample_log
       \<lparr>engine = preset_cell, argument = zinc_copper, console = []\<rparr>
     = (Returns (Text (Str ''1.1000'')),
        \<lparr>engine = preset_cell, argument = zinc_copper, console = []\<rparr>)"
    unfolding call_calculateCellPotential_eq by (simp add: potential_zinc_copper)
  from first second third show ?thesis
    unfolding s0_def s1_def by (intro conjI)
qed

text \<open>
  C10. \<^verbatim>\<open>calculateCellPotential\<close> reads the environment of the engine it is called on
  and never the \<open>environment\<close> field of its argument: replacing that field by any other
  environment leaves the outcome as it is.
\<close>

theorem params_environment_ignored:
  "calculateCellPotential lg this (params\<lparr>environment := e\<rparr>) = calculateCellPotential lg this params"
  by (simp add: calculateCellPotential_def rawCellPotential_def)

theorem params_environment_ignored_witness:
  "calculateCellPotential sample_log preset_cell
     (zinc_copper\<lparr>environment :=
        \<lparr>temperature = 80, pressure = 5, solvent = ''Ethanol'', catalyst = Some ''Pt'', ph = 2\<rparr>\<rparr>)
   = Inr (Str ''1.1000'')"
proof -
  have "calculateCellPotential sample_log preset_cell
     (zinc_copper\<lparr>environment :=
        \<lparr>temperature = 80, pressure = 5, solvent = ''Ethanol'', catalyst = Some ''Pt'', ph = 2\<rparr>\<rparr>)
    = calculateCellPotential sample_log preset_cell zinc_copper"
    by (rule params_environment_ignored)
  also have "\<dots> = Inr (Str ''1.1000'')"
    by (rule potential_zinc_copper)
  finally show ?thesis .
qed

end
